theory Spec2Isabelle
  imports
    Complex_Main
    "HOL-Library.Sublist"
    "HOL-Library.Log_Nat"
    "HOL-Library.Char_ord"
    "HOL-Library.List_Lexorder"
begin

section \<open>JavaScript values used by the converter\<close>

text \<open>
  The class \<^verbatim>\<open>CurrencyConverter\<close> of \<^verbatim>\<open>script.js\<close> computes with JavaScript numbers:
  IEEE 754 binary64 values. A number is modelled as the real a finite double denotes,
  or one of the three non-finite values. The sign of zero is not modelled: \<open>-0\<close> is
  \<open>0\<close>.
\<close>

datatype jsnum = Fin real | PosInf | NegInf | NaN

subsection \<open>Rounding to the nearest double\<close>

text \<open>
  \<open>binade x\<close> is the exponent \<open>e\<close> with \<open>2\<^sup>e \<le> x < 2\<^sup>e\<^sup>+\<^sup>1\<close>, for positive \<open>x\<close>. It is read
  off the number of bits of the integer part of \<open>x\<close>, or of \<open>1 / x\<close> when \<open>x < 1\<close>.
\<close>

definition binade :: "real \<Rightarrow> int" where
  "binade x = (if 1 \<le> x then bitlen \<lfloor>x\<rfloor> - 1 else - bitlen (\<lceil>1 / x\<rceil> - 1))"

text \<open>The nearest integer, a tie going to the even one.\<close>

definition round_half_even :: "real \<Rightarrow> int" where
  "round_half_even x =
     (let n = \<lfloor>x\<rfloor>
      in if x - of_int n < 1 / 2 then n
         else if 1 / 2 < x - of_int n then n + 1
         else if even n then n else n + 1)"

text \<open>The multiple of \<open>2\<^sup>q\<close> nearest to \<open>a\<close>.\<close>

definition nearest :: "real \<Rightarrow> int \<Rightarrow> real" where
  "nearest a q = of_int (round_half_even (a * 2 powi (- q))) * 2 powi q"

text \<open>
  The double a real result is rounded to (round to nearest, ties to even). A double has
  53 significant bits, so a number in the binade \<open>e\<close> is rounded to a multiple of
  \<open>2\<^sup>e\<^sup>-\<^sup>5\<^sup>2\<close>; below \<open>2\<^sup>-\<^sup>1\<^sup>0\<^sup>2\<^sup>2\<close> the doubles are the multiples of \<open>2\<^sup>-\<^sup>1\<^sup>0\<^sup>7\<^sup>4\<close>, and a
  magnitude that rounds to \<open>2\<^sup>1\<^sup>0\<^sup>2\<^sup>4\<close> or more overflows to infinity.
\<close>

definition round64 :: "real \<Rightarrow> jsnum" where
  "round64 x =
     (if x = 0 then Fin 0
      else
        let q = max (binade \<bar>x\<bar> - 52) (- 1074);
            y = nearest \<bar>x\<bar> q
        in if 2 ^ 1024 \<le> y then (if 0 < x then PosInf else NegInf)
           else Fin (if 0 < x then y else - y))"

subsection \<open>Arithmetic\<close>

text \<open>
  The operators \<^verbatim>\<open>*\<close>, \<^verbatim>\<open>/\<close>, \<^verbatim>\<open>+\<close> and \<^verbatim>\<open>-\<close> compute the exact result of two finite
  operands and round it; the non-finite operands follow IEEE 754.
\<close>

definition js_neg :: "jsnum \<Rightarrow> jsnum" where
  "js_neg n = (case n of Fin a \<Rightarrow> Fin (- a) | PosInf \<Rightarrow> NegInf | NegInf \<Rightarrow> PosInf | NaN \<Rightarrow> NaN)"

fun js_mul :: "jsnum \<Rightarrow> jsnum \<Rightarrow> jsnum" where
  "js_mul NaN y = NaN"
| "js_mul x NaN = NaN"
| "js_mul (Fin a) (Fin b) = round64 (a * b)"
| "js_mul (Fin a) PosInf = (if a = 0 then NaN else if 0 < a then PosInf else NegInf)"
| "js_mul (Fin a) NegInf = (if a = 0 then NaN else if 0 < a then NegInf else PosInf)"
| "js_mul PosInf (Fin b) = (if b = 0 then NaN else if 0 < b then PosInf else NegInf)"
| "js_mul NegInf (Fin b) = (if b = 0 then NaN else if 0 < b then NegInf else PosInf)"
| "js_mul PosInf PosInf = PosInf"
| "js_mul PosInf NegInf = NegInf"
| "js_mul NegInf PosInf = NegInf"
| "js_mul NegInf NegInf = PosInf"

fun js_div :: "jsnum \<Rightarrow> jsnum \<Rightarrow> jsnum" where
  "js_div NaN y = NaN"
| "js_div x NaN = NaN"
| "js_div (Fin a) (Fin b) =
     (if b = 0 then (if a = 0 then NaN else if 0 < a then PosInf else NegInf)
      else round64 (a / b))"
| "js_div (Fin a) PosInf = Fin 0"
| "js_div (Fin a) NegInf = Fin 0"
| "js_div PosInf (Fin b) = (if 0 \<le> b then PosInf else NegInf)"
| "js_div NegInf (Fin b) = (if 0 \<le> b then NegInf else PosInf)"
| "js_div PosInf y = NaN"
| "js_div NegInf y = NaN"

fun js_add :: "jsnum \<Rightarrow> jsnum \<Rightarrow> jsnum" where
  "js_add NaN y = NaN"
| "js_add x NaN = NaN"
| "js_add (Fin a) (Fin b) = round64 (a + b)"
| "js_add (Fin a) PosInf = PosInf"
| "js_add (Fin a) NegInf = NegInf"
| "js_add PosInf (Fin b) = PosInf"
| "js_add NegInf (Fin b) = NegInf"
| "js_add PosInf PosInf = PosInf"
| "js_add NegInf NegInf = NegInf"
| "js_add PosInf NegInf = NaN"
| "js_add NegInf PosInf = NaN"

definition js_sub :: "jsnum \<Rightarrow> jsnum \<Rightarrow> jsnum" where
  "js_sub x y = js_add x (js_neg y)"

text \<open>\<^verbatim>\<open>x <= 0\<close> and \<^verbatim>\<open>!x\<close> on numbers; every comparison with \<^verbatim>\<open>NaN\<close> is false.\<close>

fun js_le_zero :: "jsnum \<Rightarrow> bool" where
  "js_le_zero (Fin a) = (a \<le> 0)"
| "js_le_zero NegInf = True"
| "js_le_zero PosInf = False"
| "js_le_zero NaN = False"

fun falsy_num :: "jsnum \<Rightarrow> bool" where
  "falsy_num (Fin a) = (a = 0)"
| "falsy_num NaN = True"
| "falsy_num PosInf = False"
| "falsy_num NegInf = False"

text \<open>
  A property read yields \<^verbatim>\<open>undefined\<close> when the key is missing; used as an operand,
  \<^verbatim>\<open>undefined\<close> converts to \<^verbatim>\<open>NaN\<close>. The numbers of a response are kept as the JSON
  text writes them, in decimal; the number read from one is the nearest double, as
  \<^verbatim>\<open>response.json()\<close> makes it.
\<close>

datatype jsval = Undefined | Number jsnum

fun ToNumber :: "jsval \<Rightarrow> jsnum" where
  "ToNumber Undefined = NaN"
| "ToNumber (Number n) = n"

definition prop_num :: "real option \<Rightarrow> jsval" where
  "prop_num v = (case v of None \<Rightarrow> Undefined | Some x \<Rightarrow> Number (round64 x))"

text \<open>\<^verbatim>\<open>!s\<close> on a string read from a \<^verbatim>\<open>dataset\<close>: missing or empty.\<close>

definition falsy_str :: "string option \<Rightarrow> bool" where
  "falsy_str v = (case v of None \<Rightarrow> True | Some s \<Rightarrow> s = [])"

text \<open>
  \<^verbatim>\<open>a || b\<close> on strings, and the text a template literal gives a possibly
  missing string.
\<close>

definition or_else :: "string option \<Rightarrow> string option \<Rightarrow> string option" where
  "or_else a b = (if falsy_str a then b else a)"

definition template :: "string option \<Rightarrow> string" where
  "template v = (case v of None \<Rightarrow> ''undefined'' | Some s \<Rightarrow> s)"

text \<open>
  \<^verbatim>\<open>toUpperCase\<close> and \<^verbatim>\<open>toLowerCase\<close> on the ASCII letters; other characters are
  left as they are.
\<close>

definition upper_char :: "char \<Rightarrow> char" where
  "upper_char c =
     (case map_of (zip ''abcdefghijklmnopqrstuvwxyz'' ''ABCDEFGHIJKLMNOPQRSTUVWXYZ'') c of
        None \<Rightarrow> c | Some u \<Rightarrow> u)"

definition lower_char :: "char \<Rightarrow> char" where
  "lower_char c =
     (case map_of (zip ''ABCDEFGHIJKLMNOPQRSTUVWXYZ'' ''abcdefghijklmnopqrstuvwxyz'') c of
        None \<Rightarrow> c | Some l \<Rightarrow> l)"

definition toUpperCase :: "string \<Rightarrow> string" where
  "toUpperCase s = map upper_char s"

definition toLowerCase :: "string \<Rightarrow> string" where
  "toLowerCase s = map lower_char s"

subsection \<open>parseFloat\<close>

text \<open>
  \<^verbatim>\<open>parseFloat\<close> skips leading white space and reads the longest prefix that is a
  decimal literal: an optional sign, then \<^verbatim>\<open>Infinity\<close>, or digits with an optional
  fraction and an optional exponent; the number is the double nearest to the literal's
  value. With no such prefix the result is \<^verbatim>\<open>NaN\<close>.

  Strings are sequences of bytes, the UTF-8 encoding of the text. The white space
  skipped is the language's \<^verbatim>\<open>WhiteSpace\<close> and \<^verbatim>\<open>LineTerminator\<close>: the six ASCII
  characters, and U+00A0, U+1680, U+2000 to U+200A, U+2028, U+2029, U+202F, U+205F, U+3000
  and U+FEFF in their encodings of two or three bytes.
\<close>

definition white_space :: "string list" where
  "white_space =
     [[CHR 0x09], [CHR 0x0A], [CHR 0x0B], [CHR 0x0C], [CHR 0x0D], [CHR 0x20],
      [CHR 0xC2, CHR 0xA0],
      [CHR 0xE1, CHR 0x9A, CHR 0x80],
      [CHR 0xE2, CHR 0x80, CHR 0x80], [CHR 0xE2, CHR 0x80, CHR 0x81],
      [CHR 0xE2, CHR 0x80, CHR 0x82], [CHR 0xE2, CHR 0x80, CHR 0x83],
      [CHR 0xE2, CHR 0x80, CHR 0x84], [CHR 0xE2, CHR 0x80, CHR 0x85],
      [CHR 0xE2, CHR 0x80, CHR 0x86], [CHR 0xE2, CHR 0x80, CHR 0x87],
      [CHR 0xE2, CHR 0x80, CHR 0x88], [CHR 0xE2, CHR 0x80, CHR 0x89],
      [CHR 0xE2, CHR 0x80, CHR 0x8A],
      [CHR 0xE2, CHR 0x80, CHR 0xA8], [CHR 0xE2, CHR 0x80, CHR 0xA9],
      [CHR 0xE2, CHR 0x80, CHR 0xAF],
      [CHR 0xE2, CHR 0x81, CHR 0x9F],
      [CHR 0xE3, CHR 0x80, CHR 0x80],
      [CHR 0xEF, CHR 0xBB, CHR 0xBF]]"

text \<open>
  \<open>skipWhiteSpace n s\<close> drops \<open>n\<close> more bytes of the white space being skipped, then
  every white space that follows.
\<close>

fun skipWhiteSpace :: "nat \<Rightarrow> string \<Rightarrow> string" where
  "skipWhiteSpace n [] = []"
| "skipWhiteSpace (Suc n) (c # s) = skipWhiteSpace n s"
| "skipWhiteSpace 0 (c # s) =
     (case find (\<lambda>ws. prefix ws (c # s)) white_space of
        None \<Rightarrow> c # s
      | Some ws \<Rightarrow> skipWhiteSpace (length ws - 1) s)"

definition trimStart :: "string \<Rightarrow> string" where
  "trimStart s = skipWhiteSpace 0 s"

definition is_digit :: "char \<Rightarrow> bool" where
  "is_digit c = (c \<in> set ''0123456789'')"

definition digit_val :: "char \<Rightarrow> nat" where
  "digit_val c =
     (case map_of (zip ''0123456789'' [0, 1, 2, 3, 4, 5, 6, 7, 8, 9]) c of
        None \<Rightarrow> 0 | Some d \<Rightarrow> d)"

definition dec_val :: "string \<Rightarrow> nat" where
  "dec_val ds = foldl (\<lambda>acc c. 10 * acc + digit_val c) 0 ds"

definition exponent_part :: "string \<Rightarrow> int" where
  "exponent_part r =
     (case r of
        [] \<Rightarrow> 0
      | c # r1 \<Rightarrow>
          if c = CHR ''e'' \<or> c = CHR ''E'' then
            (case r1 of
               [] \<Rightarrow> 0
             | d # r2 \<Rightarrow>
                 if d = CHR ''-'' then - int (dec_val (takeWhile is_digit r2))
                 else if d = CHR ''+'' then int (dec_val (takeWhile is_digit r2))
                 else int (dec_val (takeWhile is_digit r1)))
          else 0)"

definition scale10 :: "real \<Rightarrow> int \<Rightarrow> real" where
  "scale10 m e = (if 0 \<le> e then m * 10 ^ nat e else m / 10 ^ nat (- e))"

definition unsigned_literal :: "string \<Rightarrow> jsnum" where
  "unsigned_literal r =
     (if prefix ''Infinity'' r then PosInf
      else
        let ip = takeWhile is_digit r;
            r1 = dropWhile is_digit r;
            has_dot = (r1 \<noteq> [] \<and> hd r1 = CHR ''.'');
            fp = (if has_dot then takeWhile is_digit (tl r1) else []);
            r2 = (if has_dot then dropWhile is_digit (tl r1) else r1)
        in if ip = [] \<and> fp = [] then NaN
           else round64 (scale10 (real (dec_val (ip @ fp))) (exponent_part r2 - int (length fp))))"

definition parseFloat :: "string \<Rightarrow> jsnum" where
  "parseFloat s =
     (case trimStart s of
        [] \<Rightarrow> NaN
      | c # r \<Rightarrow>
          if c = CHR ''-'' then js_neg (unsigned_literal r)
          else if c = CHR ''+'' then unsigned_literal r
          else unsigned_literal (c # r))"

section \<open>Providers, requests and asynchronous results\<close>

text \<open>
  An \<^verbatim>\<open>async\<close> function either returns a value or throws; the model also records the
  requests it has sent, in order. \<^verbatim>\<open>await\<close> sequences two steps and stops at the first
  exception, as the source's \<^verbatim>\<open>await\<close> inside a function without \<^verbatim>\<open>try\<close> does.
  The texts of thrown errors are written without accents.
\<close>

datatype js_error = NetworkFailure | SyntaxError | TypeError | Error string

datatype request =
    ExchangeRateRequest string
  | SimplePriceRequest string
  | MarketChartRequest string
  | MarketsRequest

type_synonym 'a async = "request list \<times> (js_error + 'a)"

definition resolve :: "'a \<Rightarrow> 'a async" where
  "resolve x = ([], Inr x)"

definition throw :: "js_error \<Rightarrow> 'a async" where
  "throw e = ([], Inl e)"

definition await :: "'a async \<Rightarrow> ('a \<Rightarrow> 'b async) \<Rightarrow> 'b async" where
  "await m k =
     (case m of
        (l, Inl e) \<Rightarrow> (l, Inl e)
      | (l, Inr x) \<Rightarrow> (case k x of (l', r) \<Rightarrow> (l @ l', r)))"

text \<open>
  A response carries \<^verbatim>\<open>response.ok\<close> and its body; \<^verbatim>\<open>response.json()\<close> rejects
  when the body is not JSON (no body below). A provider answers a request with a
  response, or not at all (the \<^verbatim>\<open>fetch\<close> promise rejects).
\<close>

datatype 'a response = Response (ok: bool) (body: "'a option")

definition fetch :: "request \<Rightarrow> 'r option \<Rightarrow> 'r async" where
  "fetch rq outcome =
     ([rq], case outcome of None \<Rightarrow> Inl NetworkFailure | Some r \<Rightarrow> Inr r)"

definition json :: "'a response \<Rightarrow> 'a async" where
  "json response = (case body response of None \<Rightarrow> throw SyntaxError | Some d \<Rightarrow> resolve d)"

text \<open>Reading a property of a value that is \<^verbatim>\<open>undefined\<close> throws a \<^verbatim>\<open>TypeError\<close>.\<close>

definition defined :: "'a option \<Rightarrow> 'a async" where
  "defined v = (case v of None \<Rightarrow> throw TypeError | Some x \<Rightarrow> resolve x)"

text \<open>
  The bodies the three endpoints send: \<^verbatim>\<open>{rates: {CODE: number}}\<close>,
  \<^verbatim>\<open>{id: {usd: number}}\<close>, \<^verbatim>\<open>{prices: [[timestamp, price]]}\<close> and the market
  ranking \<^verbatim>\<open>[{id, symbol, name}]\<close>. An object is the list of its properties in
  insertion order. A field that is missing (or, for arrays, is not an array) is
  \<open>None\<close>.
\<close>

record exchange_data =
  rates :: "(string \<times> real) list option"

record quote =
  usd :: "real option"

type_synonym price_data = "(string \<times> quote) list"

record chart_data =
  prices :: "(int \<times> real) list option"

record market =
  market_id :: string
  symbol :: string
  market_name :: string

record provider =
  exchangeRateAPI :: "string \<Rightarrow> exchange_data response option"
  coinGeckoAPI :: "string \<Rightarrow> price_data response option"
  marketChartAPI :: "string \<Rightarrow> chart_data response option"
  marketsAPI :: "market list option response option"

section \<open>The state of the page\<close>

text \<open>
  A catalogue entry \<^verbatim>\<open>{code, name, type, id}\<close>; \<^verbatim>\<open>id\<close> is present on
  cryptocurrencies only.
\<close>

record currency =
  code :: string
  name :: string
  type :: string
  currency_id :: "string option"

text \<open>The \<^verbatim>\<open>dataset\<close> of a currency input: the selection made from the list.\<close>

record dataset =
  selectedCode :: "string option"
  selectedType :: "string option"
  selectedId :: "string option"

text \<open>
  The messages shown to the user:
  \<^item> \<open>SelectBothCurrencies\<close>: "Por favor selecciona ambas monedas de la lista";
  \<^item> \<open>InvalidAmount\<close>: "Por favor ingresa un monto valido";
  \<^item> \<open>SameCurrency\<close>: "No puedes convertir una moneda a si misma. [...]";
  \<^item> \<open>QuotationUnavailable\<close>: "Error al obtener la cotizacion. Intenta nuevamente.";
  \<^item> \<open>LoadCurrenciesFailed\<close>: "Error al cargar las monedas disponibles".
\<close>

datatype message =
    SelectBothCurrencies
  | InvalidAmount
  | SameCurrency
  | QuotationUnavailable
  | LoadCurrenciesFailed

datatype popup = LoadingPopup | ErrorPopup message | SuccessToast | CurrenciesLoadedToast

record conversion =
  originalAmount :: jsnum
  fromCurrency :: string
  convertedAmount :: jsnum
  toCurrency :: string
  exchangeRate :: jsval

datatype result_view =
    ResultInitial
  | ResultLoading
  | ResultError message
  | ResultConversion conversion

text \<open>
  A chart label is the short es-ES date of a \<^verbatim>\<open>Date\<close>: of a provider's timestamp,
  or of today moved back by a number of days with \<^verbatim>\<open>setDate\<close>. The model keeps the
  date itself.
\<close>

datatype date = Timestamp int | DaysBeforeToday nat

record series =
  labels :: "date list"
  points :: "jsnum list"

record app =
  fromInput :: dataset
  toInput :: dataset
  amountText :: string
  convertDisabled :: bool
  swalDefined :: bool
  swal :: "popup option"
  resultDiv :: result_view
  chartContainerShown :: bool
  chartLoadingShown :: bool
  chartCanvasShown :: bool
  chartErrorShown :: bool
  chartTitle :: "(string \<times> string) option"
  priceChart :: "series option"
  cryptoIdMap :: "string \<Rightarrow> string option option"
  allCurrencies :: "currency list"
  currencyNames :: "(string \<times> string) list"
  popularCurrencyCodes :: "string list"
  fallbackCryptoCurrencies :: "currency list"

definition getCryptoId :: "app \<Rightarrow> string \<Rightarrow> string option" where
  "getCryptoId s currencyCode =
     (case cryptoIdMap s (toUpperCase currencyCode) of None \<Rightarrow> None | Some v \<Rightarrow> v)"

section \<open>Exchange rates\<close>

definition getFiatToFiatExchangeRate :: "provider \<Rightarrow> string \<Rightarrow> string \<Rightarrow> jsval async" where
  "getFiatToFiatExchangeRate w fromC toC =
     await (fetch (ExchangeRateRequest fromC) (exchangeRateAPI w fromC)) (\<lambda>response.
     await (json response) (\<lambda>d.
       if \<not> ok response then throw (Error ''Error al obtener cotizacion de monedas'')
       else await (defined (rates d)) (\<lambda>table. resolve (prop_num (map_of table toC)))))"

text \<open>
  \<^verbatim>\<open>input.dataset.selectedId || this.getCryptoId(code)\<close>, as the text it gives in the
  request and as the key it gives in \<^verbatim>\<open>data[cryptoId]\<close>.
\<close>

definition cryptoIdOf :: "app \<Rightarrow> dataset \<Rightarrow> string \<Rightarrow> string" where
  "cryptoIdOf s input c = template (or_else (selectedId input) (getCryptoId s c))"

definition getCryptoToCryptoExchangeRate :: "provider \<Rightarrow> app \<Rightarrow> string \<Rightarrow> string \<Rightarrow> jsval async" where
  "getCryptoToCryptoExchangeRate w s fromCrypto toCrypto =
     (let fromCryptoId = cryptoIdOf s (fromInput s) fromCrypto;
          toCryptoId = cryptoIdOf s (toInput s) toCrypto;
          ids = fromCryptoId @ '','' @ toCryptoId
      in await (fetch (SimplePriceRequest ids) (coinGeckoAPI w ids)) (\<lambda>response.
         await (json response) (\<lambda>d.
           if \<not> ok response then throw (Error ''Error al obtener cotizacion de criptomonedas'')
           else await (defined (map_of d fromCryptoId)) (\<lambda>fromQuote.
                await (defined (map_of d toCryptoId)) (\<lambda>toQuote.
                  resolve (Number (js_div (ToNumber (prop_num (usd fromQuote)))
                                          (ToNumber (prop_num (usd toQuote))))))))))"

definition getFiatToCryptoExchangeRate :: "provider \<Rightarrow> app \<Rightarrow> string \<Rightarrow> string \<Rightarrow> jsval async" where
  "getFiatToCryptoExchangeRate w s fromFiat toCrypto =
     (let cryptoId = cryptoIdOf s (toInput s) toCrypto
      in await (fetch (SimplePriceRequest cryptoId) (coinGeckoAPI w cryptoId)) (\<lambda>cryptoResponse.
         await (json cryptoResponse) (\<lambda>cryptoData.
           if fromFiat = ''USD'' then
             await (defined (map_of cryptoData cryptoId)) (\<lambda>q.
               resolve (Number (js_div (Fin 1) (ToNumber (prop_num (usd q))))))
           else
             await (fetch (ExchangeRateRequest fromFiat) (exchangeRateAPI w fromFiat)) (\<lambda>fiatResponse.
             await (json fiatResponse) (\<lambda>fiatData.
             await (defined (rates fiatData)) (\<lambda>table.
             await (defined (map_of cryptoData cryptoId)) (\<lambda>q.
               resolve (Number (js_div (ToNumber (prop_num (map_of table ''USD'')))
                                       (ToNumber (prop_num (usd q))))))))))))"

definition getCryptoToFiatExchangeRate :: "provider \<Rightarrow> app \<Rightarrow> string \<Rightarrow> string \<Rightarrow> jsval async" where
  "getCryptoToFiatExchangeRate w s fromCrypto toFiat =
     (let cryptoId = cryptoIdOf s (fromInput s) fromCrypto
      in await (fetch (SimplePriceRequest cryptoId) (coinGeckoAPI w cryptoId)) (\<lambda>cryptoResponse.
         await (json cryptoResponse) (\<lambda>cryptoData.
         await (defined (map_of cryptoData cryptoId)) (\<lambda>q.
           let cryptoPriceInUsd = prop_num (usd q)
           in if toFiat = ''USD'' then resolve cryptoPriceInUsd
              else
                await (fetch (ExchangeRateRequest ''USD'') (exchangeRateAPI w ''USD'')) (\<lambda>fiatResponse.
                await (json fiatResponse) (\<lambda>fiatData.
                await (defined (rates fiatData)) (\<lambda>table.
                  resolve (Number (js_mul (ToNumber cryptoPriceInUsd)
                                          (ToNumber (prop_num (map_of table toFiat))))))))))))"

section \<open>Messages, loading indicator and result panel\<close>

text \<open>
  The result panel is modelled by the numbers and codes it shows; how \<^verbatim>\<open>formatNumber\<close>
  prints them, and the line naming the data sources, are left out. A dialog of
  SweetAlert2 is the popup currently shown, when the library is loaded
  (\<open>swalDefined\<close>).
\<close>

definition swalClose :: "app \<Rightarrow> app" where
  "swalClose s = (if swalDefined s then s\<lparr>swal := None\<rparr> else s)"

definition showLoadingIndicator :: "app \<Rightarrow> app" where
  "showLoadingIndicator s =
     (let s1 = s\<lparr>convertDisabled := True\<rparr>
      in if swalDefined s1 then s1\<lparr>swal := Some LoadingPopup\<rparr>
         else s1\<lparr>resultDiv := ResultLoading\<rparr>)"

definition showError :: "message \<Rightarrow> app \<Rightarrow> app" where
  "showError msg s =
     (let s1 = s\<lparr>convertDisabled := False\<rparr>
      in if swalDefined s1 then s1\<lparr>swal := Some (ErrorPopup msg)\<rparr>
         else s1\<lparr>resultDiv := ResultError msg\<rparr>)"

section \<open>Historical series\<close>

text \<open>
  \<^verbatim>\<open>Math.random()\<close> is a parameter \<open>rnd\<close>: \<open>rnd i\<close> is the double the \<open>i\<close>-th call made
  by the function returns. The two \<^verbatim>\<open>for (dayOffset = 29; dayOffset >= 0; dayOffset--)\<close>
  loops recurse on the number of days left, \<open>Suc dayOffset\<close>, and count the calls. The
  literals \<^verbatim>\<open>0.02\<close> and \<^verbatim>\<open>0.04\<close> are the doubles nearest to them; \<^verbatim>\<open>1\<close> and \<^verbatim>\<open>0.5\<close>
  are doubles.
\<close>

definition getCryptocurrencyHistoricalData ::
  "provider \<Rightarrow> app \<Rightarrow> string \<Rightarrow> string \<Rightarrow> bool \<Rightarrow> series async" where
  "getCryptocurrencyHistoricalData w s cryptoCurrency targetCurrency isInverse =
     (let cryptoId = getCryptoId s cryptoCurrency
      in if falsy_str cryptoId then throw (Error ''ID de criptomoneda no encontrado'')
         else
           await (fetch (MarketChartRequest (template cryptoId))
                    (marketChartAPI w (template cryptoId))) (\<lambda>response.
             if \<not> ok response then throw (Error ''Error HTTP al obtener datos historicos'')
             else
               await (json response) (\<lambda>historicalData.
                 case prices historicalData of
                   None \<Rightarrow> throw (Error ''Formato de datos invalido de CoinGecko'')
                 | Some priceData \<Rightarrow>
                     let processedPrices =
                           (if isInverse
                            then map (\<lambda>pricePoint.
                                   (fst pricePoint, js_div (Fin 1) (round64 (snd pricePoint)))) priceData
                            else map (\<lambda>pricePoint. (fst pricePoint, round64 (snd pricePoint))) priceData)
                     in resolve \<lparr>labels = map (\<lambda>pricePoint. Timestamp (fst pricePoint)) processedPrices,
                                 points = map snd processedPrices\<rparr>)))"

primrec fallbackLoop :: "(nat \<Rightarrow> real) \<Rightarrow> nat \<Rightarrow> nat \<Rightarrow> series \<Rightarrow> series" where
  "fallbackLoop rnd calls 0 acc = acc"
| "fallbackLoop rnd calls (Suc dayOffset) acc =
     fallbackLoop rnd (Suc calls) dayOffset
       \<lparr>labels = labels acc @ [DaysBeforeToday dayOffset],
        points = points acc @
          [js_add (Fin 1) (js_mul (js_sub (Fin (rnd calls)) (Fin (1 / 2))) (round64 (2 / 100)))]\<rparr>"

definition generateFallbackChartData :: "(nat \<Rightarrow> real) \<Rightarrow> series" where
  "generateFallbackChartData rnd = fallbackLoop rnd 0 30 \<lparr>labels = [], points = []\<rparr>"

primrec simulationLoop :: "(nat \<Rightarrow> real) \<Rightarrow> jsval \<Rightarrow> nat \<Rightarrow> nat \<Rightarrow> series \<Rightarrow> series" where
  "simulationLoop rnd currentExchangeRate calls 0 acc = acc"
| "simulationLoop rnd currentExchangeRate calls (Suc dayOffset) acc =
     simulationLoop rnd currentExchangeRate (Suc calls) dayOffset
       \<lparr>labels = labels acc @ [DaysBeforeToday dayOffset],
        points = points acc @
          [js_mul (ToNumber currentExchangeRate)
             (js_add (Fin 1)
                (js_mul (js_sub (Fin (rnd calls)) (Fin (1 / 2))) (round64 (4 / 100))))]\<rparr>"

definition getFiatCurrencyHistoricalData ::
  "provider \<Rightarrow> (nat \<Rightarrow> real) \<Rightarrow> string \<Rightarrow> string \<Rightarrow> series async" where
  "getFiatCurrencyHistoricalData w rnd fromC toC =
     (case getFiatToFiatExchangeRate w fromC toC of
        (l, Inr currentExchangeRate) \<Rightarrow>
          (l, Inr (simulationLoop rnd currentExchangeRate 0 30 \<lparr>labels = [], points = []\<rparr>))
      | (l, Inl e) \<Rightarrow> (l, Inr (generateFallbackChartData rnd)))"

definition showChartLoadingIndicator :: "app \<Rightarrow> app" where
  "showChartLoadingIndicator s = s\<lparr>chartCanvasShown := False, chartLoadingShown := True\<rparr>"

definition hideChartLoadingIndicator :: "app \<Rightarrow> app" where
  "hideChartLoadingIndicator s = s\<lparr>chartLoadingShown := False, chartCanvasShown := True\<rparr>"

definition showChartError :: "app \<Rightarrow> app" where
  "showChartError s =
     s\<lparr>chartCanvasShown := False, chartLoadingShown := False, chartErrorShown := True\<rparr>"

definition createPriceChart :: "series \<Rightarrow> app \<Rightarrow> app" where
  "createPriceChart chartData s = s\<lparr>priceChart := Some chartData\<rparr>"

text \<open>\<^verbatim>\<open>input.dataset.selectedType || "fiat"\<close>.\<close>

definition type_or_fiat :: "string option \<Rightarrow> string" where
  "type_or_fiat t = (case t of None \<Rightarrow> ''fiat'' | Some x \<Rightarrow> if x = [] then ''fiat'' else x)"

definition displayPriceChart ::
  "provider \<Rightarrow> (nat \<Rightarrow> real) \<Rightarrow> string \<Rightarrow> string \<Rightarrow> app \<Rightarrow> request list \<times> app" where
  "displayPriceChart w rnd fromC toC s =
     (let s1 = showChartLoadingIndicator (s\<lparr>chartContainerShown := True\<rparr>);
          fromCurrencyType = type_or_fiat (selectedType (fromInput s1));
          toCurrencyType = type_or_fiat (selectedType (toInput s1));
          historicalData =
            (if fromCurrencyType = ''crypto''
             then getCryptocurrencyHistoricalData w s1 fromC toC False
             else if toCurrencyType = ''crypto''
             then getCryptocurrencyHistoricalData w s1 toC fromC True
             else getFiatCurrencyHistoricalData w rnd fromC toC)
      in case historicalData of
           (l, Inr chartData) \<Rightarrow>
             (l, createPriceChart chartData
                   (hideChartLoadingIndicator (s1\<lparr>chartTitle := Some (fromC, toC)\<rparr>)))
         | (l, Inl e) \<Rightarrow> (l, showChartError (hideChartLoadingIndicator s1)))"

section \<open>Conversion\<close>

definition displayConversionResult ::
  "provider \<Rightarrow> (nat \<Rightarrow> real) \<Rightarrow> jsnum \<Rightarrow> string \<Rightarrow> jsnum \<Rightarrow> string \<Rightarrow> jsval \<Rightarrow> app
     \<Rightarrow> request list \<times> app" where
  "displayConversionResult w rnd amount fromC converted toC rate s =
     (let s1 = swalClose s;
          s2 = s1\<lparr>resultDiv := ResultConversion
                  \<lparr>originalAmount = amount, fromCurrency = fromC, convertedAmount = converted,
                   toCurrency = toC, exchangeRate = rate\<rparr>,
                convertDisabled := False\<rparr>;
          s3 = (if swalDefined s2 then s2\<lparr>swal := Some SuccessToast\<rparr> else s2)
      in displayPriceChart w rnd fromC toC s3)"

text \<open>The four-way dispatch on the selected types inside \<^verbatim>\<open>convertCurrency\<close>.\<close>

definition exchangeRateFor :: "provider \<Rightarrow> app \<Rightarrow> string \<Rightarrow> string \<Rightarrow> jsval async" where
  "exchangeRateFor w s fromCurrencyCode toCurrencyCode =
     (let fromCurrencyType = selectedType (fromInput s);
          toCurrencyType = selectedType (toInput s)
      in if fromCurrencyType = Some ''fiat'' \<and> toCurrencyType = Some ''fiat''
         then getFiatToFiatExchangeRate w fromCurrencyCode toCurrencyCode
         else if fromCurrencyType = Some ''crypto'' \<and> toCurrencyType = Some ''crypto''
         then getCryptoToCryptoExchangeRate w s fromCurrencyCode toCurrencyCode
         else if fromCurrencyType = Some ''fiat'' \<and> toCurrencyType = Some ''crypto''
         then getFiatToCryptoExchangeRate w s fromCurrencyCode toCurrencyCode
         else getCryptoToFiatExchangeRate w s fromCurrencyCode toCurrencyCode)"

definition convertCurrency :: "provider \<Rightarrow> (nat \<Rightarrow> real) \<Rightarrow> app \<Rightarrow> request list \<times> app" where
  "convertCurrency w rnd s =
     (let amount = parseFloat (amountText s)
      in case (selectedCode (fromInput s), selectedCode (toInput s)) of
           (Some fromCurrencyCode, Some toCurrencyCode) \<Rightarrow>
             if fromCurrencyCode = [] \<or> toCurrencyCode = []
             then ([], showError SelectBothCurrencies s)
             else if falsy_num amount \<or> js_le_zero amount
             then ([], showError InvalidAmount s)
             else if fromCurrencyCode = toCurrencyCode
             then ([], showError SameCurrency s)
             else
               let s1 = showLoadingIndicator s
               in (case exchangeRateFor w s1 fromCurrencyCode toCurrencyCode of
                     (l, Inr rate) \<Rightarrow>
                       (case displayConversionResult w rnd amount fromCurrencyCode
                               (js_mul amount (ToNumber rate)) toCurrencyCode rate s1 of
                          (l', s2) \<Rightarrow> (l @ l', s2))
                   | (l, Inl e) \<Rightarrow> (l, showError QuotationUnavailable (swalClose s1)))
         | _ \<Rightarrow> ([], showError SelectBothCurrencies s))"

section \<open>Selecting a currency; the page as first loaded\<close>

text \<open>
  \<^verbatim>\<open>selectCurrency\<close> copies the clicked item into the input's \<^verbatim>\<open>dataset\<close>; the id is
  written only when the item has one.
\<close>

definition selectCurrency :: "currency \<Rightarrow> dataset \<Rightarrow> dataset" where
  "selectCurrency item input =
     \<lparr>selectedCode = Some (code item),
      selectedType = Some (type item),
      selectedId = (if falsy_str (currency_id item) then selectedId input else currency_id item)\<rparr>"

text \<open>The fields the constructor sets, with nothing selected, typed or shown yet.\<close>

definition initial :: app where
  "initial =
     \<lparr>fromInput = \<lparr>selectedCode = None, selectedType = None, selectedId = None\<rparr>,
      toInput = \<lparr>selectedCode = None, selectedType = None, selectedId = None\<rparr>,
      amountText = [],
      convertDisabled = False,
      swalDefined = True,
      swal = None,
      resultDiv = ResultInitial,
      chartContainerShown = False,
      chartLoadingShown = False,
      chartCanvasShown = False,
      chartErrorShown = False,
      chartTitle = None,
      priceChart = None,
      cryptoIdMap = (\<lambda>k. None),
      allCurrencies = [],
      currencyNames = [],
      popularCurrencyCodes = [],
      fallbackCryptoCurrencies = []\<rparr>"

text \<open>An accented letter is its two UTF-8 bytes.\<close>

definition dolar_estadounidense :: string where
  "dolar_estadounidense = ''D'' @ [CHR 0xC3, CHR 0xB3] @ ''lar Estadounidense''"

definition initializeFallbackData :: "app \<Rightarrow> app" where
  "initializeFallbackData s =
     s\<lparr>currencyNames :=
         [(''USD'', dolar_estadounidense), (''EUR'', ''Euro''),
          (''GBP'', ''Libra Esterlina''), (''ARS'', ''Peso Argentino'')],
       popularCurrencyCodes := [''USD'', ''EUR'', ''GBP'', ''ARS'', ''BTC'', ''ETH''],
       fallbackCryptoCurrencies :=
         [\<lparr>code = ''BTC'', name = ''Bitcoin'', type = ''crypto'', currency_id = Some ''bitcoin''\<rparr>,
          \<lparr>code = ''ETH'', name = ''Ethereum'', type = ''crypto'', currency_id = Some ''ethereum''\<rparr>]\<rparr>"

section \<open>The catalogue\<close>

text \<open>
  \<^verbatim>\<open>Object.keys\<close>: the keys in insertion order. An object never holds a key twice;
  \<open>remdups\<close> makes that so for every list of properties.
\<close>

definition Object_keys :: "(string \<times> 'v) list \<Rightarrow> string list" where
  "Object_keys obj = remdups (map fst obj)"

text \<open>\<^verbatim>\<open>this.currencyNames[code] || fallback\<close>.\<close>

definition nameOr :: "app \<Rightarrow> string \<Rightarrow> string \<Rightarrow> string" where
  "nameOr s c fallback =
     (case map_of (currencyNames s) c of
        None \<Rightarrow> fallback
      | Some n \<Rightarrow> if n = [] then fallback else n)"

definition fallbackFiatCurrencies :: "currency list" where
  "fallbackFiatCurrencies =
     [\<lparr>code = ''USD'', name = dolar_estadounidense, type = ''fiat'', currency_id = None\<rparr>,
      \<lparr>code = ''EUR'', name = ''Euro'', type = ''fiat'', currency_id = None\<rparr>,
      \<lparr>code = ''GBP'', name = ''Libra Esterlina'', type = ''fiat'', currency_id = None\<rparr>,
      \<lparr>code = ''JPY'', name = ''Yen Japon'' @ [CHR 0xC3, CHR 0xA9] @ ''s'', type = ''fiat'',
       currency_id = None\<rparr>,
      \<lparr>code = ''ARS'', name = ''Peso Argentino'', type = ''fiat'', currency_id = None\<rparr>,
      \<lparr>code = ''BRL'', name = ''Real Brasile'' @ [CHR 0xC3, CHR 0xB1] @ ''o'', type = ''fiat'',
       currency_id = None\<rparr>]"

text \<open>
  The fiat leg. \<^verbatim>\<open>sort\<close> with \<^verbatim>\<open>localeCompare\<close> is a stable sort by code; the order
  used here is the lexicographic order of the bytes, which is \<^verbatim>\<open>localeCompare\<close>'s on
  codes of capital ASCII letters.
\<close>

definition loadFiatCurrencies :: "provider \<Rightarrow> app \<Rightarrow> request list \<times> currency list" where
  "loadFiatCurrencies w s =
     (case
        await (fetch (ExchangeRateRequest ''USD'') (exchangeRateAPI w ''USD'')) (\<lambda>response.
        await (json response) (\<lambda>d.
          if \<not> ok response then throw (Error ''Error al cargar monedas fiduciarias'')
          else await (defined (rates d)) (\<lambda>table.
            let fiatCurrencies =
                  map (\<lambda>c. \<lparr>code = c, name = nameOr s c c, type = ''fiat'', currency_id = None\<rparr>)
                    (Object_keys table);
                withUSD =
                  \<lparr>code = ''USD'', name = nameOr s ''USD'' dolar_estadounidense, type = ''fiat'',
                   currency_id = None\<rparr> # fiatCurrencies
            in resolve (sort_key code withUSD))))
      of
        (l, Inr fiatCurrencies) \<Rightarrow> (l, fiatCurrencies)
      | (l, Inl e) \<Rightarrow> (l, fallbackFiatCurrencies))"

text \<open>\<^verbatim>\<open>Map.prototype.set\<close> on \<^verbatim>\<open>cryptoIdMap\<close>.\<close>

definition Map_set :: "'k \<Rightarrow> 'v \<Rightarrow> ('k \<Rightarrow> 'v option) \<Rightarrow> ('k \<Rightarrow> 'v option)" where
  "Map_set k v m = m(k \<mapsto> v)"

text \<open>
  The crypto leg returns the entries and the page with \<^verbatim>\<open>cryptoIdMap\<close> filled, from
  the ranking or, when anything fails, from the fallback list.
\<close>

definition loadCryptoCurrencies :: "provider \<Rightarrow> app \<Rightarrow> request list \<times> app \<times> currency list" where
  "loadCryptoCurrencies w s =
     (case
        await (fetch MarketsRequest (marketsAPI w)) (\<lambda>response.
        await (json response) (\<lambda>d.
          if \<not> ok response then throw (Error ''Error al cargar criptomonedas'')
          else defined d))
      of
        (l, Inr coins) \<Rightarrow>
          (l,
           s\<lparr>cryptoIdMap :=
               fold (\<lambda>cryptoData. Map_set (toUpperCase (symbol cryptoData)) (Some (market_id cryptoData)))
                 coins (cryptoIdMap s)\<rparr>,
           map (\<lambda>cryptoData.
                  \<lparr>code = toUpperCase (symbol cryptoData), name = market_name cryptoData,
                   type = ''crypto'', currency_id = Some (market_id cryptoData)\<rparr>) coins)
      | (l, Inl e) \<Rightarrow>
          (l,
           s\<lparr>cryptoIdMap :=
               fold (\<lambda>cryptoCurrency. Map_set (code cryptoCurrency) (currency_id cryptoCurrency))
                 (fallbackCryptoCurrencies s) (cryptoIdMap s)\<rparr>,
           fallbackCryptoCurrencies s))"

definition loadCurrencies :: "provider \<Rightarrow> app \<Rightarrow> request list \<times> app" where
  "loadCurrencies w s =
     (case loadFiatCurrencies w s of
        (l1, fiatCurrencies) \<Rightarrow>
          (case loadCryptoCurrencies w s of
             (l2, s1, cryptoCurrencies) \<Rightarrow>
               let s2 = s1\<lparr>allCurrencies := fiatCurrencies @ cryptoCurrencies\<rparr>
               in (l1 @ l2,
                   if swalDefined s2 then s2\<lparr>swal := Some CurrenciesLoadedToast\<rparr> else s2)))"

section \<open>Autocomplete\<close>

text \<open>\<^verbatim>\<open>s.includes(q)\<close>: \<open>q\<close> occurs in \<open>s\<close> as a contiguous piece.\<close>

fun includes' :: "string \<Rightarrow> string \<Rightarrow> bool" where
  "includes' [] q = (q = [])"
| "includes' (c # s) q = (prefix q (c # s) \<or> includes' s q)"

text \<open>
  What the dropdown holds: group headers, one item per currency, or the line saying
  that nothing matches the query; and whether it is shown.
\<close>

datatype header = FiatHeader | CryptoHeader | PopularHeader

datatype node = Header header | Item currency | NoResults string

definition renderCurrencyGroups :: "currency list \<Rightarrow> node list" where
  "renderCurrencyGroups currencies =
     (let fiatCurrencies = filter (\<lambda>c. type c = ''fiat'') currencies;
          cryptoCurrencies = filter (\<lambda>c. type c = ''crypto'') currencies;
          maxTotal = (30 :: nat);
          fiatToShow = min (length fiatCurrencies) (min (maxTotal - 0) 15);
          fiatNodes =
            (if fiatCurrencies \<noteq> [] \<and> 0 < maxTotal
             then Header FiatHeader # map Item (take fiatToShow fiatCurrencies) else []);
          totalShown = (if fiatCurrencies \<noteq> [] \<and> 0 < maxTotal then fiatToShow else 0);
          cryptoToShow = min (length cryptoCurrencies) (maxTotal - totalShown);
          cryptoNodes =
            (if cryptoCurrencies \<noteq> [] \<and> totalShown < maxTotal
             then Header CryptoHeader # map Item (take cryptoToShow cryptoCurrencies) else [])
      in fiatNodes @ cryptoNodes)"

text \<open>The filter of \<^verbatim>\<open>showAutocompleteResults\<close>: the query occurs in the code or the name.\<close>

definition matchesQuery :: "string \<Rightarrow> currency \<Rightarrow> bool" where
  "matchesQuery query currency =
     (includes' (toLowerCase (code currency)) (toLowerCase query) \<or>
      includes' (toLowerCase (name currency)) (toLowerCase query))"

definition showAutocompleteResults :: "string \<Rightarrow> app \<Rightarrow> node list \<times> bool" where
  "showAutocompleteResults query s =
     (if query = [] then ([], False)
      else if allCurrencies s = [] then ([], False)
      else
        let filtered = filter (matchesQuery query) (allCurrencies s)
        in if filtered \<noteq> [] then (renderCurrencyGroups filtered, True)
           else if 2 \<le> length query then ([NoResults query], True)
           else ([], False))"

text \<open>The currencies a list of nodes offers, in order.\<close>

fun items :: "node list \<Rightarrow> currency list" where
  "items [] = []"
| "items (Item c # ns) = c # items ns"
| "items (n # ns) = items ns"

section \<open>Answers that cannot be used\<close>

text \<open>
  An \<^verbatim>\<open>async\<close> call has thrown. An answer is unusable when the request failed or its
  body is not JSON, and also, where the caller checks \<^verbatim>\<open>response.ok\<close>, when the
  status is not 2xx.
\<close>

definition thrown :: "'a async \<Rightarrow> bool" where
  "thrown m = (case snd m of Inl e \<Rightarrow> True | Inr x \<Rightarrow> False)"

definition unusable :: "bool \<Rightarrow> 'a response option \<Rightarrow> bool" where
  "unusable checks_ok answer =
     (case answer of
        None \<Rightarrow> True
      | Some response \<Rightarrow> body response = None \<or> (checks_ok \<and> \<not> ok response))"

text \<open>
  The rate table quoted against a code cannot be had when the request fails, the body is
  not JSON, the status is not 2xx, or the body has no \<^verbatim>\<open>rates\<close>. The price history of
  the coin \<^verbatim>\<open>cryptoIdMap\<close> holds for a code cannot be had when the map has no id for the
  code, the request fails, the status is not 2xx, the body is not JSON, or it has no
  array \<^verbatim>\<open>prices\<close>.
\<close>

definition tableUnavailable :: "provider \<Rightarrow> string \<Rightarrow> bool" where
  "tableUnavailable w c =
     (case exchangeRateAPI w c of
        None \<Rightarrow> True
      | Some response \<Rightarrow>
          (case body response of
             None \<Rightarrow> True
           | Some d \<Rightarrow> \<not> ok response \<or> rates d = None))"

definition historyUnavailable :: "provider \<Rightarrow> app \<Rightarrow> string \<Rightarrow> bool" where
  "historyUnavailable w s c =
     (case getCryptoId s c of
        None \<Rightarrow> True
      | Some cryptoId \<Rightarrow>
          cryptoId = [] \<or>
          (case marketChartAPI w cryptoId of
             None \<Rightarrow> True
           | Some response \<Rightarrow>
               \<not> ok response \<or>
               (case body response of None \<Rightarrow> True | Some h \<Rightarrow> prices h = None)))"

text \<open>
  What the two legs of the catalogue have to build on: the table quoted against USD and
  the market ranking, when the provider's answer can be used (the request is answered,
  with a status 2xx, a body that is JSON and, in it, \<^verbatim>\<open>rates\<close> or an array).
\<close>

definition liveTable :: "provider \<Rightarrow> (string \<times> real) list option" where
  "liveTable w =
     (case exchangeRateAPI w ''USD'' of
        None \<Rightarrow> None
      | Some response \<Rightarrow>
          (case body response of
             None \<Rightarrow> None
           | Some d \<Rightarrow> if ok response then rates d else None))"

definition liveRanking :: "provider \<Rightarrow> market list option" where
  "liveRanking w =
     (case marketsAPI w of
        None \<Rightarrow> None
      | Some response \<Rightarrow>
          (case body response of
             None \<Rightarrow> None
           | Some d \<Rightarrow> if ok response then d else None))"

section \<open>Scenarios\<close>

text \<open>
  Concrete pages and providers, used to evaluate the definitions. A provider that
  knows one endpoint answers every other request with a network failure.
\<close>

definition no_provider :: provider where
  "no_provider =
     \<lparr>exchangeRateAPI = (\<lambda>c. None), coinGeckoAPI = (\<lambda>ids. None),
      marketChartAPI = (\<lambda>i. None), marketsAPI = None\<rparr>"

text \<open>A random source that returns the same number at every call.\<close>

definition always :: "real \<Rightarrow> nat \<Rightarrow> real" where
  "always r i = r"

definition cur_USD :: currency where
  "cur_USD = \<lparr>code = ''USD'', name = ''US Dollar'', type = ''fiat'', currency_id = None\<rparr>"

definition cur_EUR :: currency where
  "cur_EUR = \<lparr>code = ''EUR'', name = ''Euro'', type = ''fiat'', currency_id = None\<rparr>"

definition cur_BTC :: currency where
  "cur_BTC = \<lparr>code = ''BTC'', name = ''Bitcoin'', type = ''crypto'', currency_id = Some ''bitcoin''\<rparr>"

definition cur_ETH :: currency where
  "cur_ETH = \<lparr>code = ''ETH'', name = ''Ethereum'', type = ''crypto'', currency_id = Some ''ethereum''\<rparr>"

text \<open>The page after the user has picked two currencies and typed an amount.\<close>

definition page :: "currency \<Rightarrow> currency \<Rightarrow> string \<Rightarrow> app" where
  "page a b txt =
     initial\<lparr>fromInput := selectCurrency a (fromInput initial),
             toInput := selectCurrency b (toInput initial),
             amountText := txt\<rparr>"

text \<open>The mocked rate table \<^verbatim>\<open>{EUR: 0.9}\<close>, quoted against USD.\<close>

definition usd_eur_provider :: provider where
  "usd_eur_provider =
     no_provider\<lparr>exchangeRateAPI := (\<lambda>c. if c = ''USD''
        then Some (Response True (Some \<lparr>rates = Some [(''EUR'', 9 / 10)]\<rparr>)) else None)\<rparr>"

text \<open>
  The mocked price \<^verbatim>\<open>{bitcoin: {usd: 60000}}\<close>, with a table quoted against EUR and
  one quoted against USD.
\<close>

definition btc_provider :: provider where
  "btc_provider =
     no_provider
       \<lparr>exchangeRateAPI := (\<lambda>c.
          if c = ''EUR'' then Some (Response True (Some \<lparr>rates = Some [(''USD'', 11 / 10)]\<rparr>))
          else if c = ''USD'' then Some (Response True (Some \<lparr>rates = Some [(''EUR'', 9 / 10)]\<rparr>))
          else None),
        coinGeckoAPI := (\<lambda>ids.
          if ids = ''bitcoin''
          then Some (Response True (Some [(''bitcoin'', \<lparr>usd = Some 60000\<rparr>)]))
          else None)\<rparr>"

text \<open>A coin the provider prices at zero, next to one priced at 5.\<close>

definition cur_DEAD :: currency where
  "cur_DEAD = \<lparr>code = ''DEAD'', name = ''Dead Coin'', type = ''crypto'', currency_id = Some ''deadcoin''\<rparr>"

definition zero_price_provider :: provider where
  "zero_price_provider =
     no_provider\<lparr>coinGeckoAPI := (\<lambda>ids.
        if ids = ''deadcoin,ethereum'' \<or> ids = ''ethereum,deadcoin''
        then Some (Response True
               (Some [(''deadcoin'', \<lparr>usd = Some 0\<rparr>), (''ethereum'', \<lparr>usd = Some 5\<rparr>)]))
        else None)\<rparr>"

text \<open>Two coins priced at 49 and 1.\<close>

definition forty_nine_provider :: provider where
  "forty_nine_provider =
     no_provider\<lparr>coinGeckoAPI := (\<lambda>ids.
        if ids = ''bitcoin,ethereum'' \<or> ids = ''ethereum,bitcoin''
        then Some (Response True
               (Some [(''bitcoin'', \<lparr>usd = Some 49\<rparr>), (''ethereum'', \<lparr>usd = Some 1\<rparr>)]))
        else None)\<rparr>"

text \<open>Two coins priced at 60000 and 3000, and two tables that are mutually inverse.\<close>

definition pair_provider :: provider where
  "pair_provider =
     no_provider
       \<lparr>exchangeRateAPI := (\<lambda>c.
          if c = ''USD'' then Some (Response True (Some \<lparr>rates = Some [(''EUR'', 4 / 5)]\<rparr>))
          else if c = ''EUR'' then Some (Response True (Some \<lparr>rates = Some [(''USD'', 5 / 4)]\<rparr>))
          else None),
        coinGeckoAPI := (\<lambda>ids.
          if ids = ''bitcoin,ethereum'' \<or> ids = ''ethereum,bitcoin''
          then Some (Response True
                 (Some [(''bitcoin'', \<lparr>usd = Some 60000\<rparr>), (''ethereum'', \<lparr>usd = Some 3000\<rparr>)]))
          else None)\<rparr>"

text \<open>
  The page once the catalogue has filled \<^verbatim>\<open>cryptoIdMap\<close> for bitcoin and ethereum,
  and a history of two daily prices of bitcoin.
\<close>

definition loaded_page :: "currency \<Rightarrow> currency \<Rightarrow> string \<Rightarrow> app" where
  "loaded_page a b txt =
     (page a b txt)\<lparr>cryptoIdMap := (\<lambda>k.
        if k = ''BTC'' then Some (Some ''bitcoin'')
        else if k = ''ETH'' then Some (Some ''ethereum'') else None)\<rparr>"

definition history_provider :: provider where
  "history_provider =
     no_provider\<lparr>marketChartAPI := (\<lambda>i.
        if i = ''bitcoin''
        then Some (Response True (Some \<lparr>prices = Some [(1700000000000, 50000), (1700086400000, 40000)]\<rparr>))
        else None)\<rparr>"

text \<open>A catalogue of sixteen dollars and one coin; all of them match the query \<open>d\<close>.\<close>

definition dollar :: "string \<Rightarrow> currency" where
  "dollar c = \<lparr>code = c, name = ''Dollar'', type = ''fiat'', currency_id = None\<rparr>"

definition cur_DOGE :: currency where
  "cur_DOGE = \<lparr>code = ''DOGE'', name = ''Dogecoin'', type = ''crypto'', currency_id = Some ''dogecoin''\<rparr>"

definition dollars_page :: app where
  "dollars_page =
     initial\<lparr>allCurrencies :=
       map dollar [''AUD'', ''BBD'', ''BMD'', ''BND'', ''BSD'', ''BZD'', ''CAD'', ''FJD'',
                   ''GYD'', ''HKD'', ''KYD'', ''NZD'', ''SGD'', ''TWD'', ''USD'', ''XCD'']
       @ [cur_DOGE]\<rparr>"

definition cur_GBP :: currency where
  "cur_GBP = \<lparr>code = ''GBP'', name = ''Pound Sterling'', type = ''fiat'', currency_id = None\<rparr>"

text \<open>
  A ranking in which two coins share the symbol \<^verbatim>\<open>usdc\<close>, and a provider whose
  fiat table and ranking have different codes throughout.
\<close>

definition shared_symbol_provider :: provider where
  "shared_symbol_provider =
     no_provider\<lparr>marketsAPI := Some (Response True (Some (Some
        [\<lparr>market_id = ''usd-coin'', symbol = ''usdc'', market_name = ''USDC''\<rparr>,
         \<lparr>market_id = ''bridged-usdc'', symbol = ''usdc'', market_name = ''Bridged USDC''\<rparr>])))\<rparr>"

definition catalogue_provider :: provider where
  "catalogue_provider =
     no_provider
       \<lparr>exchangeRateAPI := (\<lambda>c. if c = ''USD''
          then Some (Response True (Some \<lparr>rates = Some [(''GBP'', 4 / 5), (''EUR'', 9 / 10)]\<rparr>))
          else None),
        marketsAPI := Some (Response True (Some (Some
          [\<lparr>market_id = ''bitcoin'', symbol = ''btc'', market_name = ''Bitcoin''\<rparr>,
           \<lparr>market_id = ''ethereum'', symbol = ''eth'', market_name = ''Ethereum''\<rparr>])))\<rparr>"

text \<open>
  The same ranking, with a price for the first of the two coins and a history of two
  daily prices for each. On the page the catalogue is loaded (the fiat leg falls back
  to its list of six), and the user has picked the dollar and the first of the two
  coins, \<^verbatim>\<open>usd-coin\<close>, and typed the amount 1.
\<close>

definition usdc_provider :: provider where
  "usdc_provider =
     shared_symbol_provider
       \<lparr>coinGeckoAPI := (\<lambda>ids.
          if ids = ''usd-coin''
          then Some (Response True (Some [(''usd-coin'', \<lparr>usd = Some 1\<rparr>)]))
          else None),
        marketChartAPI := (\<lambda>i.
          if i = ''usd-coin''
          then Some (Response True (Some \<lparr>prices = Some [(1700000000000, 1), (1700086400000, 1)]\<rparr>))
          else if i = ''bridged-usdc''
          then Some (Response True (Some \<lparr>prices = Some [(1700000000000, 2), (1700086400000, 4)]\<rparr>))
          else None)\<rparr>"

definition usdc_page :: app where
  "usdc_page =
     (let s = snd (loadCurrencies usdc_provider initial)
      in s\<lparr>fromInput := selectCurrency (allCurrencies s ! 0) (fromInput s),
           toInput := selectCurrency (allCurrencies s ! 6) (toInput s),
           amountText := ''1''\<rparr>)"

text \<open>
  A table quoted against USD whose key is written in small letters, and one that lists
  USD itself.
\<close>

definition lowercase_provider :: provider where
  "lowercase_provider =
     no_provider\<lparr>exchangeRateAPI := (\<lambda>c. if c = ''USD''
        then Some (Response True (Some \<lparr>rates = Some [(''eur'', 9 / 10)]\<rparr>)) else None)\<rparr>"

definition usd_listed_provider :: provider where
  "usd_listed_provider =
     no_provider\<lparr>exchangeRateAPI := (\<lambda>c. if c = ''USD''
        then Some (Response True (Some \<lparr>rates = Some [(''USD'', 1), (''EUR'', 9 / 10)]\<rparr>))
        else None)\<rparr>"

section \<open>Basic facts\<close>

subsection \<open>Rounding\<close>

lemma powi_neg: "0 \<le> k \<Longrightarrow> (2::real) powi (- k) = 1 / 2 ^ nat k"
  by (simp add: power_int_minus power_int_nonneg_exp field_simps)

lemma powi_less_cancel: "(2::real) powi a < 2 powi b \<Longrightarrow> a < b"
proof (rule ccontr)
  assume less: "(2::real) powi a < 2 powi b" and "\<not> a < b"
  then have "b \<le> a"
    by simp
  then have "(2::real) powi b \<le> 2 powi a"
    by (rule power_int_increasing) simp
  with less show False
    by simp
qed

lemma binade_lower_ge1:
  assumes "1 \<le> x"
  shows "2 powi binade x \<le> x"
proof -
  have n: "0 < \<lfloor>x\<rfloor>" using assms by simp
  have b: "1 \<le> bitlen \<lfloor>x\<rfloor>"
    using n by (simp add: bitlen_alt_def)
  have "(2::int) ^ nat (bitlen \<lfloor>x\<rfloor> - 1) \<le> \<lfloor>x\<rfloor>"
    using bitlen_bounds [OF n] by simp
  then have "real_of_int (2 ^ nat (bitlen \<lfloor>x\<rfloor> - 1)) \<le> real_of_int \<lfloor>x\<rfloor>"
    by (simp only: of_int_le_iff)
  also have "\<dots> \<le> x" by simp
  finally show ?thesis
    using assms b by (simp add: binade_def power_int_nonneg_exp)
qed

lemma binade_upper_ge1:
  assumes "1 \<le> x"
  shows "x < 2 powi (binade x + 1)"
proof -
  have n: "0 < \<lfloor>x\<rfloor>" using assms by simp
  have b: "1 \<le> bitlen \<lfloor>x\<rfloor>"
    using n by (simp add: bitlen_alt_def)
  have "\<lfloor>x\<rfloor> < (2::int) ^ nat (bitlen \<lfloor>x\<rfloor>)"
    using bitlen_bounds [OF n] by simp
  then have "\<lfloor>x\<rfloor> + 1 \<le> (2::int) ^ nat (bitlen \<lfloor>x\<rfloor>)"
    by simp
  then have "real_of_int (\<lfloor>x\<rfloor> + 1) \<le> real_of_int (2 ^ nat (bitlen \<lfloor>x\<rfloor>))"
    by (simp only: of_int_le_iff)
  moreover have "x < real_of_int (\<lfloor>x\<rfloor> + 1)"
    by simp
  ultimately have "x < real_of_int (2 ^ nat (bitlen \<lfloor>x\<rfloor>))"
    by linarith
  then show ?thesis
    using assms b by (simp add: binade_def power_int_nonneg_exp)
qed

lemma binade_lower_lt1:
  assumes "0 < x" "x < 1"
  shows "2 powi binade x \<le> x"
proof -
  define n where "n = \<lceil>1 / x\<rceil> - 1"
  have y: "1 < 1 / x" using assms by simp
  then have n: "0 < n" unfolding n_def by linarith
  have k: "1 \<le> bitlen n"
    using n by (simp add: bitlen_alt_def)
  have "n < (2::int) ^ nat (bitlen n)"
    using bitlen_bounds [OF n] by simp
  then have "n + 1 \<le> (2::int) ^ nat (bitlen n)" by simp
  then have "real_of_int (n + 1) \<le> real_of_int (2 ^ nat (bitlen n))"
    by (simp only: of_int_le_iff)
  moreover have "1 / x \<le> real_of_int (n + 1)"
    unfolding n_def by simp
  ultimately have "1 / x \<le> 2 ^ nat (bitlen n)" by simp
  then have "1 / 2 ^ nat (bitlen n) \<le> x"
    using assms(1) by (simp add: field_simps)
  moreover have "binade x = - bitlen n"
    using assms by (simp add: binade_def n_def)
  ultimately show ?thesis
    using k powi_neg [of "bitlen n"] by simp
qed

lemma binade_upper_lt1:
  assumes "0 < x" "x < 1"
  shows "x < 2 powi (binade x + 1)"
proof -
  define n where "n = \<lceil>1 / x\<rceil> - 1"
  have y: "1 < 1 / x" using assms by simp
  then have n: "0 < n" unfolding n_def by linarith
  have k: "1 \<le> bitlen n"
    using n by (simp add: bitlen_alt_def)
  have "(2::int) ^ nat (bitlen n - 1) \<le> n"
    using bitlen_bounds [OF n] by simp
  then have "real_of_int (2 ^ nat (bitlen n - 1)) \<le> real_of_int n"
    by (simp only: of_int_le_iff)
  moreover have "real_of_int n < 1 / x"
    unfolding n_def by linarith
  ultimately have "real_of_int (2 ^ nat (bitlen n - 1)) < 1 / x" by linarith
  then have "2 ^ nat (bitlen n - 1) < 1 / x" by simp
  then have "x < 1 / 2 ^ nat (bitlen n - 1)"
    using assms(1) by (simp add: field_simps)
  moreover have "binade x + 1 = - (bitlen n - 1)"
    using assms by (simp add: binade_def n_def)
  ultimately show ?thesis
    using k powi_neg [of "bitlen n - 1"] by simp
qed

lemma binade_bounds:
  assumes "0 < x"
  shows "2 powi binade x \<le> x" and "x < 2 powi (binade x + 1)"
  using assms binade_lower_ge1 binade_lower_lt1 binade_upper_ge1 binade_upper_lt1
  by (cases "1 \<le> x"; force)+


lemma round_half_even_error: "\<bar>of_int (round_half_even x) - x\<bar> \<le> 1 / 2"
proof -
  have "of_int \<lfloor>x\<rfloor> \<le> x" "x < of_int \<lfloor>x\<rfloor> + 1"
    by linarith+
  then show ?thesis
    by (auto simp: round_half_even_def Let_def)
qed

lemma nearest_error: "\<bar>nearest a q - a\<bar> \<le> 2 powi q / 2"
proof -
  have pos: "0 < (2::real) powi q"
    by simp
  have "a = (a * 2 powi (- q)) * 2 powi q"
    by (simp add: power_int_minus)
  then have "nearest a q - a =
      (of_int (round_half_even (a * 2 powi (- q))) - a * 2 powi (- q)) * 2 powi q"
    by (simp add: nearest_def algebra_simps)
  then have "\<bar>nearest a q - a\<bar> =
      \<bar>of_int (round_half_even (a * 2 powi (- q))) - a * 2 powi (- q)\<bar> * 2 powi q"
    using pos by (simp add: abs_mult)
  also have "\<dots> \<le> (1 / 2) * 2 powi q"
    using round_half_even_error pos by (intro mult_right_mono) simp_all
  finally show ?thesis by simp
qed

lemma round64_nearest:
  "x \<noteq> 0 \<Longrightarrow> round64 x =
     (if 2 ^ 1024 \<le> nearest \<bar>x\<bar> (max (binade \<bar>x\<bar> - 52) (- 1074))
      then (if 0 < x then PosInf else NegInf)
      else Fin (if 0 < x then nearest \<bar>x\<bar> (max (binade \<bar>x\<bar> - 52) (- 1074))
                else - nearest \<bar>x\<bar> (max (binade \<bar>x\<bar> - 52) (- 1074))))"
  by (simp add: round64_def Let_def)

lemma round64_normal:
  assumes lo: "1 / 2 ^ 1022 \<le> \<bar>x\<bar>" and hi: "\<bar>x\<bar> \<le> 2 ^ 1023"
  shows "\<exists>y. round64 x = Fin y \<and> \<bar>y - x\<bar> \<le> \<bar>x\<bar> / 2 ^ 53"
proof -
  define e where "e = binade \<bar>x\<bar>"
  have x0: "x \<noteq> 0" "0 < \<bar>x\<bar>"
    using lo by auto
  have low: "2 powi e \<le> \<bar>x\<bar>" and up: "\<bar>x\<bar> < 2 powi (e + 1)"
    unfolding e_def using binade_bounds [OF x0(2)] by simp_all
  have "(2::real) powi (- 1022) \<le> \<bar>x\<bar>"
    using lo by (simp add: power_int_minus field_simps)
  with up have "(2::real) powi (- 1022) < 2 powi (e + 1)"
    by linarith
  then have "- 1022 < e + 1"
    by (rule powi_less_cancel)
  then have e: "- 1022 \<le> e"
    by simp
  then have q: "max (e - 52) (- 1074) = e - 52"
    by simp
  define y where "y = nearest \<bar>x\<bar> (e - 52)"
  have "\<bar>y - \<bar>x\<bar>\<bar> \<le> 2 powi (e - 52) / 2"
    unfolding y_def by (rule nearest_error)
  also have "(2::real) powi (e - 52) / 2 = 2 powi e / 2 ^ 53"
    by (simp add: power_int_diff)
  also have "\<dots> \<le> \<bar>x\<bar> / 2 ^ 53"
    using low by (simp add: divide_right_mono)
  finally have err: "\<bar>y - \<bar>x\<bar>\<bar> \<le> \<bar>x\<bar> / 2 ^ 53" .
  then have "y \<le> \<bar>x\<bar> + \<bar>x\<bar> / 2 ^ 53"
    by linarith
  also have "\<dots> \<le> 2 ^ 1023 + 2 ^ 1023 / 2 ^ 53"
    using hi by (intro add_mono divide_right_mono) simp_all
  also have "\<dots> < (2::real) ^ 1024"
    by simp
  finally have fin: "\<not> 2 ^ 1024 \<le> y"
    by simp
  have "round64 x = (if 2 ^ 1024 \<le> y then (if 0 < x then PosInf else NegInf)
      else Fin (if 0 < x then y else - y))"
    unfolding round64_nearest [OF x0(1)] e_def [symmetric] q y_def [symmetric] by (rule refl)
  with fin have r: "round64 x = Fin (if 0 < x then y else - y)"
    by (simp only: if_False)
  have "\<bar>(if 0 < x then y else - y) - x\<bar> = \<bar>y - \<bar>x\<bar>\<bar>"
    using x0 by (auto simp: abs_if)
  with err r show ?thesis
    by auto
qed

lemma round64_small:
  assumes "\<bar>x\<bar> < 1 / 2 ^ 1022"
  shows "\<exists>y. round64 x = Fin y \<and> \<bar>y - x\<bar> \<le> 1 / 2 ^ 1075"
proof (cases "x = 0")
  case True
  then show ?thesis by (simp add: round64_def)
next
  case False
  define e where "e = binade \<bar>x\<bar>"
  have x0: "0 < \<bar>x\<bar>"
    using False by simp
  have low: "2 powi e \<le> \<bar>x\<bar>"
    unfolding e_def using binade_bounds [OF x0] by simp
  have "\<bar>x\<bar> < (2::real) powi (- 1022)"
    using assms by (simp add: power_int_minus field_simps)
  with low have "(2::real) powi e < 2 powi (- 1022)"
    by linarith
  then have e: "e < - 1022"
    by (rule powi_less_cancel)
  then have q: "max (e - 52) (- 1074) = - 1074"
    by simp
  define y where "y = nearest \<bar>x\<bar> (- 1074)"
  have "\<bar>y - \<bar>x\<bar>\<bar> \<le> 2 powi (- 1074) / 2"
    unfolding y_def by (rule nearest_error)
  also have "(2::real) powi (- 1074) / 2 = 1 / 2 ^ 1075"
    by (simp add: power_int_minus field_simps)
  finally have err: "\<bar>y - \<bar>x\<bar>\<bar> \<le> 1 / 2 ^ 1075" .
  then have "y \<le> \<bar>x\<bar> + 1 / 2 ^ 1075"
    by linarith
  also have "\<dots> < 1 / 2 ^ 1022 + 1 / 2 ^ 1075"
    using assms by simp
  also have "\<dots> < (2::real) ^ 1024"
    by simp
  finally have fin: "\<not> 2 ^ 1024 \<le> y"
    by simp
  have "round64 x = (if 2 ^ 1024 \<le> y then (if 0 < x then PosInf else NegInf)
      else Fin (if 0 < x then y else - y))"
    unfolding round64_nearest [OF False] e_def [symmetric] q y_def [symmetric] by (rule refl)
  with fin have r: "round64 x = Fin (if 0 < x then y else - y)"
    by (simp only: if_False)
  have "\<bar>(if 0 < x then y else - y) - x\<bar> = \<bar>y - \<bar>x\<bar>\<bar>"
    using False by (auto simp: abs_if)
  with err r show ?thesis
    by auto
qed

subsection \<open>The page and its requests\<close>

lemmas round64_eval =
  round64_def nearest_def round_half_even_def binade_def compute_bitlen Let_def

lemmas parseFloat_eval =
  parseFloat_def trimStart_def white_space_def unsigned_literal_def is_digit_def dec_val_def
  digit_val_def exponent_part_def scale10_def js_neg_def Let_def

lemma round64_100: "round64 100 = Fin 100"
  by (simp add: round64_eval)

lemma parseFloat_100: "parseFloat ''100'' = Fin 100"
  by (simp add: parseFloat_eval round64_100)

lemma resultDiv_displayPriceChart:
  "resultDiv (snd (displayPriceChart w rnd f t s)) = resultDiv s"
  by (simp add: displayPriceChart_def Let_def showChartLoadingIndicator_def
      hideChartLoadingIndicator_def showChartError_def createPriceChart_def
      split: prod.splits sum.splits)

lemma selections_showLoadingIndicator:
  "fromInput (showLoadingIndicator s) = fromInput s"
  "toInput (showLoadingIndicator s) = toInput s"
  by (simp_all add: showLoadingIndicator_def Let_def)

lemma getFiatToFiatExchangeRate_ok:
  assumes "exchangeRateAPI w f = Some (Response True (Some d))" and "rates d = Some table"
  shows "getFiatToFiatExchangeRate w f t =
           ([ExchangeRateRequest f], Inr (prop_num (map_of table t)))"
  using assms
  by (simp add: getFiatToFiatExchangeRate_def fetch_def json_def defined_def resolve_def
      throw_def await_def)

lemma toUpperCase_BTC: "toUpperCase ''BTC'' = ''BTC''"
  by (simp add: toUpperCase_def upper_char_def)

lemma fallbackLoop_labels:
  "labels (fallbackLoop rnd k n acc) = labels acc @ map DaysBeforeToday (rev [0..<n])"
  by (induction n arbitrary: k acc) simp_all

lemma fallbackLoop_points:
  "points (fallbackLoop rnd k n acc) =
     points acc @
     map (\<lambda>i. js_add (Fin 1) (js_mul (js_sub (Fin (rnd (k + i))) (Fin (1 / 2))) (round64 (2 / 100))))
       [0..<n]"
proof (induction n arbitrary: k acc)
  case 0
  then show ?case by simp
next
  case (Suc n)
  have "map (\<lambda>i. js_add (Fin 1)
        (js_mul (js_sub (Fin (rnd (k + i))) (Fin (1 / 2))) (round64 (2 / 100)))) [0..<Suc n] =
      js_add (Fin 1) (js_mul (js_sub (Fin (rnd k)) (Fin (1 / 2))) (round64 (2 / 100))) #
      map (\<lambda>i. js_add (Fin 1)
        (js_mul (js_sub (Fin (rnd (Suc k + i))) (Fin (1 / 2))) (round64 (2 / 100)))) [0..<n]"
    by (simp add: upt_conv_Cons map_Suc_upt [symmetric] del: upt_Suc)
  with Suc show ?case by simp
qed

lemma simulationLoop_labels:
  "labels (simulationLoop rnd r k n acc) = labels acc @ map DaysBeforeToday (rev [0..<n])"
  by (induction n arbitrary: k acc) simp_all

lemma simulationLoop_points:
  "points (simulationLoop rnd r k n acc) =
     points acc @
     map (\<lambda>i. js_mul (ToNumber r)
            (js_add (Fin 1) (js_mul (js_sub (Fin (rnd (k + i))) (Fin (1 / 2))) (round64 (4 / 100)))))
       [0..<n]"
proof (induction n arbitrary: k acc)
  case 0
  then show ?case by simp
next
  case (Suc n)
  have "map (\<lambda>i. js_mul (ToNumber r) (js_add (Fin 1)
        (js_mul (js_sub (Fin (rnd (k + i))) (Fin (1 / 2))) (round64 (4 / 100))))) [0..<Suc n] =
      js_mul (ToNumber r) (js_add (Fin 1)
        (js_mul (js_sub (Fin (rnd k)) (Fin (1 / 2))) (round64 (4 / 100)))) #
      map (\<lambda>i. js_mul (ToNumber r) (js_add (Fin 1)
        (js_mul (js_sub (Fin (rnd (Suc k + i))) (Fin (1 / 2))) (round64 (4 / 100))))) [0..<n]"
    by (simp add: upt_conv_Cons map_Suc_upt [symmetric] del: upt_Suc)
  with Suc show ?case by simp
qed

lemma selections_chart_fields:
  "fromInput (showChartLoadingIndicator (s\<lparr>chartContainerShown := b\<rparr>)) = fromInput s"
  "toInput (showChartLoadingIndicator (s\<lparr>chartContainerShown := b\<rparr>)) = toInput s"
  by (simp_all add: showChartLoadingIndicator_def)

lemma getCryptocurrencyHistoricalData_state:
  "cryptoIdMap s' = cryptoIdMap s \<Longrightarrow>
   getCryptocurrencyHistoricalData w s' c other b = getCryptocurrencyHistoricalData w s c other b"
  by (simp add: getCryptocurrencyHistoricalData_def getCryptoId_def)

lemma getCryptocurrencyHistoricalData_ok:
  assumes "getCryptoId s c = Some cid" and "cid \<noteq> []"
    and "marketChartAPI w cid = Some (Response True (Some h))" and "prices h = Some priceData"
  shows "getCryptocurrencyHistoricalData w s c other isInverse =
           ([MarketChartRequest cid],
            Inr \<lparr>labels = map (\<lambda>pricePoint. Timestamp (fst pricePoint)) priceData,
                 points = map (\<lambda>pricePoint.
                     if isInverse then js_div (Fin 1) (round64 (snd pricePoint))
                     else round64 (snd pricePoint)) priceData\<rparr>)"
  using assms
  by (simp add: getCryptocurrencyHistoricalData_def falsy_str_def template_def fetch_def
      json_def resolve_def throw_def await_def Let_def comp_def)

lemma items_append: "items (xs @ ys) = items xs @ items ys"
  by (induction xs rule: items.induct) simp_all

lemma items_map_Item: "items (map Item cs) = cs"
  by (induction cs) simp_all

lemma subseq_take_filtered: "subseq (take n xs) xs"
  by (rule prefix_imp_subseq) (rule take_is_prefix)

lemma items_renderCurrencyGroups: 
  "items (renderCurrencyGroups xs) =
      take 15 (filter (\<lambda>c. type c = ''fiat'') xs)
      @ take (30 - min 15 (length (filter (\<lambda>c. type c = ''fiat'') xs)))
          (filter (\<lambda>c. type c = ''crypto'') xs)"
  by (simp add: renderCurrencyGroups_def Let_def items_append items_map_Item min_def)

lemma items_showAutocompleteResults:
  assumes "query \<noteq> []"
  shows "items (fst (showAutocompleteResults query s)) =
           items (renderCurrencyGroups (filter (matchesQuery query) (allCurrencies s)))"
proof (cases "filter (matchesQuery query) (allCurrencies s) = []")
  case True
  then show ?thesis
    using assms by (simp add: showAutocompleteResults_def renderCurrencyGroups_def)
next
  case False
  then have "allCurrencies s \<noteq> []"
    by auto
  with False assms show ?thesis
    by (simp add: showAutocompleteResults_def)
qed

lemma group_filters:
  fixes F C :: "currency list"
  assumes "\<forall>c \<in> set F. type c = ''fiat''" and "\<forall>c \<in> set C. type c = ''crypto''"
  shows "filter (\<lambda>c. type c = ''fiat'') (take n F @ take m C) = take n F"
    and "filter (\<lambda>c. type c = ''crypto'') (take n F @ take m C) = take m C"
proof -
  have "\<forall>c \<in> set (take n F). type c = ''fiat''" "\<forall>c \<in> set (take m C). type c = ''crypto''"
    using assms by (auto dest: in_set_takeD)
  then show "filter (\<lambda>c. type c = ''fiat'') (take n F @ take m C) = take n F"
    and "filter (\<lambda>c. type c = ''crypto'') (take n F @ take m C) = take m C"
    by (auto simp: filter_empty_conv filter_id_conv)
qed

lemma swal_displayPriceChart:
  "swal (snd (displayPriceChart w rnd f t s)) = swal s"
  by (simp add: displayPriceChart_def Let_def showChartLoadingIndicator_def
      hideChartLoadingIndicator_def showChartError_def createPriceChart_def
      split: prod.splits sum.splits)

lemma requests_getFiatToFiatExchangeRate:
  "fst (getFiatToFiatExchangeRate w f t) = [ExchangeRateRequest f]"
  by (simp add: getFiatToFiatExchangeRate_def fetch_def json_def defined_def resolve_def
      throw_def await_def split: option.splits prod.splits sum.splits)

lemma requests_getCryptoToCryptoExchangeRate:
  "\<exists>ids. fst (getCryptoToCryptoExchangeRate w s f t) = [SimplePriceRequest ids]"
  by (simp add: getCryptoToCryptoExchangeRate_def fetch_def json_def defined_def resolve_def
      throw_def await_def Let_def split: option.splits prod.splits sum.splits)

lemma requests_getFiatToCryptoExchangeRate:
  "\<exists>cid. fst (getFiatToCryptoExchangeRate w s f t) = [SimplePriceRequest cid]
     \<or> fst (getFiatToCryptoExchangeRate w s f t) = [SimplePriceRequest cid, ExchangeRateRequest f]"
  by (simp add: getFiatToCryptoExchangeRate_def fetch_def json_def defined_def resolve_def
      throw_def await_def Let_def split: option.splits prod.splits sum.splits)

lemma requests_getCryptoToFiatExchangeRate:
  "\<exists>cid. fst (getCryptoToFiatExchangeRate w s f t) = [SimplePriceRequest cid]
     \<or> fst (getCryptoToFiatExchangeRate w s f t) = [SimplePriceRequest cid, ExchangeRateRequest ''USD'']"
  by (simp add: getCryptoToFiatExchangeRate_def fetch_def json_def defined_def resolve_def
      throw_def await_def Let_def split: option.splits prod.splits sum.splits)

lemma requests_exchangeRateFor:
  "length (fst (exchangeRateFor w s f t)) \<le> 2 \<and> distinct (fst (exchangeRateFor w s f t))"
proof -
  have "exchangeRateFor w s f t = getFiatToFiatExchangeRate w f t
      \<or> exchangeRateFor w s f t = getCryptoToCryptoExchangeRate w s f t
      \<or> exchangeRateFor w s f t = getFiatToCryptoExchangeRate w s f t
      \<or> exchangeRateFor w s f t = getCryptoToFiatExchangeRate w s f t"
    by (simp add: exchangeRateFor_def Let_def)
  then consider "exchangeRateFor w s f t = getFiatToFiatExchangeRate w f t"
    | "exchangeRateFor w s f t = getCryptoToCryptoExchangeRate w s f t"
    | "exchangeRateFor w s f t = getFiatToCryptoExchangeRate w s f t"
    | "exchangeRateFor w s f t = getCryptoToFiatExchangeRate w s f t"
    by blast
  then show ?thesis
  proof cases
    case 1
    then show ?thesis by (simp add: requests_getFiatToFiatExchangeRate)
  next
    case 2
    then show ?thesis using requests_getCryptoToCryptoExchangeRate [of w s f t] by auto
  next
    case 3
    then show ?thesis using requests_getFiatToCryptoExchangeRate [of w s f t] by auto
  next
    case 4
    then show ?thesis using requests_getCryptoToFiatExchangeRate [of w s f t] by auto
  qed
qed

lemma Map_set_same: "Map_set k v m k = Some v"
  by (simp add: Map_set_def)

lemma Map_set_other: "k' \<noteq> k \<Longrightarrow> Map_set k v m k' = m k'"
  by (simp add: Map_set_def)

lemma capitals_not_small:
  "u \<in> set ''ABCDEFGHIJKLMNOPQRSTUVWXYZ'' \<Longrightarrow> u \<notin> set ''abcdefghijklmnopqrstuvwxyz''"
  by auto

lemma map_of_zip_None: "u \<notin> set xs \<Longrightarrow> map_of (zip xs ys) u = None"
  by (auto simp: map_of_eq_None_iff dest: set_zip_leftD)

lemma upper_char_capital:
  assumes "u \<in> set ''ABCDEFGHIJKLMNOPQRSTUVWXYZ''"
  shows "upper_char u = u"
proof -
  have "u \<notin> set ''abcdefghijklmnopqrstuvwxyz''"
    using assms by (rule capitals_not_small)
  then have "map_of (zip ''abcdefghijklmnopqrstuvwxyz'' ''ABCDEFGHIJKLMNOPQRSTUVWXYZ'') u = None"
    by (rule map_of_zip_None)
  then show ?thesis
    by (simp only: upper_char_def option.case)
qed

lemma upper_char_idem: "upper_char (upper_char c) = upper_char c"
proof (cases "map_of (zip ''abcdefghijklmnopqrstuvwxyz'' ''ABCDEFGHIJKLMNOPQRSTUVWXYZ'') c")
  case None
  then have "upper_char c = c"
    by (simp only: upper_char_def option.case)
  then show ?thesis
    by simp
next
  case (Some u)
  then have u: "upper_char c = u"
    by (simp only: upper_char_def option.case)
  from Some have "(c, u) \<in> set (zip ''abcdefghijklmnopqrstuvwxyz'' ''ABCDEFGHIJKLMNOPQRSTUVWXYZ'')"
    by (rule map_of_SomeD)
  then have "u \<in> set ''ABCDEFGHIJKLMNOPQRSTUVWXYZ''"
    by (rule set_zip_rightD)
  then have "upper_char u = u"
    by (rule upper_char_capital)
  with u show ?thesis
    by simp
qed

lemma toUpperCase_idem: "toUpperCase (toUpperCase s) = toUpperCase s"
  by (simp add: toUpperCase_def upper_char_idem)

lemma allCurrencies_loadCurrencies:
  "allCurrencies (snd (loadCurrencies w s)) =
     snd (loadFiatCurrencies w s) @ snd (snd (loadCryptoCurrencies w s))"
  by (simp add: loadCurrencies_def Let_def split: prod.splits)

lemma cryptoIdMap_loadCurrencies:
  "cryptoIdMap (snd (loadCurrencies w s)) = cryptoIdMap (fst (snd (loadCryptoCurrencies w s)))"
  by (simp add: loadCurrencies_def Let_def split: prod.splits)

lemma toUpperCase_USD: "toUpperCase ''USD'' = ''USD''"
  by (simp add: toUpperCase_def upper_char_def)

lemma codes_sort_key:
  "set (map code (sort_key code cs)) = set (map code cs)"
  "distinct (map code (sort_key code cs)) = distinct (map code cs)"
  by (simp_all add: distinct_map)

subsection \<open>Products of rounded quotients\<close>

lemma zero_price_product:
  assumes "a = 0 \<or> b = 0"
  shows "js_mul (js_div (Fin a) (Fin b)) (js_div (Fin b) (Fin a)) = NaN"
proof (cases "a = 0")
  case True
  then show ?thesis
    by (cases "b = 0") (simp_all add: round64_def)
next
  case False
  with assms have "b = 0"
    by simp
  with False show ?thesis
    by (simp add: round64_def)
qed

lemma reciprocal_product:
  assumes lo: "1 / 2 ^ 1022 \<le> \<bar>a / b\<bar>" and hi: "\<bar>a / b\<bar> \<le> 2 ^ 1022"
  shows "\<exists>y. js_mul (js_div (Fin a) (Fin b)) (js_div (Fin b) (Fin a)) = Fin y
           \<and> \<bar>y - 1\<bar> \<le> 1 / 2 ^ 51"
proof -
  define x where "x = a / b"
  define u :: real where "u = 1 / 2 ^ 53"
  have x0: "x \<noteq> 0"
    using lo unfolding x_def by auto
  then have ab: "a \<noteq> 0" "b \<noteq> 0"
    unfolding x_def by auto
  have inv: "b / a = 1 / x"
    unfolding x_def by simp
  have pos: "0 < \<bar>x\<bar>"
    using x0 by simp
  have lo': "1 / 2 ^ 1022 \<le> \<bar>1 / x\<bar>"
  proof -
    have "\<bar>x\<bar> * (1 / 2 ^ 1022) \<le> 1"
      using hi unfolding x_def [symmetric] by simp
    then have "1 / 2 ^ 1022 \<le> 1 / \<bar>x\<bar>"
      using pos by (simp add: field_simps)
    then show ?thesis
      by (simp add: abs_divide)
  qed
  have hi': "\<bar>1 / x\<bar> \<le> 2 ^ 1023"
  proof -
    have "1 \<le> \<bar>x\<bar> * 2 ^ 1022"
      using lo unfolding x_def [symmetric] by (simp add: field_simps)
    then have "1 / \<bar>x\<bar> \<le> 2 ^ 1022"
      using pos by (simp add: field_simps)
    then show ?thesis
      by (simp add: abs_divide)
  qed
  have hi1: "\<bar>x\<bar> \<le> 2 ^ 1023"
    using hi unfolding x_def [symmetric] by simp
  obtain y1 where y1: "round64 x = Fin y1" "\<bar>y1 - x\<bar> \<le> \<bar>x\<bar> / 2 ^ 53"
    using round64_normal [of x] lo hi1 unfolding x_def [symmetric] by blast
  obtain y2 where y2: "round64 (1 / x) = Fin y2" "\<bar>y2 - 1 / x\<bar> \<le> \<bar>1 / x\<bar> / 2 ^ 53"
    using round64_normal [OF lo' hi'] by blast
  have e1: "\<bar>y1 - x\<bar> \<le> \<bar>x\<bar> * u" and e2: "\<bar>y2 - 1 / x\<bar> \<le> u / \<bar>x\<bar>"
    using y1(2) y2(2) by (simp_all add: u_def abs_divide)
  have u0: "0 \<le> u"
    by (simp add: u_def)
  have split: "y1 * y2 - 1 = (y1 - x) * (y2 - 1 / x) + x * (y2 - 1 / x) + (y1 - x) * (1 / x)"
    using x0 by (simp add: field_simps)
  have t1: "\<bar>(y1 - x) * (y2 - 1 / x)\<bar> \<le> u * u"
  proof -
    have "\<bar>y1 - x\<bar> * \<bar>y2 - 1 / x\<bar> \<le> (\<bar>x\<bar> * u) * (u / \<bar>x\<bar>)"
      using e1 e2 by (intro mult_mono) simp_all
    also have "\<dots> = u * u"
      using pos by simp
    finally show ?thesis
      by (simp add: abs_mult)
  qed
  have t2: "\<bar>x * (y2 - 1 / x)\<bar> \<le> u"
  proof -
    have "\<bar>x\<bar> * \<bar>y2 - 1 / x\<bar> \<le> \<bar>x\<bar> * (u / \<bar>x\<bar>)"
      using e2 by (intro mult_left_mono) simp_all
    also have "\<dots> = u"
      using pos by simp
    finally show ?thesis
      by (simp add: abs_mult)
  qed
  have t3: "\<bar>(y1 - x) * (1 / x)\<bar> \<le> u"
  proof -
    have "\<bar>y1 - x\<bar> * (1 / \<bar>x\<bar>) \<le> (\<bar>x\<bar> * u) * (1 / \<bar>x\<bar>)"
      using e1 by (intro mult_right_mono) simp_all
    also have "\<dots> = u"
      using pos by simp
    finally show ?thesis
      by (simp add: abs_mult abs_divide)
  qed
  have near: "\<bar>y1 * y2 - 1\<bar> \<le> u * u + 2 * u"
    unfolding split using t1 t2 t3 by linarith
  have small: "u * u + 2 * u \<le> 1 / 2"
    by (simp add: u_def)
  have plo: "1 / 2 ^ 1022 \<le> \<bar>y1 * y2\<bar>"
  proof -
    have "(1::real) / 2 ^ 1022 \<le> 1 / 2"
      by simp
    also have "\<dots> \<le> \<bar>y1 * y2\<bar>"
      using near small by linarith
    finally show ?thesis .
  qed
  have phi: "\<bar>y1 * y2\<bar> \<le> 2 ^ 1023"
  proof -
    have "\<bar>y1 * y2\<bar> \<le> 2"
      using near small by linarith
    also have "\<dots> \<le> (2::real) ^ 1023"
      by simp
    finally show ?thesis .
  qed
  obtain y where y: "round64 (y1 * y2) = Fin y" "\<bar>y - y1 * y2\<bar> \<le> \<bar>y1 * y2\<bar> / 2 ^ 53"
    using round64_normal [OF plo phi] by blast
  have "\<bar>y1 * y2\<bar> \<le> 1 + (u * u + 2 * u)"
    using near by linarith
  then have "\<bar>y1 * y2\<bar> / 2 ^ 53 \<le> (1 + (u * u + 2 * u)) * u"
    by (simp add: u_def)
  with y(2) near have "\<bar>y - 1\<bar> \<le> (1 + (u * u + 2 * u)) * u + (u * u + 2 * u)"
    by linarith
  also have "\<dots> \<le> 1 / 2 ^ 51"
    by (simp add: u_def)
  finally have bound: "\<bar>y - 1\<bar> \<le> 1 / 2 ^ 51" .
  have "js_mul (js_div (Fin a) (Fin b)) (js_div (Fin b) (Fin a)) = Fin y"
    using ab y1(1) y2(1) y(1) by (simp add: inv x_def [symmetric])
  with bound show ?thesis
    by blast
qed

lemma product_error:
  assumes "1 / 2 ^ 1022 \<le> \<bar>x1 * x2\<bar>" and "\<bar>x1 * x2\<bar> \<le> 2 ^ 1023"
  shows "\<exists>y. js_mul (Fin x1) (Fin x2) = Fin y \<and> \<bar>y - x1 * x2\<bar> \<le> \<bar>x1 * x2\<bar> / 2 ^ 53"
  using round64_normal [OF assms] by simp

subsection \<open>The points of the placeholder series\<close>

lemma round64_error:
  assumes "\<bar>x\<bar> \<le> 2 ^ 1023"
  shows "\<exists>y. round64 x = Fin y \<and> \<bar>y - x\<bar> \<le> \<bar>x\<bar> / 2 ^ 53 + 1 / 2 ^ 100"
proof (cases "\<bar>x\<bar> < 1 / 2 ^ 1022")
  case True
  then obtain y where y: "round64 x = Fin y" "\<bar>y - x\<bar> \<le> 1 / 2 ^ 1075"
    using round64_small by blast
  have "(1::real) / 2 ^ 1075 \<le> 1 / 2 ^ 100"
    by simp
  moreover have "0 \<le> \<bar>x\<bar> / 2 ^ 53"
    by simp
  ultimately have "\<bar>y - x\<bar> \<le> \<bar>x\<bar> / 2 ^ 53 + 1 / 2 ^ 100"
    using y(2) by linarith
  with y(1) show ?thesis
    by blast
next
  case False
  then have "1 / 2 ^ 1022 \<le> \<bar>x\<bar>"
    by simp
  then obtain y where y: "round64 x = Fin y" "\<bar>y - x\<bar> \<le> \<bar>x\<bar> / 2 ^ 53"
    using round64_normal assms by blast
  have "\<bar>y - x\<bar> \<le> \<bar>x\<bar> / 2 ^ 53 + 1 / 2 ^ 100"
    using y(2) by simp
  with y(1) show ?thesis
    by blast
qed

lemma abs_near: "\<bar>y - x\<bar> \<le> d \<Longrightarrow> \<bar>x\<bar> \<le> m \<Longrightarrow> \<bar>y\<bar> \<le> m + (d::real)"
  by linarith

lemma round64_bounded:
  assumes "\<bar>x\<bar> \<le> m" and "m \<le> 2"
  shows "\<exists>y. round64 x = Fin y \<and> \<bar>y - x\<bar> \<le> m / 2 ^ 53 + 1 / 2 ^ 100
           \<and> \<bar>y\<bar> \<le> m + (m / 2 ^ 53 + 1 / 2 ^ 100)"
proof -
  have "\<bar>x\<bar> \<le> 2"
    using assms by linarith
  then have "\<bar>x\<bar> \<le> 2 ^ 1023"
    by (rule order_trans) simp
  then obtain y where y: "round64 x = Fin y" "\<bar>y - x\<bar> \<le> \<bar>x\<bar> / 2 ^ 53 + 1 / 2 ^ 100"
    using round64_error by blast
  have "\<bar>x\<bar> / 2 ^ 53 \<le> m / 2 ^ 53"
    using assms(1) by (rule divide_right_mono) simp
  with y(2) have near: "\<bar>y - x\<bar> \<le> m / 2 ^ 53 + 1 / 2 ^ 100"
    by linarith
  from near assms(1) have "\<bar>y\<bar> \<le> m + (m / 2 ^ 53 + 1 / 2 ^ 100)"
    by (rule abs_near)
  with y(1) near show ?thesis
    by blast
qed

lemma fallback_point:
  assumes "0 \<le> r" and "r < 1"
  shows "\<exists>v. js_add (Fin 1) (js_mul (js_sub (Fin r) (Fin (1 / 2))) (round64 (2 / 100))) = Fin v
           \<and> \<bar>v - 1\<bar> \<le> 1 / 100 + 1 / 2 ^ 52"
proof -
  define A :: real where "A = 1 / 2 + ((1 / 2) / 2 ^ 53 + 1 / 2 ^ 100)"
  define C :: real where "C = 1 / 50 + ((1 / 50) / 2 ^ 53 + 1 / 2 ^ 100)"
  define T :: real where "T = A * C + (A * C / 2 ^ 53 + 1 / 2 ^ 100)"
  have half: "\<bar>r - 1 / 2\<bar> \<le> 1 / 2"
    using assms by linarith
  obtain a where a: "round64 (r - 1 / 2) = Fin a" "\<bar>a\<bar> \<le> A"
    using round64_bounded [OF half] unfolding A_def by auto
  have "\<bar>2 / 100 :: real\<bar> \<le> 1 / 50"
    by simp
  then obtain c where c: "round64 (2 / 100) = Fin c" "\<bar>c\<bar> \<le> C"
    using round64_bounded [of "2 / 100" "1 / 50"] unfolding C_def by auto
  have A0: "0 \<le> A" and AC: "A * C \<le> 2"
    by (simp_all add: A_def C_def)
  have prod: "\<bar>a * c\<bar> \<le> A * C"
    unfolding abs_mult using a(2) c(2) A0 by (intro mult_mono) simp_all
  obtain t where t: "round64 (a * c) = Fin t" "\<bar>t\<bar> \<le> T"
    using round64_bounded [OF prod AC] unfolding T_def by auto
  have T1: "T \<le> 1 / 100 + 1 / 2 ^ 58"
    by (simp add: T_def A_def C_def)
  have sum: "\<bar>1 + t\<bar> \<le> 1 + T"
    using t(2) by linarith
  have "1 + T \<le> 2"
    using T1 by simp
  with sum obtain v where v: "round64 (1 + t) = Fin v"
      "\<bar>v - (1 + t)\<bar> \<le> (1 + T) / 2 ^ 53 + 1 / 2 ^ 100"
    using round64_bounded [of "1 + t" "1 + T"] by auto
  have "(1 + T) / 2 ^ 53 \<le> (1 + (1 / 100 + 1 / 2 ^ 58)) / 2 ^ 53"
    using T1 by (intro divide_right_mono) simp_all
  then have "T + ((1 + T) / 2 ^ 53 + 1 / 2 ^ 100)
      \<le> (1 / 100 + 1 / 2 ^ 58) + ((1 + (1 / 100 + 1 / 2 ^ 58)) / 2 ^ 53 + 1 / 2 ^ 100)"
    using T1 by linarith
  also have "\<dots> \<le> 1 / 100 + 1 / 2 ^ 52"
    by simp
  finally have "T + ((1 + T) / 2 ^ 53 + 1 / 2 ^ 100) \<le> 1 / 100 + 1 / 2 ^ 52" .
  with v(2) t(2) have "\<bar>v - 1\<bar> \<le> 1 / 100 + 1 / 2 ^ 52"
    by linarith
  moreover have "js_add (Fin 1) (js_mul (js_sub (Fin r) (Fin (1 / 2))) (round64 (2 / 100))) = Fin v"
    using a(1) c(1) t(1) v(1) by (simp add: js_sub_def js_neg_def)
  ultimately show ?thesis
    by blast
qed

lemma fallback_points:
  assumes "\<forall>i. 0 \<le> rnd i \<and> rnd i < 1"
    and "p \<in> set (points (generateFallbackChartData rnd))"
  shows "\<exists>v. p = Fin v \<and> \<bar>v - 1\<bar> \<le> 1 / 100 + 1 / 2 ^ 52"
proof -
  obtain i where
    "p = js_add (Fin 1) (js_mul (js_sub (Fin (rnd i)) (Fin (1 / 2))) (round64 (2 / 100)))"
    using assms(2) by (auto simp: generateFallbackChartData_def fallbackLoop_points)
  moreover have "0 \<le> rnd i" "rnd i < 1"
    using assms(1) by simp_all
  ultimately show ?thesis
    using fallback_point [of "rnd i"] by simp
qed

subsection \<open>When the builders throw\<close>

lemma thrown_getFiatToFiatExchangeRate:
  "thrown (getFiatToFiatExchangeRate w f t) = tableUnavailable w f"
  by (cases "exchangeRateAPI w f")
    (auto simp: thrown_def tableUnavailable_def getFiatToFiatExchangeRate_def fetch_def json_def
      defined_def resolve_def throw_def await_def split: option.splits)

lemma thrown_getCryptocurrencyHistoricalData:
  "thrown (getCryptocurrencyHistoricalData w s c other isInverse) = historyUnavailable w s c"
  by (cases "getCryptoId s c")
    (auto simp: thrown_def historyUnavailable_def getCryptocurrencyHistoricalData_def
      falsy_str_def template_def fetch_def json_def resolve_def throw_def await_def Let_def
      split: option.splits)

lemma thrownE:
  assumes "thrown m"
  obtains l e where "m = (l, Inl e)"
  using assms by (cases m) (auto simp: thrown_def split: sum.splits)

subsection \<open>The two legs of the catalogue\<close>

lemma loadFiatCurrencies_cases:
  "snd (loadFiatCurrencies w s) =
     (case liveTable w of
        None \<Rightarrow> fallbackFiatCurrencies
      | Some table \<Rightarrow>
          sort_key code
            (\<lparr>code = ''USD'', name = nameOr s ''USD'' dolar_estadounidense, type = ''fiat'',
              currency_id = None\<rparr>
             # map (\<lambda>c. \<lparr>code = c, name = nameOr s c c, type = ''fiat'', currency_id = None\<rparr>)
                 (Object_keys table)))"
  by (cases "exchangeRateAPI w ''USD''")
    (auto simp: loadFiatCurrencies_def liveTable_def fetch_def json_def defined_def resolve_def
      throw_def await_def Let_def split: option.splits simp del: sort_key_simps)

lemma loadCryptoCurrencies_cases:
  "snd (snd (loadCryptoCurrencies w s)) =
     (case liveRanking w of
        None \<Rightarrow> fallbackCryptoCurrencies s
      | Some coins \<Rightarrow>
          map (\<lambda>cryptoData.
                 \<lparr>code = toUpperCase (symbol cryptoData), name = market_name cryptoData,
                  type = ''crypto'', currency_id = Some (market_id cryptoData)\<rparr>) coins)"
  by (cases "marketsAPI w")
    (auto simp: loadCryptoCurrencies_def liveRanking_def fetch_def json_def defined_def
      resolve_def throw_def await_def split: option.splits)

lemma cryptoIdMap_loadCryptoCurrencies:
  "cryptoIdMap (fst (snd (loadCryptoCurrencies w s))) =
     fold (\<lambda>c. Map_set (code c) (currency_id c)) (snd (snd (loadCryptoCurrencies w s)))
       (cryptoIdMap s)"
  by (cases "marketsAPI w")
    (auto simp: loadCryptoCurrencies_def fetch_def json_def defined_def resolve_def throw_def
      await_def fold_map comp_def split: option.splits)

lemma fold_set_last:
  "x \<in> set xs \<Longrightarrow>
   fold (\<lambda>x. Map_set (K x) (V x)) xs m0 (K x) = Some (V (last (filter (\<lambda>y. K y = K x) xs)))"
proof (induction xs rule: rev_induct)
  case Nil
  then show ?case by simp
next
  case (snoc y ys)
  show ?case
  proof (cases "K y = K x")
    case True
    then show ?thesis
      by (simp add: Map_set_same)
  next
    case False
    with snoc.prems have "x \<in> set ys"
      by auto
    with False snoc.IH show ?thesis
      by (simp add: Map_set_other)
  qed
qed

lemma last_filter_distinct:
  "distinct (map K xs) \<Longrightarrow> x \<in> set xs \<Longrightarrow> filter (\<lambda>y. K y = K x) xs = [x]"
proof (induction xs)
  case Nil
  then show ?case by simp
next
  case (Cons y ys)
  show ?case
  proof (cases "x = y")
    case True
    with Cons.prems(1) have "K x \<notin> K ` set ys"
      by simp
    then have "\<forall>z \<in> set ys. K z \<noteq> K x"
      by (metis image_eqI)
    then have "filter (\<lambda>y. K y = K x) ys = []"
      by (simp add: filter_empty_conv)
    with True show ?thesis
      by simp
  next
    case False
    with Cons.prems have in_ys: "x \<in> set ys" and "K y \<notin> K ` set ys"
      by auto
    then have "K y \<noteq> K x"
      by auto
    with Cons.IH Cons.prems(1) in_ys show ?thesis
      by simp
  qed
qed

lemma codes_fallbackFiatCurrencies:
  "map code fallbackFiatCurrencies = [''USD'', ''EUR'', ''GBP'', ''JPY'', ''ARS'', ''BRL'']"
  by (simp add: fallbackFiatCurrencies_def)

lemma codes_live_fiat:
  "set (map code (sort_key code
      (\<lparr>code = ''USD'', name = n, type = ''fiat'', currency_id = None\<rparr>
       # map (\<lambda>c. \<lparr>code = c, name = nameOr s c c, type = ''fiat'', currency_id = None\<rparr>)
           (Object_keys table)))) = insert ''USD'' (fst ` set table)"
  "distinct (map code (sort_key code
      (\<lparr>code = ''USD'', name = n, type = ''fiat'', currency_id = None\<rparr>
       # map (\<lambda>c. \<lparr>code = c, name = nameOr s c c, type = ''fiat'', currency_id = None\<rparr>)
           (Object_keys table)))) = (''USD'' \<notin> fst ` set table)"
  unfolding codes_sort_key by (simp_all add: Object_keys_def comp_def)

section \<open>Fiat to fiat\<close>

text \<open>
  Claim C1. When both selected currencies are fiat, the codes differ and the amount is
  valid, and the provider answers the request for the table quoted against the source
  code with a table, then \<open>getFiatToFiatExchangeRate\<close> sends exactly that request and
  returns the table's entry for the target code, and the result panel shows the amount
  multiplied by that rate. In the scenario USD to EUR, amount 100, table
  \<^verbatim>\<open>{EUR: 0.9}\<close>, the panel shows 90 at rate 0.9.
\<close>

theorem fiat_to_fiat_conversion:
  assumes sel: "selectedCode (fromInput s) = Some f" "selectedCode (toInput s) = Some t"
    and ne: "f \<noteq> []" "t \<noteq> []" "f \<noteq> t"
    and ty: "selectedType (fromInput s) = Some ''fiat''" "selectedType (toInput s) = Some ''fiat''"
    and amt: "\<not> falsy_num (parseFloat (amountText s))" "\<not> js_le_zero (parseFloat (amountText s))"
    and resp: "exchangeRateAPI w f = Some (Response True (Some d))" "rates d = Some table"
  shows "getFiatToFiatExchangeRate w f t =
           ([ExchangeRateRequest f], Inr (prop_num (map_of table t)))
       \<and> resultDiv (snd (convertCurrency w rnd s)) =
           ResultConversion
             \<lparr>originalAmount = parseFloat (amountText s), fromCurrency = f,
              convertedAmount =
                js_mul (parseFloat (amountText s)) (ToNumber (prop_num (map_of table t))),
              toCurrency = t, exchangeRate = prop_num (map_of table t)\<rparr>"
proof -
  have rate: "getFiatToFiatExchangeRate w f t =
      ([ExchangeRateRequest f], Inr (prop_num (map_of table t)))"
    using resp by (rule getFiatToFiatExchangeRate_ok)
  have disp: "exchangeRateFor w (showLoadingIndicator s) f t =
      ([ExchangeRateRequest f], Inr (prop_num (map_of table t)))"
    using ty rate by (simp add: exchangeRateFor_def selections_showLoadingIndicator)
  have "resultDiv (snd (convertCurrency w rnd s)) =
      ResultConversion
        \<lparr>originalAmount = parseFloat (amountText s), fromCurrency = f,
         convertedAmount =
           js_mul (parseFloat (amountText s)) (ToNumber (prop_num (map_of table t))),
         toCurrency = t, exchangeRate = prop_num (map_of table t)\<rparr>"
    using sel ne amt disp
    by (simp add: convertCurrency_def Let_def displayConversionResult_def
        resultDiv_displayPriceChart swalClose_def case_prod_beta)
  with rate show ?thesis by simp
qed

theorem fiat_to_fiat_conversion_usd_eur:
  "getFiatToFiatExchangeRate usd_eur_provider ''USD'' ''EUR'' =
     ([ExchangeRateRequest ''USD''], Inr (Number (Fin (8106479329266893 / 2 ^ 53))))
   \<and> resultDiv (snd (convertCurrency usd_eur_provider (always 0) (page cur_USD cur_EUR ''100''))) =
       ResultConversion
         \<lparr>originalAmount = Fin 100, fromCurrency = ''USD'', convertedAmount = Fin 90,
          toCurrency = ''EUR'', exchangeRate = Number (Fin (8106479329266893 / 2 ^ 53))\<rparr>"
  using fiat_to_fiat_conversion [of "page cur_USD cur_EUR ''100''" "''USD''" "''EUR''" usd_eur_provider
      "\<lparr>rates = Some [(''EUR'', 9 / 10)]\<rparr>" "[(''EUR'', 9 / 10)]" "always 0"]
  by (simp add: page_def cur_USD_def cur_EUR_def usd_eur_provider_def no_provider_def initial_def
      selectCurrency_def falsy_str_def parseFloat_100 prop_num_def round64_eval)

section \<open>Mixed pairs\<close>

text \<open>
  Claim C2. For a fiat source and a crypto target, and for a crypto source and a fiat
  target, with the crypto leg's price entry \<open>q\<close> in the provider's answer: fiat to
  crypto resolves to \<open>1 / price\<close> when the source code is USD, and otherwise to
  \<open>usdRate / price\<close> with \<open>usdRate\<close> the USD entry of the table quoted against the
  source code; crypto to fiat resolves to the price when the target code is USD, and
  otherwise to \<open>price * table[to]\<close> with the table quoted against USD. Neither path
  looks at \<^verbatim>\<open>response.ok\<close>.
\<close>

theorem mixed_pairs_through_usd:
  assumes price: "coinGeckoAPI w cid = Some (Response okc (Some cryptoData))"
      "map_of cryptoData cid = Some q"
    and target: "selectedType (fromInput s) = Some ''fiat''"
      "selectedType (toInput s) = Some ''crypto''" "cryptoIdOf s (toInput s) c = cid"
    and source: "selectedType (fromInput s') = Some ''crypto''"
      "selectedType (toInput s') = Some ''fiat''" "cryptoIdOf s' (fromInput s') c = cid"
    and fiat: "exchangeRateAPI w f = Some (Response okf (Some fd))" "rates fd = Some table"
      "f \<noteq> ''USD''"
    and dollar: "exchangeRateAPI w ''USD'' = Some (Response oku (Some ud))" "rates ud = Some utable"
      "t \<noteq> ''USD''"
  shows "exchangeRateFor w s ''USD'' c =
           ([SimplePriceRequest cid], Inr (Number (js_div (Fin 1) (ToNumber (prop_num (usd q))))))
       \<and> exchangeRateFor w s f c =
           ([SimplePriceRequest cid, ExchangeRateRequest f],
            Inr (Number (js_div (ToNumber (prop_num (map_of table ''USD'')))
                                (ToNumber (prop_num (usd q))))))
       \<and> exchangeRateFor w s' c ''USD'' =
           ([SimplePriceRequest cid], Inr (prop_num (usd q)))
       \<and> exchangeRateFor w s' c t =
           ([SimplePriceRequest cid, ExchangeRateRequest ''USD''],
            Inr (Number (js_mul (ToNumber (prop_num (usd q)))
                                (ToNumber (prop_num (map_of utable t))))))"
proof -
  have fiat_crypto: "exchangeRateFor w s x c = getFiatToCryptoExchangeRate w s x c" for x
    using target by (simp add: exchangeRateFor_def)
  have crypto_fiat: "exchangeRateFor w s' c x = getCryptoToFiatExchangeRate w s' c x" for x
    using source by (simp add: exchangeRateFor_def)
  have a: "getFiatToCryptoExchangeRate w s ''USD'' c =
      ([SimplePriceRequest cid], Inr (Number (js_div (Fin 1) (ToNumber (prop_num (usd q))))))"
    using price target(3)
    by (simp add: getFiatToCryptoExchangeRate_def fetch_def json_def defined_def resolve_def
        await_def)
  have b: "getFiatToCryptoExchangeRate w s f c =
      ([SimplePriceRequest cid, ExchangeRateRequest f],
       Inr (Number (js_div (ToNumber (prop_num (map_of table ''USD'')))
                           (ToNumber (prop_num (usd q))))))"
    using price target(3) fiat
    by (simp add: getFiatToCryptoExchangeRate_def fetch_def json_def defined_def resolve_def
        await_def)
  have c: "getCryptoToFiatExchangeRate w s' c ''USD'' =
      ([SimplePriceRequest cid], Inr (prop_num (usd q)))"
    using price source(3)
    by (simp add: getCryptoToFiatExchangeRate_def fetch_def json_def defined_def resolve_def
        await_def)
  have d: "getCryptoToFiatExchangeRate w s' c t =
      ([SimplePriceRequest cid, ExchangeRateRequest ''USD''],
       Inr (Number (js_mul (ToNumber (prop_num (usd q)))
                           (ToNumber (prop_num (map_of utable t))))))"
    using price source(3) dollar
    by (simp add: getCryptoToFiatExchangeRate_def fetch_def json_def defined_def resolve_def
        await_def)
  from a b c d show ?thesis
    by (simp add: fiat_crypto crypto_fiat)
qed

text \<open>
  With bitcoin at 60000 US dollars, a euro at 1.1 dollars and a dollar at 0.9 euros, the
  four rates are the doubles \<open>1 / 60000\<close> and \<open>1.1 / 60000\<close> are rounded to, 60000 and
  54000.
\<close>

theorem mixed_pairs_bitcoin:
  "exchangeRateFor btc_provider (page cur_EUR cur_BTC ''1'') ''USD'' ''BTC'' =
     ([SimplePriceRequest ''bitcoin''], Inr (Number (Fin (2459565876494607 / 2 ^ 67))))
   \<and> exchangeRateFor btc_provider (page cur_EUR cur_BTC ''1'') ''EUR'' ''BTC'' =
     ([SimplePriceRequest ''bitcoin'', ExchangeRateRequest ''EUR''],
      Inr (Number (Fin (676380616036017 / 2 ^ 65))))
   \<and> exchangeRateFor btc_provider (page cur_BTC cur_USD ''1'') ''BTC'' ''USD'' =
     ([SimplePriceRequest ''bitcoin''], Inr (Number (Fin 60000)))
   \<and> exchangeRateFor btc_provider (page cur_BTC cur_USD ''1'') ''BTC'' ''EUR'' =
     ([SimplePriceRequest ''bitcoin'', ExchangeRateRequest ''USD''], Inr (Number (Fin 54000)))"
proof -
  have price: "coinGeckoAPI btc_provider ''bitcoin'' =
      Some (Response True (Some [(''bitcoin'', \<lparr>usd = Some 60000\<rparr>)]))"
      "map_of [(''bitcoin'', \<lparr>usd = Some 60000\<rparr>)] ''bitcoin'' = Some \<lparr>usd = Some 60000\<rparr>"
    by (simp_all add: btc_provider_def no_provider_def)
  have target: "selectedType (fromInput (page cur_EUR cur_BTC ''1'')) = Some ''fiat''"
      "selectedType (toInput (page cur_EUR cur_BTC ''1'')) = Some ''crypto''"
      "cryptoIdOf (page cur_EUR cur_BTC ''1'') (toInput (page cur_EUR cur_BTC ''1'')) ''BTC'' =
        ''bitcoin''"
    by (simp_all add: page_def cur_EUR_def cur_BTC_def selectCurrency_def cryptoIdOf_def
        or_else_def template_def falsy_str_def)
  have source: "selectedType (fromInput (page cur_BTC cur_USD ''1'')) = Some ''crypto''"
      "selectedType (toInput (page cur_BTC cur_USD ''1'')) = Some ''fiat''"
      "cryptoIdOf (page cur_BTC cur_USD ''1'') (fromInput (page cur_BTC cur_USD ''1'')) ''BTC'' =
        ''bitcoin''"
    by (simp_all add: page_def cur_USD_def cur_BTC_def selectCurrency_def cryptoIdOf_def
        or_else_def template_def falsy_str_def)
  have fiat: "exchangeRateAPI btc_provider ''EUR'' =
      Some (Response True (Some \<lparr>rates = Some [(''USD'', 11 / 10)]\<rparr>))"
      "rates \<lparr>rates = Some [(''USD'', 11 / 10)]\<rparr> = Some [(''USD'', 11 / 10 :: real)]"
      "''EUR'' \<noteq> ''USD''"
    by (simp_all add: btc_provider_def no_provider_def)
  have dollar: "exchangeRateAPI btc_provider ''USD'' =
      Some (Response True (Some \<lparr>rates = Some [(''EUR'', 9 / 10)]\<rparr>))"
      "rates \<lparr>rates = Some [(''EUR'', 9 / 10)]\<rparr> = Some [(''EUR'', 9 / 10 :: real)]"
      "''EUR'' \<noteq> ''USD''"
    by (simp_all add: btc_provider_def no_provider_def)
  show ?thesis
    using mixed_pairs_through_usd [OF price target source fiat dollar]
    by (simp add: prop_num_def round64_eval)
qed

section \<open>Reciprocal rates\<close>

text \<open>
  Claim C3 says that for two cryptocurrencies the rates of the two directions multiply
  to exactly 1. As stated it fails for coins priced at 49 and 1: one direction is 49,
  the other the double nearest to \<open>1 / 49\<close>, and their product in doubles is
  \<open>1 - 2\<^sup>-\<^sup>5\<^sup>3\<close> (it prints as 0.9999999999999999). It also fails when the provider
  prices a coin at zero: one direction is \<open>0 / 5 = 0\<close>, the other
  \<open>5 / 0 = Infinity\<close>, and their product is \<open>NaN\<close>.
\<close>

theorem reciprocal_rates_not_one:
  "snd (exchangeRateFor forty_nine_provider (page cur_BTC cur_ETH ''1'') ''BTC'' ''ETH'') =
     Inr (Number (Fin 49))
   \<and> snd (exchangeRateFor forty_nine_provider (page cur_ETH cur_BTC ''1'') ''ETH'' ''BTC'') =
     Inr (Number (Fin (5882252574524729 / 2 ^ 58)))
   \<and> js_mul (Fin 49) (Fin (5882252574524729 / 2 ^ 58)) = Fin (9007199254740991 / 2 ^ 53)
   \<and> js_mul (Fin 49) (Fin (5882252574524729 / 2 ^ 58)) \<noteq> Fin 1
   \<and> snd (exchangeRateFor zero_price_provider (page cur_DEAD cur_ETH ''1'') ''DEAD'' ''ETH'') =
     Inr (Number (Fin 0))
   \<and> snd (exchangeRateFor zero_price_provider (page cur_ETH cur_DEAD ''1'') ''ETH'' ''DEAD'') =
     Inr (Number PosInf)
   \<and> js_mul (Fin 0) PosInf = NaN"
proof -
  have rates: "snd (exchangeRateFor forty_nine_provider (page cur_BTC cur_ETH ''1'') ''BTC'' ''ETH'') =
      Inr (Number (Fin 49))"
      "snd (exchangeRateFor forty_nine_provider (page cur_ETH cur_BTC ''1'') ''ETH'' ''BTC'') =
      Inr (Number (Fin (5882252574524729 / 2 ^ 58)))"
    by (simp_all add: exchangeRateFor_def getCryptoToCryptoExchangeRate_def
        forty_nine_provider_def no_provider_def page_def cur_BTC_def cur_ETH_def initial_def
        selectCurrency_def cryptoIdOf_def or_else_def template_def falsy_str_def prop_num_def
        fetch_def json_def defined_def resolve_def await_def round64_eval)
  have product: "js_mul (Fin 49) (Fin (5882252574524729 / 2 ^ 58)) = Fin (9007199254740991 / 2 ^ 53)"
    by (simp add: round64_eval)
  then have less: "js_mul (Fin 49) (Fin (5882252574524729 / 2 ^ 58)) \<noteq> Fin 1"
    by simp
  have zero: "snd (exchangeRateFor zero_price_provider (page cur_DEAD cur_ETH ''1'') ''DEAD'' ''ETH'') =
      Inr (Number (Fin 0))"
      "snd (exchangeRateFor zero_price_provider (page cur_ETH cur_DEAD ''1'') ''ETH'' ''DEAD'') =
      Inr (Number PosInf)"
    by (simp_all add: exchangeRateFor_def getCryptoToCryptoExchangeRate_def
        zero_price_provider_def no_provider_def page_def cur_DEAD_def cur_ETH_def initial_def
        selectCurrency_def cryptoIdOf_def or_else_def template_def falsy_str_def prop_num_def
        fetch_def json_def defined_def resolve_def await_def round64_eval)
  from rates product less zero show ?thesis
    by simp
qed

text \<open>
  Claim C3, amended. Let both batched answers price the two coins at the same numbers,
  read as the doubles \<open>a\<close> and \<open>b\<close>. The two directions resolve to the quotients
  \<open>a / b\<close> and \<open>b / a\<close>, each rounded to a double. When the magnitude of \<open>a / b\<close> lies
  between \<open>2\<^sup>-\<^sup>1\<^sup>0\<^sup>2\<^sup>2\<close> and \<open>2\<^sup>1\<^sup>0\<^sup>2\<^sup>2\<close>, the product of the two rates, computed in doubles, is
  within \<open>2\<^sup>-\<^sup>5\<^sup>1\<close> of 1; when a price is zero it is \<open>NaN\<close>. For two fiat currencies the
  two directions resolve to the entries of the two tables, read as doubles; the product
  of the two rates is the double nearest to the product of the two entries, at a
  relative distance of at most \<open>2\<^sup>-\<^sup>5\<^sup>3\<close> from it, so it is 1 within that tolerance
  exactly when the product of the entries is.
\<close>

theorem reciprocal_rates:
  assumes dir1: "selectedType (fromInput s) = Some ''crypto''"
      "selectedType (toInput s) = Some ''crypto''"
      "cryptoIdOf s (fromInput s) A = ia" "cryptoIdOf s (toInput s) B = ib"
    and dir2: "selectedType (fromInput s') = Some ''crypto''"
      "selectedType (toInput s') = Some ''crypto''"
      "cryptoIdOf s' (fromInput s') B = ib" "cryptoIdOf s' (toInput s') A = ia"
    and ab: "coinGeckoAPI w (ia @ '','' @ ib) = Some (Response True (Some d1))"
      "map_of d1 ia = Some \<lparr>usd = Some pa\<rparr>" "map_of d1 ib = Some \<lparr>usd = Some pb\<rparr>"
    and ba: "coinGeckoAPI w (ib @ '','' @ ia) = Some (Response True (Some d2))"
      "map_of d2 ia = Some \<lparr>usd = Some pa\<rparr>" "map_of d2 ib = Some \<lparr>usd = Some pb\<rparr>"
    and doubles: "round64 pa = Fin a" "round64 pb = Fin b"
    and fiat: "selectedType (fromInput p) = Some ''fiat''" "selectedType (toInput p) = Some ''fiat''"
      "selectedType (fromInput p') = Some ''fiat''" "selectedType (toInput p') = Some ''fiat''"
    and fg: "exchangeRateAPI w F = Some (Response True (Some dF))" "rates dF = Some tF"
      "map_of tF G = Some r1" "round64 r1 = Fin x1"
    and gf: "exchangeRateAPI w G = Some (Response True (Some dG))" "rates dG = Some tG"
      "map_of tG F = Some r2" "round64 r2 = Fin x2"
  shows "snd (exchangeRateFor w s A B) = Inr (Number (js_div (Fin a) (Fin b)))
       \<and> snd (exchangeRateFor w s' B A) = Inr (Number (js_div (Fin b) (Fin a)))
       \<and> (1 / 2 ^ 1022 \<le> \<bar>a / b\<bar> \<and> \<bar>a / b\<bar> \<le> 2 ^ 1022 \<longrightarrow>
            (\<exists>y. js_mul (js_div (Fin a) (Fin b)) (js_div (Fin b) (Fin a)) = Fin y
               \<and> \<bar>y - 1\<bar> \<le> 1 / 2 ^ 51))
       \<and> (a = 0 \<or> b = 0 \<longrightarrow>
            js_mul (js_div (Fin a) (Fin b)) (js_div (Fin b) (Fin a)) = NaN)
       \<and> snd (exchangeRateFor w p F G) = Inr (Number (Fin x1))
       \<and> snd (exchangeRateFor w p' G F) = Inr (Number (Fin x2))
       \<and> (1 / 2 ^ 1022 \<le> \<bar>x1 * x2\<bar> \<and> \<bar>x1 * x2\<bar> \<le> 2 ^ 1023 \<longrightarrow>
            (\<exists>y. js_mul (Fin x1) (Fin x2) = Fin y
               \<and> \<bar>y - x1 * x2\<bar> \<le> \<bar>x1 * x2\<bar> / 2 ^ 53))"
proof -
  have c1: "snd (exchangeRateFor w s A B) = Inr (Number (js_div (Fin a) (Fin b)))"
    using dir1 ab doubles
    by (simp add: exchangeRateFor_def getCryptoToCryptoExchangeRate_def prop_num_def fetch_def
        json_def defined_def resolve_def await_def Let_def del: js_div.simps)
  have c2: "snd (exchangeRateFor w s' B A) = Inr (Number (js_div (Fin b) (Fin a)))"
    using dir2 ba doubles
    by (simp add: exchangeRateFor_def getCryptoToCryptoExchangeRate_def prop_num_def fetch_def
        json_def defined_def resolve_def await_def Let_def del: js_div.simps)
  have c3: "1 / 2 ^ 1022 \<le> \<bar>a / b\<bar> \<and> \<bar>a / b\<bar> \<le> 2 ^ 1022 \<longrightarrow>
      (\<exists>y. js_mul (js_div (Fin a) (Fin b)) (js_div (Fin b) (Fin a)) = Fin y
         \<and> \<bar>y - 1\<bar> \<le> 1 / 2 ^ 51)"
    using reciprocal_product [of a b] by blast
  have c4: "a = 0 \<or> b = 0 \<longrightarrow>
      js_mul (js_div (Fin a) (Fin b)) (js_div (Fin b) (Fin a)) = NaN"
    using zero_price_product [of a b] by blast
  have f1: "snd (exchangeRateFor w p F G) = Inr (Number (Fin x1))"
    using getFiatToFiatExchangeRate_ok [OF fg(1) fg(2), of G] fg(3,4) fiat(1,2)
    by (simp add: exchangeRateFor_def prop_num_def)
  have f2: "snd (exchangeRateFor w p' G F) = Inr (Number (Fin x2))"
    using getFiatToFiatExchangeRate_ok [OF gf(1) gf(2), of F] gf(3,4) fiat(3,4)
    by (simp add: exchangeRateFor_def prop_num_def)
  have f3: "1 / 2 ^ 1022 \<le> \<bar>x1 * x2\<bar> \<and> \<bar>x1 * x2\<bar> \<le> 2 ^ 1023 \<longrightarrow>
      (\<exists>y. js_mul (Fin x1) (Fin x2) = Fin y \<and> \<bar>y - x1 * x2\<bar> \<le> \<bar>x1 * x2\<bar> / 2 ^ 53)"
    using product_error [of x1 x2] by blast
  from c1 c2 c3 c4 f1 f2 f3 show ?thesis
    by (intro conjI)
qed

text \<open>
  Bitcoin at 60000 and ethereum at 3000 give the rates 20 and the double nearest to
  \<open>1 / 20\<close>; the tables \<^verbatim>\<open>{EUR: 0.8}\<close> and \<^verbatim>\<open>{USD: 1.25}\<close> give the double nearest to
  0.8 and 1.25.
\<close>

theorem reciprocal_rates_bitcoin_ethereum:
  "snd (exchangeRateFor pair_provider (page cur_BTC cur_ETH ''1'') ''BTC'' ''ETH'') =
     Inr (Number (Fin 20))
   \<and> snd (exchangeRateFor pair_provider (page cur_ETH cur_BTC ''1'') ''ETH'' ''BTC'') =
     Inr (Number (Fin (3602879701896397 / 2 ^ 56)))
   \<and> (\<exists>y. js_mul (js_div (Fin 60000) (Fin 3000)) (js_div (Fin 3000) (Fin 60000)) = Fin y
        \<and> \<bar>y - 1\<bar> \<le> 1 / 2 ^ 51)
   \<and> snd (exchangeRateFor pair_provider (page cur_USD cur_EUR ''1'') ''USD'' ''EUR'') =
     Inr (Number (Fin (3602879701896397 / 2 ^ 52)))
   \<and> snd (exchangeRateFor pair_provider (page cur_EUR cur_USD ''1'') ''EUR'' ''USD'') =
     Inr (Number (Fin (5 / 4)))
   \<and> (\<exists>y. js_mul (Fin (3602879701896397 / 2 ^ 52)) (Fin (5 / 4)) = Fin y
        \<and> \<bar>y - 3602879701896397 / 2 ^ 52 * (5 / 4)\<bar>
            \<le> \<bar>3602879701896397 / 2 ^ 52 * (5 / 4)\<bar> / 2 ^ 53)"
proof -
  have dir1: "selectedType (fromInput (page cur_BTC cur_ETH ''1'')) = Some ''crypto''"
      "selectedType (toInput (page cur_BTC cur_ETH ''1'')) = Some ''crypto''"
      "cryptoIdOf (page cur_BTC cur_ETH ''1'') (fromInput (page cur_BTC cur_ETH ''1'')) ''BTC'' =
        ''bitcoin''"
      "cryptoIdOf (page cur_BTC cur_ETH ''1'') (toInput (page cur_BTC cur_ETH ''1'')) ''ETH'' =
        ''ethereum''"
    by (simp_all add: page_def cur_BTC_def cur_ETH_def selectCurrency_def cryptoIdOf_def
        or_else_def template_def falsy_str_def)
  have dir2: "selectedType (fromInput (page cur_ETH cur_BTC ''1'')) = Some ''crypto''"
      "selectedType (toInput (page cur_ETH cur_BTC ''1'')) = Some ''crypto''"
      "cryptoIdOf (page cur_ETH cur_BTC ''1'') (fromInput (page cur_ETH cur_BTC ''1'')) ''ETH'' =
        ''ethereum''"
      "cryptoIdOf (page cur_ETH cur_BTC ''1'') (toInput (page cur_ETH cur_BTC ''1'')) ''BTC'' =
        ''bitcoin''"
    by (simp_all add: page_def cur_BTC_def cur_ETH_def selectCurrency_def cryptoIdOf_def
        or_else_def template_def falsy_str_def)
  have ab: "coinGeckoAPI pair_provider (''bitcoin'' @ '','' @ ''ethereum'') =
      Some (Response True
        (Some [(''bitcoin'', \<lparr>usd = Some 60000\<rparr>), (''ethereum'', \<lparr>usd = Some 3000\<rparr>)]))"
      "map_of [(''bitcoin'', \<lparr>usd = Some 60000\<rparr>), (''ethereum'', \<lparr>usd = Some 3000\<rparr>)] ''bitcoin'' =
        Some \<lparr>usd = Some 60000\<rparr>"
      "map_of [(''bitcoin'', \<lparr>usd = Some 60000\<rparr>), (''ethereum'', \<lparr>usd = Some 3000\<rparr>)] ''ethereum'' =
        Some \<lparr>usd = Some 3000\<rparr>"
    by (simp_all add: pair_provider_def no_provider_def)
  have ba: "coinGeckoAPI pair_provider (''ethereum'' @ '','' @ ''bitcoin'') =
      Some (Response True
        (Some [(''bitcoin'', \<lparr>usd = Some 60000\<rparr>), (''ethereum'', \<lparr>usd = Some 3000\<rparr>)]))"
      "map_of [(''bitcoin'', \<lparr>usd = Some 60000\<rparr>), (''ethereum'', \<lparr>usd = Some 3000\<rparr>)] ''bitcoin'' =
        Some \<lparr>usd = Some 60000\<rparr>"
      "map_of [(''bitcoin'', \<lparr>usd = Some 60000\<rparr>), (''ethereum'', \<lparr>usd = Some 3000\<rparr>)] ''ethereum'' =
        Some \<lparr>usd = Some 3000\<rparr>"
    by (simp_all add: pair_provider_def no_provider_def)
  have doubles: "round64 60000 = Fin 60000" "round64 3000 = Fin 3000"
    by (simp_all add: round64_eval)
  have fiat: "selectedType (fromInput (page cur_USD cur_EUR ''1'')) = Some ''fiat''"
      "selectedType (toInput (page cur_USD cur_EUR ''1'')) = Some ''fiat''"
      "selectedType (fromInput (page cur_EUR cur_USD ''1'')) = Some ''fiat''"
      "selectedType (toInput (page cur_EUR cur_USD ''1'')) = Some ''fiat''"
    by (simp_all add: page_def cur_USD_def cur_EUR_def selectCurrency_def)
  have fg: "exchangeRateAPI pair_provider ''USD'' =
      Some (Response True (Some \<lparr>rates = Some [(''EUR'', 4 / 5)]\<rparr>))"
      "rates \<lparr>rates = Some [(''EUR'', 4 / 5)]\<rparr> = Some [(''EUR'', 4 / 5 :: real)]"
      "map_of [(''EUR'', 4 / 5 :: real)] ''EUR'' = Some (4 / 5)"
      "round64 (4 / 5) = Fin (3602879701896397 / 2 ^ 52)"
    by (simp_all add: pair_provider_def no_provider_def round64_eval)
  have gf: "exchangeRateAPI pair_provider ''EUR'' =
      Some (Response True (Some \<lparr>rates = Some [(''USD'', 5 / 4)]\<rparr>))"
      "rates \<lparr>rates = Some [(''USD'', 5 / 4)]\<rparr> = Some [(''USD'', 5 / 4 :: real)]"
      "map_of [(''USD'', 5 / 4 :: real)] ''USD'' = Some (5 / 4)"
      "round64 (5 / 4) = Fin (5 / 4)"
    by (simp_all add: pair_provider_def no_provider_def round64_eval)
  note all = reciprocal_rates [OF dir1 dir2 ab ba doubles fiat fg gf]
  have quotients: "js_div (Fin 60000) (Fin 3000) = Fin 20"
      "js_div (Fin 3000) (Fin 60000) = Fin (3602879701896397 / 2 ^ 56)"
    by (simp_all add: round64_eval)
  have range: "1 / 2 ^ 1022 \<le> \<bar>60000 / 3000 :: real\<bar> \<and> \<bar>60000 / 3000 :: real\<bar> \<le> 2 ^ 1022"
    by simp
  have range': "1 / 2 ^ 1022 \<le> \<bar>3602879701896397 / 2 ^ 52 * (5 / 4) :: real\<bar>
      \<and> \<bar>3602879701896397 / 2 ^ 52 * (5 / 4) :: real\<bar> \<le> 2 ^ 1023"
    by simp
  have r1: "snd (exchangeRateFor pair_provider (page cur_BTC cur_ETH ''1'') ''BTC'' ''ETH'') =
      Inr (Number (Fin 20))"
    using all [THEN conjunct1] by (simp only: quotients)
  have r2: "snd (exchangeRateFor pair_provider (page cur_ETH cur_BTC ''1'') ''ETH'' ''BTC'') =
      Inr (Number (Fin (3602879701896397 / 2 ^ 56)))"
    using all [THEN conjunct2, THEN conjunct1] by (simp only: quotients)
  have r3: "\<exists>y. js_mul (js_div (Fin 60000) (Fin 3000)) (js_div (Fin 3000) (Fin 60000)) = Fin y
      \<and> \<bar>y - 1\<bar> \<le> 1 / 2 ^ 51"
    using all [THEN conjunct2, THEN conjunct2, THEN conjunct1] range by (rule mp)
  have r5: "snd (exchangeRateFor pair_provider (page cur_USD cur_EUR ''1'') ''USD'' ''EUR'') =
      Inr (Number (Fin (3602879701896397 / 2 ^ 52)))"
    using all [THEN conjunct2, THEN conjunct2, THEN conjunct2, THEN conjunct2, THEN conjunct1] .
  have r6: "snd (exchangeRateFor pair_provider (page cur_EUR cur_USD ''1'') ''EUR'' ''USD'') =
      Inr (Number (Fin (5 / 4)))"
    using all [THEN conjunct2, THEN conjunct2, THEN conjunct2, THEN conjunct2, THEN conjunct2,
        THEN conjunct1] .
  have r7: "\<exists>y. js_mul (Fin (3602879701896397 / 2 ^ 52)) (Fin (5 / 4)) = Fin y
      \<and> \<bar>y - 3602879701896397 / 2 ^ 52 * (5 / 4)\<bar>
          \<le> \<bar>3602879701896397 / 2 ^ 52 * (5 / 4)\<bar> / 2 ^ 53"
    using all [THEN conjunct2, THEN conjunct2, THEN conjunct2, THEN conjunct2, THEN conjunct2,
        THEN conjunct2] range' by (rule mp)
  from r1 r2 r3 r5 r6 r7 show ?thesis
    by (intro conjI)
qed

section \<open>The historical series\<close>

text \<open>
  Claim C4 says that every path gives exactly 30 points. On the crypto path the series
  has one point per entry of the provider's \<^verbatim>\<open>prices\<close> array, whatever its
  length: a history of two prices gives a chart of two points.
\<close>

theorem series_of_two_prices:
  "snd (getCryptocurrencyHistoricalData history_provider (loaded_page cur_BTC cur_USD ''1'')
          ''BTC'' ''USD'' False) =
     Inr \<lparr>labels = [Timestamp 1700000000000, Timestamp 1700086400000],
          points = [Fin 50000, Fin 40000]\<rparr>
   \<and> priceChart (snd (displayPriceChart history_provider (always 0) ''BTC'' ''USD''
          (loaded_page cur_BTC cur_USD ''1''))) =
     Some \<lparr>labels = [Timestamp 1700000000000, Timestamp 1700086400000],
           points = [Fin 50000, Fin 40000]\<rparr>
   \<and> length [Timestamp 1700000000000, Timestamp 1700086400000] \<noteq> 30"
  by (simp add: displayPriceChart_def getCryptocurrencyHistoricalData_def getCryptoId_def
      toUpperCase_BTC history_provider_def no_provider_def loaded_page_def page_def
      cur_BTC_def cur_USD_def initial_def selectCurrency_def type_or_fiat_def falsy_str_def
      template_def fetch_def json_def resolve_def throw_def await_def Let_def
      showChartLoadingIndicator_def hideChartLoadingIndicator_def createPriceChart_def
      round64_eval)

text \<open>
  Claim C4, amended. The simulated fiat series and the fallback series have exactly 30
  points, dated from 29 days before today to today. The fiat builder always returns
  one of the two. A fetched crypto series has one point per entry of the provider's
  array, in the provider's order.
\<close>

theorem series_lengths:
  assumes "getCryptoId s c = Some cid" and "cid \<noteq> []"
    and "marketChartAPI w cid = Some (Response True (Some h))" and "prices h = Some priceData"
  shows "(\<exists>l ser. getFiatCurrencyHistoricalData w rnd f t = (l, Inr ser)
            \<and> labels ser = map DaysBeforeToday (rev [0..<30]) \<and> length (points ser) = 30)
       \<and> labels (generateFallbackChartData rnd) = map DaysBeforeToday (rev [0..<30])
       \<and> length (points (generateFallbackChartData rnd)) = 30
       \<and> (\<exists>ser. snd (getCryptocurrencyHistoricalData w s c other isInverse) = Inr ser
            \<and> labels ser = map (\<lambda>pricePoint. Timestamp (fst pricePoint)) priceData
            \<and> length (points ser) = length priceData)"
proof -
  have fiat: "\<exists>l ser. getFiatCurrencyHistoricalData w rnd f t = (l, Inr ser)
      \<and> labels ser = map DaysBeforeToday (rev [0..<30]) \<and> length (points ser) = 30"
    by (cases "getFiatToFiatExchangeRate w f t")
      (auto simp: getFiatCurrencyHistoricalData_def generateFallbackChartData_def
        fallbackLoop_labels fallbackLoop_points simulationLoop_labels simulationLoop_points
        split: sum.splits)
  have fallback: "labels (generateFallbackChartData rnd) = map DaysBeforeToday (rev [0..<30])"
      "length (points (generateFallbackChartData rnd)) = 30"
    by (simp_all add: generateFallbackChartData_def fallbackLoop_labels fallbackLoop_points)
  have crypto: "\<exists>ser. snd (getCryptocurrencyHistoricalData w s c other isInverse) = Inr ser
      \<and> labels ser = map (\<lambda>pricePoint. Timestamp (fst pricePoint)) priceData
      \<and> length (points ser) = length priceData"
    using getCryptocurrencyHistoricalData_ok [OF assms, of other isInverse] by simp
  from fiat fallback crypto show ?thesis by blast
qed

theorem series_lengths_example:
  "(\<exists>l ser. getFiatCurrencyHistoricalData history_provider (always (1 / 2)) ''USD'' ''EUR'' = (l, Inr ser)
      \<and> labels ser = map DaysBeforeToday (rev [0..<30]) \<and> length (points ser) = 30)
   \<and> labels (generateFallbackChartData (always (1 / 2))) = map DaysBeforeToday (rev [0..<30])
   \<and> length (points (generateFallbackChartData (always (1 / 2)))) = 30
   \<and> (\<exists>ser. snd (getCryptocurrencyHistoricalData history_provider
                   (loaded_page cur_BTC cur_USD ''1'') ''BTC'' ''USD'' False) = Inr ser
        \<and> labels ser = [Timestamp 1700000000000, Timestamp 1700086400000]
        \<and> length (points ser) = 2)"
proof -
  have id: "getCryptoId (loaded_page cur_BTC cur_USD ''1'') ''BTC'' = Some ''bitcoin''"
    by (simp add: getCryptoId_def toUpperCase_BTC loaded_page_def)
  have ne: "''bitcoin'' \<noteq> []"
    by simp
  have resp: "marketChartAPI history_provider ''bitcoin'' =
      Some (Response True (Some \<lparr>prices = Some [(1700000000000, 50000), (1700086400000, 40000)]\<rparr>))"
    by (simp add: history_provider_def no_provider_def)
  have pr: "prices \<lparr>prices = Some [(1700000000000, 50000), (1700086400000, 40000)]\<rparr> =
      Some [(1700000000000, 50000), (1700086400000, 40000)]"
    by simp
  show ?thesis
    using series_lengths [OF id ne resp pr, of "always (1 / 2)" "''USD''" "''EUR''" "''USD''" False]
    by (simp add: numeral_2_eq_2)
qed

section \<open>The chart after a failure\<close>

text \<open>
  Claim C5 says that a failure on any path ends in the placeholder series. On the two
  crypto paths (a crypto source, or a fiat source with a crypto target) the builder
  throws again what it caught, and \<open>displayPriceChart\<close> shows its error line instead of
  a chart: no series is drawn.
\<close>

theorem chart_error_on_crypto_failure:
  "snd (getCryptocurrencyHistoricalData no_provider (loaded_page cur_BTC cur_USD ''1'')
          ''BTC'' ''USD'' False) = Inl NetworkFailure
   \<and> priceChart (snd (displayPriceChart no_provider (always 0) ''BTC'' ''USD''
          (loaded_page cur_BTC cur_USD ''1''))) = None
   \<and> chartErrorShown (snd (displayPriceChart no_provider (always 0) ''BTC'' ''USD''
          (loaded_page cur_BTC cur_USD ''1'')))
   \<and> \<not> chartCanvasShown (snd (displayPriceChart no_provider (always 0) ''BTC'' ''USD''
          (loaded_page cur_BTC cur_USD ''1'')))
   \<and> snd (getCryptocurrencyHistoricalData no_provider (loaded_page cur_USD cur_BTC ''1'')
          ''BTC'' ''USD'' True) = Inl NetworkFailure
   \<and> priceChart (snd (displayPriceChart no_provider (always 0) ''USD'' ''BTC''
          (loaded_page cur_USD cur_BTC ''1''))) = None
   \<and> chartErrorShown (snd (displayPriceChart no_provider (always 0) ''USD'' ''BTC''
          (loaded_page cur_USD cur_BTC ''1'')))
   \<and> \<not> chartCanvasShown (snd (displayPriceChart no_provider (always 0) ''USD'' ''BTC''
          (loaded_page cur_USD cur_BTC ''1'')))"
  by (simp add: displayPriceChart_def getCryptocurrencyHistoricalData_def getCryptoId_def
      toUpperCase_BTC no_provider_def loaded_page_def page_def cur_BTC_def cur_USD_def
      initial_def selectCurrency_def type_or_fiat_def falsy_str_def template_def fetch_def
      await_def Let_def showChartLoadingIndicator_def hideChartLoadingIndicator_def
      showChartError_def)

text \<open>
  Claim C5, amended. The fiat builder never throws: when the table quoted against the
  source code cannot be had it returns the placeholder, 30 dated points, each within
  \<open>1/100 + 2\<^sup>-\<^sup>5\<^sup>2\<close> of 1 (1% and the rounding of the doubles; the random numbers lie in
  \<open>[0, 1)\<close>), and between two fiat currencies the chart draws it. On the two crypto
  paths, when the history of the coin cannot be had the builder throws, and the chart
  region shows its error line with the canvas hidden; the series drawn before, if any,
  is left as it was and no new one is drawn.
\<close>

theorem chart_fallback_on_fiat_failure:
  assumes rnd: "\<forall>i. 0 \<le> rnd i \<and> rnd i < 1"
  shows "\<not> thrown (getFiatCurrencyHistoricalData w rnd f t)
       \<and> (tableUnavailable w f \<longrightarrow>
            snd (getFiatCurrencyHistoricalData w rnd f t) = Inr (generateFallbackChartData rnd))
       \<and> labels (generateFallbackChartData rnd) = map DaysBeforeToday (rev [0..<30])
       \<and> length (points (generateFallbackChartData rnd)) = 30
       \<and> (\<forall>p \<in> set (points (generateFallbackChartData rnd)).
            \<exists>v. p = Fin v \<and> \<bar>v - 1\<bar> \<le> 1 / 100 + 1 / 2 ^ 52)
       \<and> (type_or_fiat (selectedType (fromInput s)) \<noteq> ''crypto''
            \<and> type_or_fiat (selectedType (toInput s)) \<noteq> ''crypto'' \<and> tableUnavailable w f \<longrightarrow>
            priceChart (snd (displayPriceChart w rnd f t s)) = Some (generateFallbackChartData rnd)
            \<and> chartCanvasShown (snd (displayPriceChart w rnd f t s))
            \<and> chartErrorShown (snd (displayPriceChart w rnd f t s)) = chartErrorShown s)
       \<and> (type_or_fiat (selectedType (fromInput s)) = ''crypto'' \<and> historyUnavailable w s f \<longrightarrow>
            thrown (getCryptocurrencyHistoricalData w s f t False)
            \<and> priceChart (snd (displayPriceChart w rnd f t s)) = priceChart s
            \<and> chartErrorShown (snd (displayPriceChart w rnd f t s))
            \<and> \<not> chartCanvasShown (snd (displayPriceChart w rnd f t s)))
       \<and> (type_or_fiat (selectedType (fromInput s)) \<noteq> ''crypto''
            \<and> type_or_fiat (selectedType (toInput s)) = ''crypto'' \<and> historyUnavailable w s t \<longrightarrow>
            thrown (getCryptocurrencyHistoricalData w s t f True)
            \<and> priceChart (snd (displayPriceChart w rnd f t s)) = priceChart s
            \<and> chartErrorShown (snd (displayPriceChart w rnd f t s))
            \<and> \<not> chartCanvasShown (snd (displayPriceChart w rnd f t s)))"
proof -
  let ?s1 = "showChartLoadingIndicator (s\<lparr>chartContainerShown := True\<rparr>)"
  have total: "\<not> thrown (getFiatCurrencyHistoricalData w rnd f t)"
    by (cases "getFiatToFiatExchangeRate w f t")
      (auto simp: thrown_def getFiatCurrencyHistoricalData_def split: sum.splits)
  have builder: "snd (getFiatCurrencyHistoricalData w rnd f t) = Inr (generateFallbackChartData rnd)"
    if "tableUnavailable w f"
  proof -
    from that have "thrown (getFiatToFiatExchangeRate w f t)"
      by (simp add: thrown_getFiatToFiatExchangeRate)
    then obtain l e where "getFiatToFiatExchangeRate w f t = (l, Inl e)"
      by (rule thrownE)
    then show ?thesis
      by (simp add: getFiatCurrencyHistoricalData_def)
  qed
  have shape: "labels (generateFallbackChartData rnd) = map DaysBeforeToday (rev [0..<30])"
      "length (points (generateFallbackChartData rnd)) = 30"
    by (simp_all add: generateFallbackChartData_def fallbackLoop_labels fallbackLoop_points)
  have bound: "\<forall>p \<in> set (points (generateFallbackChartData rnd)).
      \<exists>v. p = Fin v \<and> \<bar>v - 1\<bar> \<le> 1 / 100 + 1 / 2 ^ 52"
    using fallback_points [OF rnd] by blast
  have fiat: "priceChart (snd (displayPriceChart w rnd f t s)) = Some (generateFallbackChartData rnd)
      \<and> chartCanvasShown (snd (displayPriceChart w rnd f t s))
      \<and> chartErrorShown (snd (displayPriceChart w rnd f t s)) = chartErrorShown s"
    if types: "type_or_fiat (selectedType (fromInput s)) \<noteq> ''crypto''"
        "type_or_fiat (selectedType (toInput s)) \<noteq> ''crypto''"
      and gone: "tableUnavailable w f"
  proof -
    obtain l where "getFiatCurrencyHistoricalData w rnd f t = (l, Inr (generateFallbackChartData rnd))"
      using builder [OF gone] by (cases "getFiatCurrencyHistoricalData w rnd f t") simp
    with types show ?thesis
      by (simp add: displayPriceChart_def Let_def selections_chart_fields createPriceChart_def
          hideChartLoadingIndicator_def showChartLoadingIndicator_def)
  qed
  have map_same: "cryptoIdMap ?s1 = cryptoIdMap s"
    by (simp add: showChartLoadingIndicator_def)
  have source: "thrown (getCryptocurrencyHistoricalData w s f t False)
      \<and> priceChart (snd (displayPriceChart w rnd f t s)) = priceChart s
      \<and> chartErrorShown (snd (displayPriceChart w rnd f t s))
      \<and> \<not> chartCanvasShown (snd (displayPriceChart w rnd f t s))"
    if type: "type_or_fiat (selectedType (fromInput s)) = ''crypto''"
      and gone: "historyUnavailable w s f"
  proof -
    have thrown: "thrown (getCryptocurrencyHistoricalData w s f t False)"
      using gone by (simp add: thrown_getCryptocurrencyHistoricalData)
    then obtain l e where "getCryptocurrencyHistoricalData w s f t False = (l, Inl e)"
      by (rule thrownE)
    then have "getCryptocurrencyHistoricalData w ?s1 f t False = (l, Inl e)"
      using getCryptocurrencyHistoricalData_state [OF map_same, of w f t False] by simp
    with type have "displayPriceChart w rnd f t s =
        (l, showChartError (hideChartLoadingIndicator ?s1))"
      by (simp add: displayPriceChart_def Let_def selections_chart_fields)
    then have "priceChart (snd (displayPriceChart w rnd f t s)) = priceChart s
        \<and> chartErrorShown (snd (displayPriceChart w rnd f t s))
        \<and> \<not> chartCanvasShown (snd (displayPriceChart w rnd f t s))"
      by (simp add: showChartError_def hideChartLoadingIndicator_def showChartLoadingIndicator_def)
    with thrown show ?thesis
      by blast
  qed
  have target: "thrown (getCryptocurrencyHistoricalData w s t f True)
      \<and> priceChart (snd (displayPriceChart w rnd f t s)) = priceChart s
      \<and> chartErrorShown (snd (displayPriceChart w rnd f t s))
      \<and> \<not> chartCanvasShown (snd (displayPriceChart w rnd f t s))"
    if types: "type_or_fiat (selectedType (fromInput s)) \<noteq> ''crypto''"
        "type_or_fiat (selectedType (toInput s)) = ''crypto''"
      and gone: "historyUnavailable w s t"
  proof -
    have thrown: "thrown (getCryptocurrencyHistoricalData w s t f True)"
      using gone by (simp add: thrown_getCryptocurrencyHistoricalData)
    then obtain l e where "getCryptocurrencyHistoricalData w s t f True = (l, Inl e)"
      by (rule thrownE)
    then have "getCryptocurrencyHistoricalData w ?s1 t f True = (l, Inl e)"
      using getCryptocurrencyHistoricalData_state [OF map_same, of w t f True] by simp
    with types have "displayPriceChart w rnd f t s =
        (l, showChartError (hideChartLoadingIndicator ?s1))"
      by (simp add: displayPriceChart_def Let_def selections_chart_fields)
    then have "priceChart (snd (displayPriceChart w rnd f t s)) = priceChart s
        \<and> chartErrorShown (snd (displayPriceChart w rnd f t s))
        \<and> \<not> chartCanvasShown (snd (displayPriceChart w rnd f t s))"
      by (simp add: showChartError_def hideChartLoadingIndicator_def showChartLoadingIndicator_def)
    with thrown show ?thesis
      by blast
  qed
  from total builder shape bound fiat source target show ?thesis
    by blast
qed

theorem chart_fallback_without_provider:
  "\<not> thrown (getFiatCurrencyHistoricalData no_provider (always 0) ''USD'' ''EUR'')
   \<and> snd (getFiatCurrencyHistoricalData no_provider (always 0) ''USD'' ''EUR'') =
     Inr (generateFallbackChartData (always 0))
   \<and> labels (generateFallbackChartData (always 0)) = map DaysBeforeToday (rev [0..<30])
   \<and> length (points (generateFallbackChartData (always 0))) = 30
   \<and> (\<exists>v. points (generateFallbackChartData (always 0)) ! 29 = Fin v
        \<and> \<bar>v - 1\<bar> \<le> 1 / 100 + 1 / 2 ^ 52)
   \<and> priceChart (snd (displayPriceChart no_provider (always 0) ''USD'' ''EUR''
        (page cur_USD cur_EUR ''100''))) = Some (generateFallbackChartData (always 0))
   \<and> chartCanvasShown (snd (displayPriceChart no_provider (always 0) ''USD'' ''EUR''
        (page cur_USD cur_EUR ''100'')))
   \<and> thrown (getCryptocurrencyHistoricalData no_provider (loaded_page cur_BTC cur_USD ''1'')
        ''BTC'' ''USD'' False)
   \<and> priceChart (snd (displayPriceChart no_provider (always 0) ''BTC'' ''USD''
        (loaded_page cur_BTC cur_USD ''1''))) = None
   \<and> chartErrorShown (snd (displayPriceChart no_provider (always 0) ''BTC'' ''USD''
        (loaded_page cur_BTC cur_USD ''1'')))
   \<and> \<not> chartCanvasShown (snd (displayPriceChart no_provider (always 0) ''BTC'' ''USD''
        (loaded_page cur_BTC cur_USD ''1'')))
   \<and> thrown (getCryptocurrencyHistoricalData no_provider (loaded_page cur_USD cur_BTC ''1'')
        ''BTC'' ''USD'' True)
   \<and> priceChart (snd (displayPriceChart no_provider (always 0) ''USD'' ''BTC''
        (loaded_page cur_USD cur_BTC ''1''))) = None
   \<and> chartErrorShown (snd (displayPriceChart no_provider (always 0) ''USD'' ''BTC''
        (loaded_page cur_USD cur_BTC ''1'')))
   \<and> \<not> chartCanvasShown (snd (displayPriceChart no_provider (always 0) ''USD'' ''BTC''
        (loaded_page cur_USD cur_BTC ''1'')))"
proof -
  have rnd: "\<forall>i. 0 \<le> always 0 i \<and> always 0 i < 1"
    by (simp add: always_def)
  note fiat = chart_fallback_on_fiat_failure
    [OF rnd, of no_provider "''USD''" "''EUR''" "page cur_USD cur_EUR ''100''"]
  note source = chart_fallback_on_fiat_failure
    [OF rnd, of no_provider "''BTC''" "''USD''" "loaded_page cur_BTC cur_USD ''1''"]
  note target = chart_fallback_on_fiat_failure
    [OF rnd, of no_provider "''USD''" "''BTC''" "loaded_page cur_USD cur_BTC ''1''"]
  have table: "tableUnavailable no_provider ''USD''"
    by (simp add: tableUnavailable_def no_provider_def)
  have fiat_page: "type_or_fiat (selectedType (fromInput (page cur_USD cur_EUR ''100''))) \<noteq> ''crypto''
      \<and> type_or_fiat (selectedType (toInput (page cur_USD cur_EUR ''100''))) \<noteq> ''crypto''
      \<and> tableUnavailable no_provider ''USD''"
    using table by (simp add: page_def cur_USD_def cur_EUR_def selectCurrency_def type_or_fiat_def)
  have source_page: "type_or_fiat (selectedType (fromInput (loaded_page cur_BTC cur_USD ''1''))) = ''crypto''
      \<and> historyUnavailable no_provider (loaded_page cur_BTC cur_USD ''1'') ''BTC''"
    by (simp add: loaded_page_def page_def cur_BTC_def cur_USD_def selectCurrency_def
        type_or_fiat_def historyUnavailable_def getCryptoId_def toUpperCase_BTC no_provider_def)
  have target_page: "type_or_fiat (selectedType (fromInput (loaded_page cur_USD cur_BTC ''1''))) \<noteq> ''crypto''
      \<and> type_or_fiat (selectedType (toInput (loaded_page cur_USD cur_BTC ''1''))) = ''crypto''
      \<and> historyUnavailable no_provider (loaded_page cur_USD cur_BTC ''1'') ''BTC''"
    by (simp add: loaded_page_def page_def cur_BTC_def cur_USD_def selectCurrency_def
        type_or_fiat_def historyUnavailable_def getCryptoId_def toUpperCase_BTC no_provider_def)
  have none: "priceChart (loaded_page cur_BTC cur_USD ''1'') = None"
      "priceChart (loaded_page cur_USD cur_BTC ''1'') = None"
    by (simp_all add: loaded_page_def page_def initial_def)
  have w1: "\<not> thrown (getFiatCurrencyHistoricalData no_provider (always 0) ''USD'' ''EUR'')"
    using fiat [THEN conjunct1] .
  have w2: "snd (getFiatCurrencyHistoricalData no_provider (always 0) ''USD'' ''EUR'') =
      Inr (generateFallbackChartData (always 0))"
    using fiat [THEN conjunct2, THEN conjunct1] table by (rule mp)
  have w3: "labels (generateFallbackChartData (always 0)) = map DaysBeforeToday (rev [0..<30])"
    using fiat [THEN conjunct2, THEN conjunct2, THEN conjunct1] .
  have w4: "length (points (generateFallbackChartData (always 0))) = 30"
    using fiat [THEN conjunct2, THEN conjunct2, THEN conjunct2, THEN conjunct1] .
  have "points (generateFallbackChartData (always 0)) ! 29
      \<in> set (points (generateFallbackChartData (always 0)))"
    using w4 by simp
  with fiat [THEN conjunct2, THEN conjunct2, THEN conjunct2, THEN conjunct2, THEN conjunct1]
  have w5: "\<exists>v. points (generateFallbackChartData (always 0)) ! 29 = Fin v
      \<and> \<bar>v - 1\<bar> \<le> 1 / 100 + 1 / 2 ^ 52"
    by blast
  have w6: "priceChart (snd (displayPriceChart no_provider (always 0) ''USD'' ''EUR''
        (page cur_USD cur_EUR ''100''))) = Some (generateFallbackChartData (always 0))
      \<and> chartCanvasShown (snd (displayPriceChart no_provider (always 0) ''USD'' ''EUR''
        (page cur_USD cur_EUR ''100'')))"
    using fiat [THEN conjunct2, THEN conjunct2, THEN conjunct2, THEN conjunct2, THEN conjunct2,
        THEN conjunct1] fiat_page by blast
  have w7: "thrown (getCryptocurrencyHistoricalData no_provider (loaded_page cur_BTC cur_USD ''1'')
        ''BTC'' ''USD'' False)
      \<and> priceChart (snd (displayPriceChart no_provider (always 0) ''BTC'' ''USD''
        (loaded_page cur_BTC cur_USD ''1''))) = None
      \<and> chartErrorShown (snd (displayPriceChart no_provider (always 0) ''BTC'' ''USD''
        (loaded_page cur_BTC cur_USD ''1'')))
      \<and> \<not> chartCanvasShown (snd (displayPriceChart no_provider (always 0) ''BTC'' ''USD''
        (loaded_page cur_BTC cur_USD ''1'')))"
    using source [THEN conjunct2, THEN conjunct2, THEN conjunct2, THEN conjunct2, THEN conjunct2,
        THEN conjunct2, THEN conjunct1] source_page none(1) by simp
  have w8: "thrown (getCryptocurrencyHistoricalData no_provider (loaded_page cur_USD cur_BTC ''1'')
        ''BTC'' ''USD'' True)
      \<and> priceChart (snd (displayPriceChart no_provider (always 0) ''USD'' ''BTC''
        (loaded_page cur_USD cur_BTC ''1''))) = None
      \<and> chartErrorShown (snd (displayPriceChart no_provider (always 0) ''USD'' ''BTC''
        (loaded_page cur_USD cur_BTC ''1'')))
      \<and> \<not> chartCanvasShown (snd (displayPriceChart no_provider (always 0) ''USD'' ''BTC''
        (loaded_page cur_USD cur_BTC ''1'')))"
    using target [THEN conjunct2, THEN conjunct2, THEN conjunct2, THEN conjunct2, THEN conjunct2,
        THEN conjunct2, THEN conjunct2] target_page none(2) by simp
  from w1 w2 w3 w4 w5 w6 w7 w8 show ?thesis
    by (intro conjI) simp_all
qed

section \<open>The coin of the chart\<close>

text \<open>
  Claim C6 says that with a fiat source and a crypto target the chart is built from the
  daily prices of the crypto, each inverted. The rate functions take the coin from the
  selection (\<^verbatim>\<open>dataset.selectedId\<close>, and \<^verbatim>\<open>cryptoIdMap\<close> only without one); the chart
  takes it from \<^verbatim>\<open>cryptoIdMap\<close> alone, which holds one coin per symbol, the last one
  loaded. When two coins of the ranking share the symbol \<^verbatim>\<open>usdc\<close> and the user picks
  the first, \<^verbatim>\<open>usd-coin\<close>, the rate is that of \<^verbatim>\<open>usd-coin\<close> and the chart shows the
  inverted prices of the other coin, \<^verbatim>\<open>bridged-usdc\<close> (2 and 4 below, against 1 and 1).
\<close>

theorem chart_of_another_coin:
  "selectedCode (toInput usdc_page) = Some ''USDC''
   \<and> selectedId (toInput usdc_page) = Some ''usd-coin''
   \<and> getCryptoId usdc_page ''USDC'' = Some ''bridged-usdc''
   \<and> fst (convertCurrency usdc_provider (always 0) usdc_page) =
       [SimplePriceRequest ''usd-coin'', MarketChartRequest ''bridged-usdc'']
   \<and> resultDiv (snd (convertCurrency usdc_provider (always 0) usdc_page)) =
       ResultConversion
         \<lparr>originalAmount = Fin 1, fromCurrency = ''USD'', convertedAmount = Fin 1,
          toCurrency = ''USDC'', exchangeRate = Number (Fin 1)\<rparr>
   \<and> priceChart (snd (convertCurrency usdc_provider (always 0) usdc_page)) =
       Some \<lparr>labels = [Timestamp 1700000000000, Timestamp 1700086400000],
             points = [Fin (1 / 2), Fin (1 / 4)]\<rparr>
   \<and> snd (getCryptocurrencyHistoricalData usdc_provider
         (usdc_page\<lparr>cryptoIdMap := (cryptoIdMap usdc_page)(''USDC'' \<mapsto> Some ''usd-coin'')\<rparr>)
         ''USDC'' ''USD'' True) =
       Inr \<lparr>labels = [Timestamp 1700000000000, Timestamp 1700086400000],
            points = [Fin 1, Fin 1]\<rparr>"
proof -
  have catalogue: "allCurrencies (snd (loadCurrencies usdc_provider initial)) =
      fallbackFiatCurrencies @
      [\<lparr>code = ''USDC'', name = ''USDC'', type = ''crypto'', currency_id = Some ''usd-coin''\<rparr>,
       \<lparr>code = ''USDC'', name = ''Bridged USDC'', type = ''crypto'',
        currency_id = Some ''bridged-usdc''\<rparr>]"
    by (simp add: allCurrencies_loadCurrencies loadCryptoCurrencies_def loadFiatCurrencies_def
        usdc_provider_def shared_symbol_provider_def no_provider_def fetch_def json_def
        defined_def resolve_def await_def toUpperCase_def upper_char_def)
  have index: "cryptoIdMap (snd (loadCurrencies usdc_provider initial)) ''USDC'' =
      Some (Some ''bridged-usdc'')"
    by (simp add: cryptoIdMap_loadCurrencies loadCryptoCurrencies_def usdc_provider_def
        shared_symbol_provider_def no_provider_def fetch_def json_def defined_def resolve_def
        await_def toUpperCase_def upper_char_def Map_set_def)
  have loaded: "swalDefined (snd (loadCurrencies usdc_provider initial))"
      "fromInput (snd (loadCurrencies usdc_provider initial)) = fromInput initial"
      "toInput (snd (loadCurrencies usdc_provider initial)) = toInput initial"
    by (simp_all add: loadCurrencies_def loadCryptoCurrencies_def Let_def initial_def
        split: prod.splits sum.splits)
  have unselected: "selectedId (fromInput initial) = None" "selectedId (toInput initial) = None"
    by (simp_all add: initial_def)
  have from_input: "fromInput usdc_page =
      \<lparr>selectedCode = Some ''USD'', selectedType = Some ''fiat'', selectedId = None\<rparr>"
    by (simp add: usdc_page_def Let_def catalogue loaded fallbackFiatCurrencies_def
        selectCurrency_def falsy_str_def unselected)
  have to_input: "toInput usdc_page =
      \<lparr>selectedCode = Some ''USDC'', selectedType = Some ''crypto'',
       selectedId = Some ''usd-coin''\<rparr>"
    by (simp add: usdc_page_def Let_def catalogue loaded fallbackFiatCurrencies_def
        selectCurrency_def falsy_str_def unselected)
  have page: "amountText usdc_page = ''1''" "swalDefined usdc_page"
      "cryptoIdMap usdc_page ''USDC'' = Some (Some ''bridged-usdc'')"
    by (simp_all add: usdc_page_def Let_def loaded index)
  have upper: "toUpperCase ''USDC'' = ''USDC''"
    by (simp add: toUpperCase_def upper_char_def)
  have id: "getCryptoId usdc_page ''USDC'' = Some ''bridged-usdc''"
    by (simp add: getCryptoId_def upper page)
  have amount: "parseFloat ''1'' = Fin 1"
    by (simp add: parseFloat_eval round64_eval)
  have rate: "exchangeRateFor usdc_provider s ''USD'' ''USDC'' =
      ([SimplePriceRequest ''usd-coin''], Inr (Number (Fin 1)))"
    if "fromInput s = fromInput usdc_page" "toInput s = toInput usdc_page" for s
    using that
    by (simp add: exchangeRateFor_def from_input to_input
        getFiatToCryptoExchangeRate_def cryptoIdOf_def or_else_def template_def falsy_str_def
        usdc_provider_def shared_symbol_provider_def no_provider_def fetch_def json_def
        defined_def resolve_def await_def prop_num_def round64_eval)
  have history: "getCryptocurrencyHistoricalData usdc_provider s ''USDC'' ''USD'' True =
      ([MarketChartRequest ''bridged-usdc''],
       Inr \<lparr>labels = [Timestamp 1700000000000, Timestamp 1700086400000],
            points = [Fin (1 / 2), Fin (1 / 4)]\<rparr>)"
    if "cryptoIdMap s = cryptoIdMap usdc_page" for s
    using that
    by (simp add: getCryptocurrencyHistoricalData_def getCryptoId_def upper page falsy_str_def
        template_def usdc_provider_def shared_symbol_provider_def no_provider_def fetch_def
        json_def resolve_def throw_def await_def Let_def round64_eval)
  have chart: "displayPriceChart usdc_provider (always 0) ''USD'' ''USDC'' s =
      ([MarketChartRequest ''bridged-usdc''],
       createPriceChart
         \<lparr>labels = [Timestamp 1700000000000, Timestamp 1700086400000],
          points = [Fin (1 / 2), Fin (1 / 4)]\<rparr>
         (hideChartLoadingIndicator
            ((showChartLoadingIndicator (s\<lparr>chartContainerShown := True\<rparr>))
               \<lparr>chartTitle := Some (''USD'', ''USDC'')\<rparr>)))"
    if "cryptoIdMap s = cryptoIdMap usdc_page" "fromInput s = fromInput usdc_page"
      "toInput s = toInput usdc_page" for s
  proof -
    have "cryptoIdMap (showChartLoadingIndicator (s\<lparr>chartContainerShown := True\<rparr>)) =
        cryptoIdMap usdc_page"
      using that(1) by (simp add: showChartLoadingIndicator_def)
    then show ?thesis
      using that(2,3)
      by (simp add: displayPriceChart_def Let_def selections_chart_fields history from_input
          to_input type_or_fiat_def)
  qed
  have conversion: "convertCurrency usdc_provider (always 0) usdc_page =
      ([SimplePriceRequest ''usd-coin'', MarketChartRequest ''bridged-usdc''],
       createPriceChart
         \<lparr>labels = [Timestamp 1700000000000, Timestamp 1700086400000],
          points = [Fin (1 / 2), Fin (1 / 4)]\<rparr>
         (hideChartLoadingIndicator
            ((showChartLoadingIndicator
                ((swalClose (showLoadingIndicator usdc_page))
                   \<lparr>resultDiv := ResultConversion
                      \<lparr>originalAmount = Fin 1, fromCurrency = ''USD'', convertedAmount = Fin 1,
                       toCurrency = ''USDC'', exchangeRate = Number (Fin 1)\<rparr>,
                    convertDisabled := False, swal := Some SuccessToast,
                    chartContainerShown := True\<rparr>))
               \<lparr>chartTitle := Some (''USD'', ''USDC'')\<rparr>)))"
    by (simp add: convertCurrency_def Let_def from_input to_input page amount rate
        displayConversionResult_def chart swalClose_def showLoadingIndicator_def round64_eval)
  have shown: "resultDiv (snd (convertCurrency usdc_provider (always 0) usdc_page)) =
      ResultConversion
        \<lparr>originalAmount = Fin 1, fromCurrency = ''USD'', convertedAmount = Fin 1,
         toCurrency = ''USDC'', exchangeRate = Number (Fin 1)\<rparr>"
      "priceChart (snd (convertCurrency usdc_provider (always 0) usdc_page)) =
      Some \<lparr>labels = [Timestamp 1700000000000, Timestamp 1700086400000],
            points = [Fin (1 / 2), Fin (1 / 4)]\<rparr>"
    by (simp_all add: conversion createPriceChart_def hideChartLoadingIndicator_def
        showChartLoadingIndicator_def)
  have selected: "snd (getCryptocurrencyHistoricalData usdc_provider
        (usdc_page\<lparr>cryptoIdMap := (cryptoIdMap usdc_page)(''USDC'' \<mapsto> Some ''usd-coin'')\<rparr>)
        ''USDC'' ''USD'' True) =
      Inr \<lparr>labels = [Timestamp 1700000000000, Timestamp 1700086400000],
           points = [Fin 1, Fin 1]\<rparr>"
    by (simp add: getCryptocurrencyHistoricalData_def getCryptoId_def upper falsy_str_def
        template_def usdc_provider_def shared_symbol_provider_def no_provider_def fetch_def
        json_def resolve_def throw_def await_def Let_def round64_eval)
  from to_input id conversion shown selected show ?thesis
    by simp
qed

section \<open>Codes of the catalogue\<close>

text \<open>
  Claim C7 says that in every catalogue built the codes are uppercase and unique.
  Nothing removes a code that occurs twice, and only the symbols of the live ranking
  are put in upper case: a ranking in which two coins share the symbol \<^verbatim>\<open>usdc\<close> gives
  the code USDC twice; a table whose key is \<^verbatim>\<open>eur\<close> gives the code \<^verbatim>\<open>eur\<close>; and a
  table that lists USD gives the code USD twice, once from the table and once from the
  entry the code adds.
\<close>

theorem shared_symbol_twice:
  "map code (allCurrencies (snd (loadCurrencies shared_symbol_provider initial))) =
     [''USD'', ''EUR'', ''GBP'', ''JPY'', ''ARS'', ''BRL'', ''USDC'', ''USDC'']
   \<and> \<not> distinct (map code (allCurrencies (snd (loadCurrencies shared_symbol_provider initial))))
   \<and> ''eur'' \<in> set (map code (allCurrencies (snd (loadCurrencies lowercase_provider initial))))
   \<and> toUpperCase ''eur'' \<noteq> ''eur''
   \<and> map code (allCurrencies (snd (loadCurrencies usd_listed_provider initial))) =
     [''EUR'', ''USD'', ''USD'']
   \<and> \<not> distinct (map code (allCurrencies (snd (loadCurrencies usd_listed_provider initial))))"
proof -
  have shared: "map code (allCurrencies (snd (loadCurrencies shared_symbol_provider initial))) =
      [''USD'', ''EUR'', ''GBP'', ''JPY'', ''ARS'', ''BRL'', ''USDC'', ''USDC'']"
    by (simp add: allCurrencies_loadCurrencies loadCryptoCurrencies_def loadFiatCurrencies_def
        shared_symbol_provider_def no_provider_def fallbackFiatCurrencies_def fetch_def json_def
        defined_def resolve_def await_def toUpperCase_def upper_char_def)
  have small: "map code (allCurrencies (snd (loadCurrencies lowercase_provider initial))) =
      [''USD'', ''eur'']"
    by (simp add: allCurrencies_loadCurrencies loadCryptoCurrencies_def loadFiatCurrencies_def
        lowercase_provider_def no_provider_def fetch_def json_def defined_def resolve_def
        await_def Object_keys_def initial_def Let_def)
  have upper: "toUpperCase ''eur'' \<noteq> ''eur''"
    by (simp add: toUpperCase_def upper_char_def)
  have listed: "map code (allCurrencies (snd (loadCurrencies usd_listed_provider initial))) =
      [''EUR'', ''USD'', ''USD'']"
    by (simp add: allCurrencies_loadCurrencies loadCryptoCurrencies_def loadFiatCurrencies_def
        usd_listed_provider_def no_provider_def fetch_def json_def defined_def resolve_def
        await_def Object_keys_def initial_def Let_def)
  from shared small upper listed show ?thesis
    by simp
qed

text \<open>
  Claim C7, amended. Every catalogue is the fiat entries followed by the crypto entries.
  The fiat codes are the six codes of the fallback list or, from a live table, USD and
  the table's keys as the provider writes them; the crypto codes are the symbols of the
  live ranking in upper case, or the codes of the fallback list as they are. So the
  codes are uppercase when the live table's keys and the fallback list's codes are, and
  unique when the crypto codes are pairwise different and different from the fiat codes
  and the live table does not list USD. On both crypto paths, \<^verbatim>\<open>cryptoIdMap\<close> maps the
  code of every crypto entry to the id of the last crypto entry with that code: to the
  entry's own id when the crypto codes are pairwise different.
\<close>

theorem catalogue_codes:
  "allCurrencies (snd (loadCurrencies w s)) =
     snd (loadFiatCurrencies w s) @ snd (snd (loadCryptoCurrencies w s))
   \<and> (case liveTable w of
         None \<Rightarrow>
           map code (snd (loadFiatCurrencies w s)) =
             [''USD'', ''EUR'', ''GBP'', ''JPY'', ''ARS'', ''BRL'']
       | Some table \<Rightarrow>
           set (map code (snd (loadFiatCurrencies w s))) = insert ''USD'' (fst ` set table)
           \<and> (''USD'' \<notin> fst ` set table \<longrightarrow> distinct (map code (snd (loadFiatCurrencies w s)))))
   \<and> (case liveRanking w of
         None \<Rightarrow> snd (snd (loadCryptoCurrencies w s)) = fallbackCryptoCurrencies s
       | Some coins \<Rightarrow>
           map code (snd (snd (loadCryptoCurrencies w s))) = map (\<lambda>m. toUpperCase (symbol m)) coins
           \<and> map currency_id (snd (snd (loadCryptoCurrencies w s))) =
               map (\<lambda>m. Some (market_id m)) coins)
   \<and> (\<forall>c \<in> set (snd (snd (loadCryptoCurrencies w s))).
         cryptoIdMap (snd (loadCurrencies w s)) (code c) =
           Some (currency_id
             (last (filter (\<lambda>d. code d = code c) (snd (snd (loadCryptoCurrencies w s)))))))
   \<and> (distinct (map code (snd (snd (loadCryptoCurrencies w s)))) \<longrightarrow>
         (\<forall>c \<in> set (snd (snd (loadCryptoCurrencies w s))).
            cryptoIdMap (snd (loadCurrencies w s)) (code c) = Some (currency_id c)))
   \<and> ((case liveTable w of None \<Rightarrow> True | Some table \<Rightarrow> \<forall>k \<in> fst ` set table. toUpperCase k = k)
        \<and> (liveRanking w = None \<longrightarrow>
             (\<forall>c \<in> set (fallbackCryptoCurrencies s). toUpperCase (code c) = code c)) \<longrightarrow>
         (\<forall>c \<in> set (allCurrencies (snd (loadCurrencies w s))). toUpperCase (code c) = code c))
   \<and> ((case liveTable w of None \<Rightarrow> True | Some table \<Rightarrow> ''USD'' \<notin> fst ` set table)
        \<and> distinct (map code (snd (snd (loadCryptoCurrencies w s))))
        \<and> set (map code (snd (snd (loadCryptoCurrencies w s))))
            \<inter> set (map code (snd (loadFiatCurrencies w s))) = {} \<longrightarrow>
         distinct (map code (allCurrencies (snd (loadCurrencies w s)))))"
proof -
  let ?F = "snd (loadFiatCurrencies w s)"
  let ?C = "snd (snd (loadCryptoCurrencies w s))"
  let ?s = "snd (loadCurrencies w s)"
  have catalogue: "allCurrencies ?s = ?F @ ?C"
    by (rule allCurrencies_loadCurrencies)
  have fiat: "case liveTable w of
      None \<Rightarrow> map code ?F = [''USD'', ''EUR'', ''GBP'', ''JPY'', ''ARS'', ''BRL'']
    | Some table \<Rightarrow>
        set (map code ?F) = insert ''USD'' (fst ` set table)
        \<and> (''USD'' \<notin> fst ` set table \<longrightarrow> distinct (map code ?F))"
    unfolding loadFiatCurrencies_cases
    by (cases "liveTable w")
      (simp_all only: option.case codes_fallbackFiatCurrencies codes_live_fiat simp_thms)
  have crypto: "case liveRanking w of
      None \<Rightarrow> ?C = fallbackCryptoCurrencies s
    | Some coins \<Rightarrow>
        map code ?C = map (\<lambda>m. toUpperCase (symbol m)) coins
        \<and> map currency_id ?C = map (\<lambda>m. Some (market_id m)) coins"
    unfolding loadCryptoCurrencies_cases
    by (cases "liveRanking w") (simp_all add: comp_def)
  have map_eq: "cryptoIdMap ?s = fold (\<lambda>c. Map_set (code c) (currency_id c)) ?C (cryptoIdMap s)"
    by (simp only: cryptoIdMap_loadCurrencies cryptoIdMap_loadCryptoCurrencies)
  have index: "\<forall>c \<in> set ?C. cryptoIdMap ?s (code c) =
      Some (currency_id (last (filter (\<lambda>d. code d = code c) ?C)))"
    unfolding map_eq by (blast intro: fold_set_last)
  have own: "distinct (map code ?C) \<longrightarrow>
      (\<forall>c \<in> set ?C. cryptoIdMap ?s (code c) = Some (currency_id c))"
  proof (intro impI ballI)
    fix c
    assume "distinct (map code ?C)" and "c \<in> set ?C"
    then have "filter (\<lambda>d. code d = code c) ?C = [c]"
      by (rule last_filter_distinct)
    with index \<open>c \<in> set ?C\<close> show "cryptoIdMap ?s (code c) = Some (currency_id c)"
      by simp
  qed
  have upper: "(case liveTable w of None \<Rightarrow> True
        | Some table \<Rightarrow> \<forall>k \<in> fst ` set table. toUpperCase k = k)
      \<and> (liveRanking w = None \<longrightarrow>
           (\<forall>c \<in> set (fallbackCryptoCurrencies s). toUpperCase (code c) = code c)) \<longrightarrow>
      (\<forall>c \<in> set (allCurrencies ?s). toUpperCase (code c) = code c)"
  proof (intro impI, elim conjE)
    assume keys: "case liveTable w of None \<Rightarrow> True
        | Some table \<Rightarrow> \<forall>k \<in> fst ` set table. toUpperCase k = k"
      and listed: "liveRanking w = None \<longrightarrow>
        (\<forall>c \<in> set (fallbackCryptoCurrencies s). toUpperCase (code c) = code c)"
    have upperF: "\<forall>k \<in> set (map code ?F). toUpperCase k = k"
    proof (cases "liveTable w")
      case None
      with fiat have "map code ?F = [''USD'', ''EUR'', ''GBP'', ''JPY'', ''ARS'', ''BRL'']"
        by simp
      then show ?thesis
        by (simp add: toUpperCase_def upper_char_def)
    next
      case (Some table)
      with fiat have "set (map code ?F) = insert ''USD'' (fst ` set table)"
        by simp
      moreover from Some keys have "\<forall>k \<in> fst ` set table. toUpperCase k = k"
        by simp
      ultimately show ?thesis
        using toUpperCase_USD by auto
    qed
    have upperC: "\<forall>k \<in> set (map code ?C). toUpperCase k = k"
    proof (cases "liveRanking w")
      case None
      with crypto listed show ?thesis
        by simp
    next
      case (Some coins)
      with crypto have "map code ?C = map (\<lambda>m. toUpperCase (symbol m)) coins"
        by simp
      then show ?thesis
        by (auto simp: toUpperCase_idem)
    qed
    from upperF upperC show "\<forall>c \<in> set (allCurrencies ?s). toUpperCase (code c) = code c"
      unfolding catalogue by auto
  qed
  have unique: "(case liveTable w of None \<Rightarrow> True | Some table \<Rightarrow> ''USD'' \<notin> fst ` set table)
      \<and> distinct (map code ?C) \<and> set (map code ?C) \<inter> set (map code ?F) = {} \<longrightarrow>
      distinct (map code (allCurrencies ?s))"
  proof (intro impI, elim conjE)
    assume usd: "case liveTable w of None \<Rightarrow> True | Some table \<Rightarrow> ''USD'' \<notin> fst ` set table"
      and dc: "distinct (map code ?C)"
      and disjoint: "set (map code ?C) \<inter> set (map code ?F) = {}"
    have "distinct (map code ?F)"
    proof (cases "liveTable w")
      case None
      with fiat have "map code ?F = [''USD'', ''EUR'', ''GBP'', ''JPY'', ''ARS'', ''BRL'']"
        by simp
      then show ?thesis
        by simp
    next
      case (Some table)
      with fiat usd show ?thesis
        by simp
    qed
    with dc disjoint show "distinct (map code (allCurrencies ?s))"
      unfolding catalogue by (simp add: Int_commute)
  qed
  from catalogue fiat crypto index own upper unique show ?thesis
    by (intro conjI)
qed

text \<open>
  A catalogue built from a live table and a live ranking, and the one built when no
  request is answered, from the two fallback lists.
\<close>

theorem catalogue_codes_example:
  "set (map code (snd (loadFiatCurrencies catalogue_provider initial))) = {''USD'', ''GBP'', ''EUR''}
   \<and> map code (snd (snd (loadCryptoCurrencies catalogue_provider initial))) = [''BTC'', ''ETH'']
   \<and> distinct (map code (allCurrencies (snd (loadCurrencies catalogue_provider initial))))
   \<and> list_all (\<lambda>c. toUpperCase (code c) = code c)
        (allCurrencies (snd (loadCurrencies catalogue_provider initial)))
   \<and> cryptoIdMap (snd (loadCurrencies catalogue_provider initial)) ''BTC'' = Some (Some ''bitcoin'')
   \<and> cryptoIdMap (snd (loadCurrencies catalogue_provider initial)) ''ETH'' = Some (Some ''ethereum'')
   \<and> map code (allCurrencies (snd (loadCurrencies no_provider (initializeFallbackData initial)))) =
       [''USD'', ''EUR'', ''GBP'', ''JPY'', ''ARS'', ''BRL'', ''BTC'', ''ETH'']
   \<and> distinct (map code
        (allCurrencies (snd (loadCurrencies no_provider (initializeFallbackData initial)))))
   \<and> list_all (\<lambda>c. toUpperCase (code c) = code c)
        (allCurrencies (snd (loadCurrencies no_provider (initializeFallbackData initial))))
   \<and> cryptoIdMap (snd (loadCurrencies no_provider (initializeFallbackData initial))) ''BTC'' =
       Some (Some ''bitcoin'')
   \<and> cryptoIdMap (snd (loadCurrencies no_provider (initializeFallbackData initial))) ''ETH'' =
       Some (Some ''ethereum'')"
proof -
  let ?btc = "\<lparr>code = ''BTC'', name = ''Bitcoin'', type = ''crypto'', currency_id = Some ''bitcoin''\<rparr>"
  let ?eth = "\<lparr>code = ''ETH'', name = ''Ethereum'', type = ''crypto'', currency_id = Some ''ethereum''\<rparr>"
  let ?f = "initializeFallbackData initial"
  note live = catalogue_codes [of catalogue_provider initial]
  note fallback = catalogue_codes [of no_provider ?f]
  have table: "liveTable catalogue_provider = Some [(''GBP'', 4 / 5), (''EUR'', 9 / 10)]"
    by (simp add: liveTable_def catalogue_provider_def no_provider_def)
  have ranking: "liveRanking catalogue_provider = Some
      [\<lparr>market_id = ''bitcoin'', symbol = ''btc'', market_name = ''Bitcoin''\<rparr>,
       \<lparr>market_id = ''ethereum'', symbol = ''eth'', market_name = ''Ethereum''\<rparr>]"
    by (simp add: liveRanking_def catalogue_provider_def no_provider_def)
  have unanswered: "liveTable no_provider = None" "liveRanking no_provider = None"
    by (simp_all add: liveTable_def liveRanking_def no_provider_def)
  have listed: "fallbackCryptoCurrencies ?f = [?btc, ?eth]"
    by (simp add: initializeFallbackData_def)
  have C: "snd (snd (loadCryptoCurrencies catalogue_provider initial)) = [?btc, ?eth]"
    by (simp add: loadCryptoCurrencies_cases ranking toUpperCase_def upper_char_def)
  have C': "snd (snd (loadCryptoCurrencies no_provider ?f)) = [?btc, ?eth]"
    by (simp only: loadCryptoCurrencies_cases unanswered option.case listed)
  have F: "set (map code (snd (loadFiatCurrencies catalogue_provider initial))) =
        insert ''USD'' (fst ` set [(''GBP'', 4 / 5 :: real), (''EUR'', 9 / 10)])
      \<and> (''USD'' \<notin> fst ` set [(''GBP'', 4 / 5 :: real), (''EUR'', 9 / 10)] \<longrightarrow>
           distinct (map code (snd (loadFiatCurrencies catalogue_provider initial))))"
    using live [THEN conjunct2, THEN conjunct1] unfolding table option.case .
  then have F1: "set (map code (snd (loadFiatCurrencies catalogue_provider initial))) =
      {''USD'', ''GBP'', ''EUR''}"
    by simp
  have F': "map code (snd (loadFiatCurrencies no_provider ?f)) =
      [''USD'', ''EUR'', ''GBP'', ''JPY'', ''ARS'', ''BRL'']"
    using fallback [THEN conjunct2, THEN conjunct1] unfolding unanswered option.case .
  have codes: "map code (snd (snd (loadCryptoCurrencies catalogue_provider initial))) = [''BTC'', ''ETH'']"
    by (simp add: C)
  have images: "code ` set (snd (loadFiatCurrencies catalogue_provider initial)) =
        {''USD'', ''GBP'', ''EUR''}"
      "code ` set (snd (loadFiatCurrencies no_provider ?f)) =
        {''USD'', ''EUR'', ''GBP'', ''JPY'', ''ARS'', ''BRL''}"
    using F1 arg_cong [OF F', of set] by simp_all
  have "(case liveTable catalogue_provider of None \<Rightarrow> True | Some table \<Rightarrow> ''USD'' \<notin> fst ` set table)
      \<and> distinct (map code (snd (snd (loadCryptoCurrencies catalogue_provider initial))))
      \<and> set (map code (snd (snd (loadCryptoCurrencies catalogue_provider initial))))
          \<inter> set (map code (snd (loadFiatCurrencies catalogue_provider initial))) = {}"
    by (simp add: table C images)
  with live [THEN conjunct2, THEN conjunct2, THEN conjunct2, THEN conjunct2, THEN conjunct2,
      THEN conjunct2]
  have unique: "distinct (map code (allCurrencies (snd (loadCurrencies catalogue_provider initial))))"
    by (rule mp)
  have "(case liveTable no_provider of None \<Rightarrow> True | Some table \<Rightarrow> ''USD'' \<notin> fst ` set table)
      \<and> distinct (map code (snd (snd (loadCryptoCurrencies no_provider ?f))))
      \<and> set (map code (snd (snd (loadCryptoCurrencies no_provider ?f))))
          \<inter> set (map code (snd (loadFiatCurrencies no_provider ?f))) = {}"
    by (simp add: unanswered C' images)
  with fallback [THEN conjunct2, THEN conjunct2, THEN conjunct2, THEN conjunct2, THEN conjunct2,
      THEN conjunct2]
  have unique': "distinct (map code (allCurrencies (snd (loadCurrencies no_provider ?f))))"
    by (rule mp)
  have "(case liveTable catalogue_provider of None \<Rightarrow> True
        | Some table \<Rightarrow> \<forall>k \<in> fst ` set table. toUpperCase k = k)
      \<and> (liveRanking catalogue_provider = None \<longrightarrow>
           (\<forall>c \<in> set (fallbackCryptoCurrencies initial). toUpperCase (code c) = code c))"
    by (simp add: table ranking toUpperCase_def upper_char_def)
  with live [THEN conjunct2, THEN conjunct2, THEN conjunct2, THEN conjunct2, THEN conjunct2,
      THEN conjunct1]
  have "\<forall>c \<in> set (allCurrencies (snd (loadCurrencies catalogue_provider initial))).
      toUpperCase (code c) = code c"
    by (rule mp)
  then have upper: "list_all (\<lambda>c. toUpperCase (code c) = code c)
      (allCurrencies (snd (loadCurrencies catalogue_provider initial)))"
    by (simp only: list_all_iff)
  have "(case liveTable no_provider of None \<Rightarrow> True
        | Some table \<Rightarrow> \<forall>k \<in> fst ` set table. toUpperCase k = k)
      \<and> (liveRanking no_provider = None \<longrightarrow>
           (\<forall>c \<in> set (fallbackCryptoCurrencies ?f). toUpperCase (code c) = code c))"
    by (simp add: unanswered listed toUpperCase_def upper_char_def)
  with fallback [THEN conjunct2, THEN conjunct2, THEN conjunct2, THEN conjunct2, THEN conjunct2,
      THEN conjunct1]
  have "\<forall>c \<in> set (allCurrencies (snd (loadCurrencies no_provider ?f))).
      toUpperCase (code c) = code c"
    by (rule mp)
  then have upper': "list_all (\<lambda>c. toUpperCase (code c) = code c)
      (allCurrencies (snd (loadCurrencies no_provider ?f)))"
    by (simp only: list_all_iff)
  have "distinct (map code (snd (snd (loadCryptoCurrencies catalogue_provider initial))))"
    by (simp add: C)
  with live [THEN conjunct2, THEN conjunct2, THEN conjunct2, THEN conjunct2, THEN conjunct1]
  have "\<forall>c \<in> set (snd (snd (loadCryptoCurrencies catalogue_provider initial))).
      cryptoIdMap (snd (loadCurrencies catalogue_provider initial)) (code c) = Some (currency_id c)"
    by (rule mp)
  then have index: "cryptoIdMap (snd (loadCurrencies catalogue_provider initial)) ''BTC'' =
        Some (Some ''bitcoin'')"
      "cryptoIdMap (snd (loadCurrencies catalogue_provider initial)) ''ETH'' =
        Some (Some ''ethereum'')"
    unfolding C by simp_all
  have "distinct (map code (snd (snd (loadCryptoCurrencies no_provider ?f))))"
    by (simp add: C')
  with fallback [THEN conjunct2, THEN conjunct2, THEN conjunct2, THEN conjunct2, THEN conjunct1]
  have "\<forall>c \<in> set (snd (snd (loadCryptoCurrencies no_provider ?f))).
      cryptoIdMap (snd (loadCurrencies no_provider ?f)) (code c) = Some (currency_id c)"
    by (rule mp)
  then have index': "cryptoIdMap (snd (loadCurrencies no_provider ?f)) ''BTC'' =
        Some (Some ''bitcoin'')"
      "cryptoIdMap (snd (loadCurrencies no_provider ?f)) ''ETH'' = Some (Some ''ethereum'')"
    unfolding C' by simp_all
  have all': "map code (allCurrencies (snd (loadCurrencies no_provider ?f))) =
      [''USD'', ''EUR'', ''GBP'', ''JPY'', ''ARS'', ''BRL'', ''BTC'', ''ETH'']"
    using fallback [THEN conjunct1] by (simp add: F' C')
  from F1 codes unique upper index all' unique' upper' index' show ?thesis
    by (intro conjI)
qed

section \<open>Autocomplete groups\<close>

text \<open>
  Claim C8. For a non-empty query the dropdown offers the matching fiat currencies
  first and the matching cryptocurrencies after them, each group in catalogue order;
  the fiat group is cut at 15 entries and the whole at 30, so at most 15 fiat entries
  are offered however many match and however few cryptocurrencies do.
\<close>

theorem autocomplete_groups:
  assumes "query \<noteq> []"
  shows "items (fst (showAutocompleteResults query s)) =
           take 15 (filter (\<lambda>c. type c = ''fiat'') (filter (matchesQuery query) (allCurrencies s)))
           @ take (30 - min 15 (length (filter (\<lambda>c. type c = ''fiat'')
                                  (filter (matchesQuery query) (allCurrencies s)))))
               (filter (\<lambda>c. type c = ''crypto'') (filter (matchesQuery query) (allCurrencies s)))
       \<and> length (items (fst (showAutocompleteResults query s))) \<le> 30
       \<and> length (filter (\<lambda>c. type c = ''fiat'') (items (fst (showAutocompleteResults query s)))) \<le> 15
       \<and> subseq (filter (\<lambda>c. type c = ''fiat'') (items (fst (showAutocompleteResults query s))))
            (allCurrencies s)
       \<and> subseq (filter (\<lambda>c. type c = ''crypto'') (items (fst (showAutocompleteResults query s))))
            (allCurrencies s)"
proof -
  define F where "F = filter (\<lambda>c. type c = ''fiat'') (filter (matchesQuery query) (allCurrencies s))"
  define C where "C = filter (\<lambda>c. type c = ''crypto'') (filter (matchesQuery query) (allCurrencies s))"
  define shown where "shown = items (fst (showAutocompleteResults query s))"
  have eq: "shown = take 15 F @ take (30 - min 15 (length F)) C"
    unfolding shown_def F_def C_def
    using items_showAutocompleteResults [OF assms, of s] items_renderCurrencyGroups by simp
  have types: "\<forall>c \<in> set F. type c = ''fiat''" "\<forall>c \<in> set C. type c = ''crypto''"
    by (simp_all add: F_def C_def)
  have fiat_items: "filter (\<lambda>c. type c = ''fiat'') shown = take 15 F"
    unfolding eq using types by (rule group_filters(1))
  have crypto_items: "filter (\<lambda>c. type c = ''crypto'') shown = take (30 - min 15 (length F)) C"
    unfolding eq using types by (rule group_filters(2))
  have subF: "subseq (take 15 F) (allCurrencies s)"
    unfolding F_def by (meson subseq_filter_left subseq_order.trans subseq_take_filtered)
  have subC: "subseq (take (30 - min 15 (length F)) C) (allCurrencies s)"
    unfolding C_def by (meson subseq_filter_left subseq_order.trans subseq_take_filtered)
  have len: "length shown \<le> 30"
    unfolding eq by simp
  have lenF: "length (filter (\<lambda>c. type c = ''fiat'') shown) \<le> 15"
    unfolding fiat_items by simp
  have "shown = take 15 F @ take (30 - min 15 (length F)) C
      \<and> length shown \<le> 30
      \<and> length (filter (\<lambda>c. type c = ''fiat'') shown) \<le> 15
      \<and> subseq (filter (\<lambda>c. type c = ''fiat'') shown) (allCurrencies s)
      \<and> subseq (filter (\<lambda>c. type c = ''crypto'') shown) (allCurrencies s)"
    using eq len lenF subF subC unfolding fiat_items crypto_items by blast
  then show ?thesis
    unfolding shown_def F_def C_def .
qed

theorem autocomplete_sixteen_dollars:
  "items (fst (showAutocompleteResults ''d'' dollars_page)) =
     map dollar [''AUD'', ''BBD'', ''BMD'', ''BND'', ''BSD'', ''BZD'', ''CAD'', ''FJD'',
                 ''GYD'', ''HKD'', ''KYD'', ''NZD'', ''SGD'', ''TWD'', ''USD'']
     @ [cur_DOGE]
   \<and> length (items (fst (showAutocompleteResults ''d'' dollars_page))) \<le> 30
   \<and> length (filter (\<lambda>c. type c = ''fiat'')
        (items (fst (showAutocompleteResults ''d'' dollars_page)))) \<le> 15"
proof -
  have q: "''d'' \<noteq> []"
    by simp
  have m: "filter (matchesQuery ''d'') (allCurrencies dollars_page) = allCurrencies dollars_page"
    by (simp add: dollars_page_def initial_def dollar_def cur_DOGE_def matchesQuery_def
        toLowerCase_def lower_char_def)
  have F: "filter (\<lambda>c. type c = ''fiat'') (allCurrencies dollars_page) =
      map dollar [''AUD'', ''BBD'', ''BMD'', ''BND'', ''BSD'', ''BZD'', ''CAD'', ''FJD'',
                  ''GYD'', ''HKD'', ''KYD'', ''NZD'', ''SGD'', ''TWD'', ''USD'', ''XCD'']"
    by (simp add: dollars_page_def initial_def dollar_def cur_DOGE_def)
  have C: "filter (\<lambda>c. type c = ''crypto'') (allCurrencies dollars_page) = [cur_DOGE]"
    by (simp add: dollars_page_def initial_def dollar_def cur_DOGE_def)
  note groups = autocomplete_groups [OF q, of dollars_page]
  have shown: "items (fst (showAutocompleteResults ''d'' dollars_page)) =
      map dollar [''AUD'', ''BBD'', ''BMD'', ''BND'', ''BSD'', ''BZD'', ''CAD'', ''FJD'',
                  ''GYD'', ''HKD'', ''KYD'', ''NZD'', ''SGD'', ''TWD'', ''USD'']
      @ [cur_DOGE]"
    using groups [THEN conjunct1] unfolding m F C by simp
  from shown groups [THEN conjunct2, THEN conjunct1]
    groups [THEN conjunct2, THEN conjunct2, THEN conjunct1]
  show ?thesis
    by (intro conjI)
qed

section \<open>Failures while resolving the rate\<close>

text \<open>
  Claim C9 lists a key missing from the returned table among the errors that end in the
  quotation-unavailable message. Reading a missing key of the rates table throws
  nothing: the rate is \<^verbatim>\<open>undefined\<close>, the converted amount is \<open>NaN\<close>, and the result
  panel and the success toast are shown.
\<close>

theorem missing_rate_is_displayed:
  "getFiatToFiatExchangeRate usd_eur_provider ''USD'' ''GBP'' =
     ([ExchangeRateRequest ''USD''], Inr Undefined)
   \<and> resultDiv (snd (convertCurrency usd_eur_provider (always 0) (page cur_USD cur_GBP ''100''))) =
       ResultConversion
         \<lparr>originalAmount = Fin 100, fromCurrency = ''USD'', convertedAmount = NaN,
          toCurrency = ''GBP'', exchangeRate = Undefined\<rparr>
   \<and> swal (snd (convertCurrency usd_eur_provider (always 0) (page cur_USD cur_GBP ''100''))) =
       Some SuccessToast"
proof -
  have rate: "getFiatToFiatExchangeRate usd_eur_provider ''USD'' ''GBP'' =
      ([ExchangeRateRequest ''USD''], Inr Undefined)"
    by (simp add: getFiatToFiatExchangeRate_def usd_eur_provider_def no_provider_def fetch_def
        json_def defined_def resolve_def await_def prop_num_def)
  have "exchangeRateFor usd_eur_provider (showLoadingIndicator (page cur_USD cur_GBP ''100''))
      ''USD'' ''GBP'' = ([ExchangeRateRequest ''USD''], Inr Undefined)"
    using rate
    by (simp add: exchangeRateFor_def selections_showLoadingIndicator page_def cur_USD_def
        cur_GBP_def selectCurrency_def)
  then have "resultDiv (snd (convertCurrency usd_eur_provider (always 0) (page cur_USD cur_GBP ''100''))) =
      ResultConversion
        \<lparr>originalAmount = Fin 100, fromCurrency = ''USD'', convertedAmount = NaN,
         toCurrency = ''GBP'', exchangeRate = Undefined\<rparr>
    \<and> swal (snd (convertCurrency usd_eur_provider (always 0) (page cur_USD cur_GBP ''100''))) =
      Some SuccessToast"
    by (simp add: convertCurrency_def Let_def displayConversionResult_def
        resultDiv_displayPriceChart swal_displayPriceChart swalClose_def case_prod_beta
        showLoadingIndicator_def page_def cur_USD_def cur_GBP_def selectCurrency_def
        initial_def parseFloat_100)
  with rate show ?thesis
    by simp
qed

text \<open>
  Claim C9, amended. With two different currencies selected and a valid amount, every
  exception thrown while the rate is resolved ends in the one quotation-unavailable
  message, with the submit button enabled again, the result panel not showing a
  conversion of this request, no chart drawn, and at most two requests sent, none of
  them twice. The rate functions throw when a request they send fails or is answered
  with a body that is not JSON, and, for two fiat or two crypto currencies, when the
  status is not 2xx. (A key missing from a rates table is not among the errors.)
\<close>

theorem quotation_failure:
  assumes sel: "selectedCode (fromInput s) = Some f" "selectedCode (toInput s) = Some t"
      "f \<noteq> []" "t \<noteq> []" "f \<noteq> t"
    and amt: "\<not> falsy_num (parseFloat (amountText s))" "\<not> js_le_zero (parseFloat (amountText s))"
    and fail: "thrown (exchangeRateFor w (showLoadingIndicator s) f t)"
  shows "convertCurrency w rnd s =
           (fst (exchangeRateFor w (showLoadingIndicator s) f t),
            showError QuotationUnavailable (swalClose (showLoadingIndicator s)))
       \<and> \<not> convertDisabled (snd (convertCurrency w rnd s))
       \<and> (if swalDefined s
           then swal (snd (convertCurrency w rnd s)) = Some (ErrorPopup QuotationUnavailable)
              \<and> resultDiv (snd (convertCurrency w rnd s)) = resultDiv s
           else resultDiv (snd (convertCurrency w rnd s)) = ResultError QuotationUnavailable)
       \<and> priceChart (snd (convertCurrency w rnd s)) = priceChart s
       \<and> length (fst (convertCurrency w rnd s)) \<le> 2
       \<and> distinct (fst (convertCurrency w rnd s))
       \<and> (unusable True (exchangeRateAPI w a) \<longrightarrow> thrown (getFiatToFiatExchangeRate w a b))
       \<and> (unusable True (coinGeckoAPI w
              (cryptoIdOf s (fromInput s) a @ '','' @ cryptoIdOf s (toInput s) b))
            \<longrightarrow> thrown (getCryptoToCryptoExchangeRate w s a b))
       \<and> (unusable False (coinGeckoAPI w (cryptoIdOf s (toInput s) b))
              \<or> a \<noteq> ''USD'' \<and> unusable False (exchangeRateAPI w a)
            \<longrightarrow> thrown (getFiatToCryptoExchangeRate w s a b))
       \<and> (unusable False (coinGeckoAPI w (cryptoIdOf s (fromInput s) a))
              \<or> b \<noteq> ''USD'' \<and> unusable False (exchangeRateAPI w ''USD'')
            \<longrightarrow> thrown (getCryptoToFiatExchangeRate w s a b))"
proof -
  obtain l e where rate: "exchangeRateFor w (showLoadingIndicator s) f t = (l, Inl e)"
    using fail by (cases "exchangeRateFor w (showLoadingIndicator s) f t")
      (auto simp: thrown_def split: sum.splits)
  have outcome: "convertCurrency w rnd s =
      (fst (exchangeRateFor w (showLoadingIndicator s) f t),
       showError QuotationUnavailable (swalClose (showLoadingIndicator s)))"
    using sel amt rate by (simp add: convertCurrency_def Let_def)
  have enabled: "\<not> convertDisabled (snd (convertCurrency w rnd s))"
    by (simp add: outcome showError_def Let_def)
  have shown: "if swalDefined s
      then swal (snd (convertCurrency w rnd s)) = Some (ErrorPopup QuotationUnavailable)
         \<and> resultDiv (snd (convertCurrency w rnd s)) = resultDiv s
      else resultDiv (snd (convertCurrency w rnd s)) = ResultError QuotationUnavailable"
    by (simp add: outcome showError_def swalClose_def showLoadingIndicator_def Let_def)
  have chart: "priceChart (snd (convertCurrency w rnd s)) = priceChart s"
    by (simp add: outcome showError_def swalClose_def showLoadingIndicator_def Let_def)
  have log: "length (fst (convertCurrency w rnd s)) \<le> 2" "distinct (fst (convertCurrency w rnd s))"
    using requests_exchangeRateFor [of w "showLoadingIndicator s" f t]
    by (simp_all add: outcome)
  have ff: "unusable True (exchangeRateAPI w a) \<longrightarrow> thrown (getFiatToFiatExchangeRate w a b)"
    by (auto simp: unusable_def thrown_def getFiatToFiatExchangeRate_def fetch_def json_def
        defined_def resolve_def throw_def await_def split: option.splits)
  have cc: "unusable True (coinGeckoAPI w
        (cryptoIdOf s (fromInput s) a @ '','' @ cryptoIdOf s (toInput s) b))
      \<longrightarrow> thrown (getCryptoToCryptoExchangeRate w s a b)"
    by (auto simp: unusable_def thrown_def getCryptoToCryptoExchangeRate_def fetch_def json_def
        defined_def resolve_def throw_def await_def Let_def split: option.splits)
  have fc: "unusable False (coinGeckoAPI w (cryptoIdOf s (toInput s) b))
        \<or> a \<noteq> ''USD'' \<and> unusable False (exchangeRateAPI w a)
      \<longrightarrow> thrown (getFiatToCryptoExchangeRate w s a b)"
    by (auto simp: unusable_def thrown_def getFiatToCryptoExchangeRate_def fetch_def json_def
        defined_def resolve_def throw_def await_def Let_def split: option.splits)
  have cf: "unusable False (coinGeckoAPI w (cryptoIdOf s (fromInput s) a))
        \<or> b \<noteq> ''USD'' \<and> unusable False (exchangeRateAPI w ''USD'')
      \<longrightarrow> thrown (getCryptoToFiatExchangeRate w s a b)"
    by (auto simp: unusable_def thrown_def getCryptoToFiatExchangeRate_def fetch_def json_def
        defined_def resolve_def throw_def await_def Let_def split: option.splits)
  from outcome enabled shown chart log ff cc fc cf show ?thesis
    by blast
qed

theorem quotation_failure_without_provider:
  "convertCurrency no_provider (always 0) (page cur_USD cur_EUR ''100'') =
     ([ExchangeRateRequest ''USD''],
      showError QuotationUnavailable (swalClose (showLoadingIndicator (page cur_USD cur_EUR ''100''))))
   \<and> \<not> convertDisabled (snd (convertCurrency no_provider (always 0) (page cur_USD cur_EUR ''100'')))
   \<and> swal (snd (convertCurrency no_provider (always 0) (page cur_USD cur_EUR ''100''))) =
       Some (ErrorPopup QuotationUnavailable)
   \<and> resultDiv (snd (convertCurrency no_provider (always 0) (page cur_USD cur_EUR ''100''))) =
       ResultInitial
   \<and> thrown (getFiatToFiatExchangeRate no_provider ''USD'' ''EUR'')"
proof -
  have sel: "selectedCode (fromInput (page cur_USD cur_EUR ''100'')) = Some ''USD''"
      "selectedCode (toInput (page cur_USD cur_EUR ''100'')) = Some ''EUR''"
      "''USD'' \<noteq> []" "''EUR'' \<noteq> []" "''USD'' \<noteq> ''EUR''"
    by (simp_all add: page_def cur_USD_def cur_EUR_def selectCurrency_def)
  have amt: "\<not> falsy_num (parseFloat (amountText (page cur_USD cur_EUR ''100'')))"
      "\<not> js_le_zero (parseFloat (amountText (page cur_USD cur_EUR ''100'')))"
    by (simp_all add: page_def parseFloat_100)
  have rate: "exchangeRateFor no_provider (showLoadingIndicator (page cur_USD cur_EUR ''100''))
      ''USD'' ''EUR'' = ([ExchangeRateRequest ''USD''], Inl NetworkFailure)"
    by (simp add: exchangeRateFor_def selections_showLoadingIndicator page_def cur_USD_def
        cur_EUR_def selectCurrency_def getFiatToFiatExchangeRate_def no_provider_def fetch_def
        await_def)
  then have fail: "thrown (exchangeRateFor no_provider
      (showLoadingIndicator (page cur_USD cur_EUR ''100'')) ''USD'' ''EUR'')"
    by (simp add: thrown_def)
  have gone: "unusable True (exchangeRateAPI no_provider ''USD'')"
    by (simp add: unusable_def no_provider_def)
  have page: "swalDefined (page cur_USD cur_EUR ''100'')"
      "resultDiv (page cur_USD cur_EUR ''100'') = ResultInitial"
    by (simp_all add: page_def initial_def)
  note failure = quotation_failure [OF sel amt fail, of "always 0" "''USD''" "''EUR''"]
  have outcome: "convertCurrency no_provider (always 0) (page cur_USD cur_EUR ''100'') =
      ([ExchangeRateRequest ''USD''],
       showError QuotationUnavailable (swalClose (showLoadingIndicator (page cur_USD cur_EUR ''100''))))"
    using failure [THEN conjunct1] by (simp add: rate)
  have enabled: "\<not> convertDisabled (snd (convertCurrency no_provider (always 0) (page cur_USD cur_EUR ''100'')))"
    using failure [THEN conjunct2, THEN conjunct1] .
  have shown: "swal (snd (convertCurrency no_provider (always 0) (page cur_USD cur_EUR ''100''))) =
      Some (ErrorPopup QuotationUnavailable)
    \<and> resultDiv (snd (convertCurrency no_provider (always 0) (page cur_USD cur_EUR ''100''))) =
      ResultInitial"
    using failure [THEN conjunct2, THEN conjunct2, THEN conjunct1] by (simp add: page)
  have thrown: "thrown (getFiatToFiatExchangeRate no_provider ''USD'' ''EUR'')"
    using failure [THEN conjunct2, THEN conjunct2, THEN conjunct2, THEN conjunct2,
        THEN conjunct2, THEN conjunct2, THEN conjunct1] gone by blast
  from outcome enabled shown thrown show ?thesis
    by blast
qed

section \<open>Validation of the amount\<close>

text \<open>
  Claim C10 says that an amount that does not parse is answered with the invalid-amount
  message and that all state is left unchanged. The selection is checked before the
  amount: with no currency selected the message is the one asking to select both
  currencies. And the state changes: \<open>showError\<close> enables the submit button and, on a
  page without SweetAlert2, writes the message over the result panel. Below, the second
  page is one whose earlier conversion is still loading when Enter is pressed on the
  amount \<^verbatim>\<open>abc\<close>.
\<close>

theorem unparsable_amount_other_outcomes:
  "convertCurrency no_provider (always 0) (initial\<lparr>amountText := ''abc''\<rparr>) =
     ([], showError SelectBothCurrencies (initial\<lparr>amountText := ''abc''\<rparr>))
   \<and> swal (snd (convertCurrency no_provider (always 0) (initial\<lparr>amountText := ''abc''\<rparr>))) =
       Some (ErrorPopup SelectBothCurrencies)
   \<and> swal (snd (convertCurrency no_provider (always 0) (initial\<lparr>amountText := ''abc''\<rparr>))) \<noteq>
       Some (ErrorPopup InvalidAmount)
   \<and> resultDiv (snd (convertCurrency no_provider (always 0)
         ((page cur_USD cur_EUR ''abc'')
            \<lparr>swalDefined := False, convertDisabled := True, resultDiv := ResultLoading\<rparr>))) =
       ResultError InvalidAmount
   \<and> \<not> convertDisabled (snd (convertCurrency no_provider (always 0)
         ((page cur_USD cur_EUR ''abc'')
            \<lparr>swalDefined := False, convertDisabled := True, resultDiv := ResultLoading\<rparr>)))
   \<and> snd (convertCurrency no_provider (always 0)
         ((page cur_USD cur_EUR ''abc'')
            \<lparr>swalDefined := False, convertDisabled := True, resultDiv := ResultLoading\<rparr>)) \<noteq>
       (page cur_USD cur_EUR ''abc'')
         \<lparr>swalDefined := False, convertDisabled := True, resultDiv := ResultLoading\<rparr>"
proof -
  have abc: "parseFloat ''abc'' = NaN"
    by (simp add: parseFloat_eval)
  have none: "convertCurrency no_provider (always 0) (initial\<lparr>amountText := ''abc''\<rparr>) =
      ([], showError SelectBothCurrencies (initial\<lparr>amountText := ''abc''\<rparr>))"
    by (simp add: convertCurrency_def initial_def)
  have popup: "swal (showError SelectBothCurrencies (initial\<lparr>amountText := ''abc''\<rparr>)) =
      Some (ErrorPopup SelectBothCurrencies)"
    by (simp add: showError_def initial_def)
  have busy: "convertCurrency no_provider (always 0)
      ((page cur_USD cur_EUR ''abc'')
         \<lparr>swalDefined := False, convertDisabled := True, resultDiv := ResultLoading\<rparr>) =
      ([], (page cur_USD cur_EUR ''abc'')
         \<lparr>swalDefined := False, convertDisabled := False, resultDiv := ResultError InvalidAmount\<rparr>)"
    by (simp add: convertCurrency_def showError_def page_def cur_USD_def cur_EUR_def
        selectCurrency_def initial_def abc)
  have changed: "(page cur_USD cur_EUR ''abc'')
        \<lparr>swalDefined := False, convertDisabled := False, resultDiv := ResultError InvalidAmount\<rparr> \<noteq>
      (page cur_USD cur_EUR ''abc'')
        \<lparr>swalDefined := False, convertDisabled := True, resultDiv := ResultLoading\<rparr>"
    by (simp add: page_def initial_def)
  from none popup busy changed show ?thesis
    by simp
qed

text \<open>
  Claim C10, amended. A text that \<open>parseFloat\<close> cannot read (the result is \<open>NaN\<close>) is
  rejected exactly as a text that reads as a non-positive number is: no request is sent,
  and the message shown is the invalid-amount message when both currencies are selected
  and the select-both-currencies message otherwise. Of the state, what \<open>showError\<close>
  sets changes and nothing else: the submit button is enabled, and the message replaces
  the popup shown or, on a page without SweetAlert2, the content of the result panel.
\<close>

theorem unparsable_amount_rejected:
  assumes nan: "parseFloat (amountText s) = NaN"
    and nonpos: "parseFloat txt = Fin a" "a \<le> 0"
  shows "convertCurrency w rnd s =
           ([], showError
                  (if falsy_str (selectedCode (fromInput s)) \<or> falsy_str (selectedCode (toInput s))
                   then SelectBothCurrencies else InvalidAmount) s)
       \<and> convertCurrency w rnd (s\<lparr>amountText := txt\<rparr>) =
           ([], showError
                  (if falsy_str (selectedCode (fromInput s)) \<or> falsy_str (selectedCode (toInput s))
                   then SelectBothCurrencies else InvalidAmount) (s\<lparr>amountText := txt\<rparr>))
       \<and> (showError m s)
             \<lparr>convertDisabled := convertDisabled s, swal := swal s, resultDiv := resultDiv s\<rparr> = s
       \<and> \<not> convertDisabled (showError m s)
       \<and> (if swalDefined s
           then swal (showError m s) = Some (ErrorPopup m)
              \<and> resultDiv (showError m s) = resultDiv s
           else resultDiv (showError m s) = ResultError m \<and> swal (showError m s) = swal s)"
proof -
  have rejected: "convertCurrency w rnd s =
      ([], showError
             (if falsy_str (selectedCode (fromInput s)) \<or> falsy_str (selectedCode (toInput s))
              then SelectBothCurrencies else InvalidAmount) s)"
    using nan by (simp add: convertCurrency_def falsy_str_def split: option.splits)
  have rejected': "convertCurrency w rnd (s\<lparr>amountText := txt\<rparr>) =
      ([], showError
             (if falsy_str (selectedCode (fromInput s)) \<or> falsy_str (selectedCode (toInput s))
              then SelectBothCurrencies else InvalidAmount) (s\<lparr>amountText := txt\<rparr>))"
    using nonpos by (simp add: convertCurrency_def falsy_str_def split: option.splits)
  have frame: "(showError m s)
      \<lparr>convertDisabled := convertDisabled s, swal := swal s, resultDiv := resultDiv s\<rparr> = s"
    by (simp add: showError_def Let_def)
  have enabled: "\<not> convertDisabled (showError m s)"
    by (simp add: showError_def Let_def)
  have shown: "if swalDefined s
      then swal (showError m s) = Some (ErrorPopup m) \<and> resultDiv (showError m s) = resultDiv s
      else resultDiv (showError m s) = ResultError m \<and> swal (showError m s) = swal s"
    by (simp add: showError_def Let_def)
  from rejected rejected' frame enabled shown show ?thesis
    by (intro conjI)
qed

theorem unparsable_amount_examples:
  "convertCurrency usd_eur_provider (always 0) (page cur_USD cur_EUR '''') =
     ([], showError InvalidAmount (page cur_USD cur_EUR ''''))
   \<and> convertCurrency usd_eur_provider (always 0) (page cur_USD cur_EUR ''abc'') =
     ([], showError InvalidAmount (page cur_USD cur_EUR ''abc''))
   \<and> convertCurrency usd_eur_provider (always 0) (page cur_USD cur_EUR ''-5'') =
     ([], showError InvalidAmount (page cur_USD cur_EUR ''-5''))
   \<and> swal (showError InvalidAmount (page cur_USD cur_EUR ''abc'')) = Some (ErrorPopup InvalidAmount)
   \<and> resultDiv (showError InvalidAmount (page cur_USD cur_EUR ''abc'')) = ResultInitial
   \<and> \<not> convertDisabled (showError InvalidAmount (page cur_USD cur_EUR ''abc''))"
proof -
  have empty: "parseFloat (amountText (page cur_USD cur_EUR '''')) = NaN"
    by (simp add: page_def parseFloat_eval)
  have letters: "parseFloat (amountText (page cur_USD cur_EUR ''abc'')) = NaN"
    by (simp add: page_def parseFloat_eval)
  have negative: "parseFloat ''-5'' = Fin (- 5)" "- 5 \<le> (0::real)"
    by (simp_all add: parseFloat_eval round64_eval)
  have sel: "\<not> (falsy_str (selectedCode (fromInput (page cur_USD cur_EUR x)))
      \<or> falsy_str (selectedCode (toInput (page cur_USD cur_EUR x))))" for x
    by (simp add: page_def cur_USD_def cur_EUR_def selectCurrency_def falsy_str_def)
  have typed: "(page cur_USD cur_EUR x)\<lparr>amountText := ''-5''\<rparr> = page cur_USD cur_EUR ''-5''"
      "swalDefined (page cur_USD cur_EUR x)" "resultDiv (page cur_USD cur_EUR x) = ResultInitial" for x
    by (simp_all add: page_def initial_def)
  note blank = unparsable_amount_rejected [OF empty negative, of usd_eur_provider "always 0" InvalidAmount]
  note abc = unparsable_amount_rejected [OF letters negative, of usd_eur_provider "always 0" InvalidAmount]
  have e1: "convertCurrency usd_eur_provider (always 0) (page cur_USD cur_EUR '''') =
      ([], showError InvalidAmount (page cur_USD cur_EUR ''''))"
    using blank [THEN conjunct1] sel [of "''''"] by (simp only: if_False)
  have e2: "convertCurrency usd_eur_provider (always 0) (page cur_USD cur_EUR ''abc'') =
      ([], showError InvalidAmount (page cur_USD cur_EUR ''abc''))"
    using abc [THEN conjunct1] sel [of "''abc''"] by (simp only: if_False)
  have e3: "convertCurrency usd_eur_provider (always 0) (page cur_USD cur_EUR ''-5'') =
      ([], showError InvalidAmount (page cur_USD cur_EUR ''-5''))"
    using abc [THEN conjunct2, THEN conjunct1] sel [of "''abc''"] by (simp only: if_False typed)
  have e4: "\<not> convertDisabled (showError InvalidAmount (page cur_USD cur_EUR ''abc''))"
    using abc [THEN conjunct2, THEN conjunct2, THEN conjunct2, THEN conjunct1] .
  have e5: "swal (showError InvalidAmount (page cur_USD cur_EUR ''abc'')) = Some (ErrorPopup InvalidAmount)
      \<and> resultDiv (showError InvalidAmount (page cur_USD cur_EUR ''abc'')) = ResultInitial"
    using abc [THEN conjunct2, THEN conjunct2, THEN conjunct2, THEN conjunct2]
    by (simp add: typed)
  from e1 e2 e3 e4 e5 show ?thesis
    by (intro conjI) simp_all
qed

end
